theory Spec2Isabelle
  imports Main "HOL-Library.Word" "HOL-Library.Signed_Division"
begin

unbundle bit_operations_syntax

section \<open>Data model of the predicated tile access iterator\<close>

text \<open>
  The embedding follows \<^verbatim>\<open>predicated_tile_access_iterator.h\<close>. C++ \<^verbatim>\<open>int\<close>,
  \<^verbatim>\<open>Index\<close> and \<^verbatim>\<open>LongIndex\<close> values are modelled as \<^typ>\<open>int\<close>; signed overflow is
  undefined behaviour in the source and is not modelled. C++ \<^verbatim>\<open>/\<close> and \<^verbatim>\<open>%\<close> truncate
  towards zero and are written \<open>sdiv\<close> and \<open>smod\<close>. The predicate words are
  \<^verbatim>\<open>uint32_t\<close>, modelled as \<^typ>\<open>32 word\<close>. A byte pointer is its integer address.
  Data members lose the trailing underscore of their C++ names.
\<close>

text \<open>\<^verbatim>\<open>layout::PitchLinearCoord\<close>: a (contiguous, strided) pair.\<close>

record Coord =
  contiguous :: int
  strided :: int

definition make_Coord :: "int \<Rightarrow> int \<Rightarrow> Coord" where
  "make_Coord c s = \<lparr>contiguous = c, strided = s\<rparr>"

definition coord_add :: "Coord \<Rightarrow> Coord \<Rightarrow> Coord" where
  "coord_add a b = make_Coord (contiguous a + contiguous b) (strided a + strided b)"

text \<open>\<^verbatim>\<open>coord[i]\<close>: rank 0 is the contiguous axis, rank 1 the strided axis.\<close>

definition coord_at :: "Coord \<Rightarrow> int \<Rightarrow> int" where
  "coord_at c i = (if i = 0 then contiguous c else strided c)"

text \<open>
  The template parameters of one instantiation: \<^verbatim>\<open>Shape\<close>, \<^verbatim>\<open>sizeof_bits<Element>\<close>,
  \<^verbatim>\<open>AdvanceRank\<close>, the constants of \<^verbatim>\<open>ThreadMap\<close> (with its \<^verbatim>\<open>initial_offset\<close>),
  \<^verbatim>\<open>AccessType::kElements\<close>, \<^verbatim>\<open>Gather\<close>, and whether a permutation is active together
  with the offset function \<^verbatim>\<open>PermuteLayout(extent, stride)(coord)\<close>.
\<close>

record Config =
  Shape_kContiguous :: int
  Shape_kStrided :: int
  Element_bits :: int
  kAdvanceRank :: int
  ThreadMap_kElementsPerAccess :: int
  Iterations_kContiguous :: int
  Iterations_kStrided :: int
  Delta_kContiguous :: int
  Delta_kStrided :: int
  initial_offset :: "int \<Rightarrow> Coord"
  AccessType_kElements :: int
  Gather :: bool
  Permute :: bool
  PermuteLayout :: "Coord \<Rightarrow> int \<Rightarrow> Coord \<Rightarrow> int"

definition kAccessesPerVector :: "Config \<Rightarrow> int" where
  "kAccessesPerVector cfg = ThreadMap_kElementsPerAccess cfg sdiv AccessType_kElements cfg"

definition kPredicatesPerByte :: int where
  "kPredicatesPerByte = 4"

definition kPredicatesPerWord :: int where
  "kPredicatesPerWord = 4 * kPredicatesPerByte"

definition Iterations_kCount :: "Config \<Rightarrow> int" where
  "Iterations_kCount cfg = Iterations_kContiguous cfg * Iterations_kStrided cfg"

definition kPredicateCount :: "Config \<Rightarrow> int" where
  "kPredicateCount cfg = Iterations_kCount cfg * kAccessesPerVector cfg"

definition kPredicateByteCount :: "Config \<Rightarrow> int" where
  "kPredicateByteCount cfg = (kPredicateCount cfg + kPredicatesPerByte - 1) sdiv kPredicatesPerByte"

definition kPredicateWordCount :: "Config \<Rightarrow> int" where
  "kPredicateWordCount cfg = (kPredicateByteCount cfg + 3) sdiv 4"

text \<open>
  The compile-time contract of an instantiation: the two \<^verbatim>\<open>static_assert\<close>s of the
  predicate class, the one on \<^verbatim>\<open>AdvanceRank\<close>, and positive counts and shapes.
\<close>

definition valid_config :: "Config \<Rightarrow> bool" where
  "valid_config cfg \<longleftrightarrow>
     0 < AccessType_kElements cfg \<and> 0 < ThreadMap_kElementsPerAccess cfg \<and>
     ThreadMap_kElementsPerAccess cfg smod AccessType_kElements cfg = 0 \<and>
     0 < Iterations_kContiguous cfg \<and> 0 < Iterations_kStrided cfg \<and>
     kPredicateWordCount cfg \<le> 4 \<and>
     (kAdvanceRank cfg = 0 \<or> kAdvanceRank cfg = 1) \<and>
     0 < Shape_kContiguous cfg \<and> 0 < Shape_kStrided cfg"

text \<open>The data members of \<^verbatim>\<open>PredicatedTileAccessIteratorPredicates\<close>.\<close>

record Predicates =
  predicates :: "32 word list"
  extent :: Coord
  thread_offset :: Coord
  residue_offset :: Coord
  iteration_vector :: int
  iteration_contiguous :: int
  iteration_strided :: int

section \<open>Predicate state\<close>

text \<open>
  One iteration of the second loop of \<^verbatim>\<open>compute_predicates_\<close>: the guard of access
  \<open>access_idx\<close> is OR-ed into its bit of the predicate words.
\<close>

definition compute_guard :: "Config \<Rightarrow> Coord \<Rightarrow> bool \<Rightarrow> Coord \<Rightarrow> bool" where
  "compute_guard cfg ext is_steady_state coord =
     (if is_steady_state then
        (if kAdvanceRank cfg = 0 then strided coord < strided ext
         else contiguous coord < contiguous ext)
      else (strided coord < strided ext \<and> contiguous coord < contiguous ext))"

definition compute_predicates_step ::
    "Config \<Rightarrow> Coord \<Rightarrow> bool \<Rightarrow> Coord \<Rightarrow> 32 word list \<Rightarrow> int \<Rightarrow> 32 word list" where
  "compute_predicates_step cfg ext is_steady_state toff preds access_idx =
     (let s = access_idx sdiv (Iterations_kContiguous cfg * kAccessesPerVector cfg);
          access_residual = access_idx smod (Iterations_kContiguous cfg * kAccessesPerVector cfg);
          c = access_residual sdiv kAccessesPerVector cfg;
          v = access_residual smod kAccessesPerVector cfg;
          iteration_coord = make_Coord (c * Delta_kContiguous cfg + v * AccessType_kElements cfg)
                                       (s * Delta_kStrided cfg);
          coord = coord_add toff iteration_coord;
          guard = compute_guard cfg ext is_steady_state coord;
          pred_idx = v + kAccessesPerVector cfg * (c + Iterations_kContiguous cfg * s);
          word_idx = pred_idx sdiv kPredicatesPerWord;
          residual = pred_idx smod kPredicatesPerWord;
          byte_idx = residual sdiv kPredicatesPerByte;
          bit_idx = residual smod kPredicatesPerByte
      in preds[nat word_idx :=
           (preds ! nat word_idx) OR push_bit (nat (byte_idx * 8 + bit_idx)) (of_bool guard)])"

text \<open>
  \<^verbatim>\<open>compute_predicates_\<close>: all \<^verbatim>\<open>kPredicateWordCount\<close> words are zeroed, then every
  access index below \<^verbatim>\<open>Iterations::kCount * kAccessesPerVector\<close> is visited in order.
\<close>

definition compute_predicates :: "Config \<Rightarrow> Coord \<Rightarrow> bool \<Rightarrow> Predicates \<Rightarrow> Predicates" where
  "compute_predicates cfg ext is_steady_state P =
     P\<lparr>predicates :=
         fold (\<lambda>access_idx preds.
                 compute_predicates_step cfg ext is_steady_state (thread_offset P) preds access_idx)
              (map int [0..<nat (Iterations_kCount cfg * kAccessesPerVector cfg)])
              (replicate (nat (kPredicateWordCount cfg)) 0)\<rparr>"

definition set_iteration_index :: "Config \<Rightarrow> int \<Rightarrow> Predicates \<Rightarrow> Predicates" where
  "set_iteration_index cfg index P =
     (let residual_access = index sdiv kAccessesPerVector cfg
      in P\<lparr>iteration_vector := index smod kAccessesPerVector cfg,
            iteration_contiguous := residual_access smod Iterations_kContiguous cfg,
            iteration_strided := residual_access sdiv Iterations_kContiguous cfg\<rparr>)"

definition set_predicates :: "Config \<Rightarrow> int \<Rightarrow> Coord \<Rightarrow> Predicates \<Rightarrow> Predicates" where
  "set_predicates cfg thread_id threadblock_offset P =
     (let (residue_offset_new, residue_extent) =
            (if kAdvanceRank cfg \<noteq> 0 then
               (let residue_size0 =
                      (coord_at (extent P) (kAdvanceRank cfg) - strided threadblock_offset)
                        smod Shape_kStrided cfg;
                    residue_size = (if residue_size0 = 0 then Shape_kStrided cfg else residue_size0)
                in (make_Coord 0 residue_size,
                    make_Coord (contiguous (extent P))
                               (min (strided threadblock_offset + residue_size) (strided (extent P)))))
             else
               (let residue_size0 =
                      (coord_at (extent P) (kAdvanceRank cfg) - contiguous threadblock_offset)
                        smod Shape_kContiguous cfg;
                    residue_size = (if residue_size0 = 0 then Shape_kContiguous cfg else residue_size0)
                in (make_Coord residue_size 0,
                    make_Coord (min (contiguous (extent P)) (contiguous threadblock_offset + residue_size))
                               (strided (extent P)))));
          P1 = P\<lparr>residue_offset := residue_offset_new,
                 thread_offset := coord_add threadblock_offset (initial_offset cfg thread_id)\<rparr>;
          P2 = compute_predicates cfg residue_extent False P1
      in set_iteration_index cfg 0 P2)"

text \<open>
  The constructor of the predicate class stores the extent only; every other member is
  written by \<^verbatim>\<open>set_predicates\<close> before it is read, so the initial values chosen here
  are never observed.
\<close>

definition Predicates_init :: "Coord \<Rightarrow> Predicates" where
  "Predicates_init ext =
     \<lparr>predicates = [], extent = ext, thread_offset = make_Coord 0 0,
      residue_offset = make_Coord 0 0, iteration_vector = 0, iteration_contiguous = 0,
      iteration_strided = 0\<rparr>"

text \<open>
  The mask operations loop over the \<^verbatim>\<open>kPredicateWordCount\<close> words. \<^verbatim>\<open>Mask\<close> is
  \<^verbatim>\<open>Array<uint32_t, kPredicateWordCount>\<close>, a list of that length here.
\<close>

definition Predicates_clear_mask :: "Config \<Rightarrow> bool \<Rightarrow> Predicates \<Rightarrow> Predicates" where
  "Predicates_clear_mask cfg enable P =
     P\<lparr>predicates :=
         fold (\<lambda>i preds. preds[i := (if enable then 0 else preds ! i)])
              [0..<nat (kPredicateWordCount cfg)] (predicates P)\<rparr>"

definition Predicates_enable_mask :: "Config \<Rightarrow> Predicates \<Rightarrow> Predicates" where
  "Predicates_enable_mask cfg P =
     P\<lparr>predicates :=
         fold (\<lambda>i preds. preds[i := 0xffffffff])
              [0..<nat (kPredicateWordCount cfg)] (predicates P)\<rparr>"

definition Predicates_set_mask :: "Config \<Rightarrow> 32 word list \<Rightarrow> Predicates \<Rightarrow> Predicates" where
  "Predicates_set_mask cfg msk P =
     P\<lparr>predicates :=
         fold (\<lambda>i preds. preds[i := msk ! i])
              [0..<nat (kPredicateWordCount cfg)] (predicates P)\<rparr>"

text \<open>\<^verbatim>\<open>get_mask\<close> writes into the caller's \<^verbatim>\<open>Mask\<close>; the model returns the written mask.\<close>

definition Predicates_get_mask :: "Config \<Rightarrow> Predicates \<Rightarrow> 32 word list \<Rightarrow> 32 word list" where
  "Predicates_get_mask cfg P msk =
     fold (\<lambda>i m. m[i := predicates P ! i]) [0..<nat (kPredicateWordCount cfg)] msk"

definition Predicates_valid :: "Config \<Rightarrow> Predicates \<Rightarrow> bool" where
  "Predicates_valid cfg P =
     (let pred_idx = iteration_vector P + kAccessesPerVector cfg *
                       (iteration_contiguous P + iteration_strided P * Iterations_kContiguous cfg);
          word_idx = pred_idx sdiv kPredicatesPerWord;
          residual = pred_idx smod kPredicatesPerWord;
          byte_idx = residual sdiv kPredicatesPerByte;
          bit_idx = residual smod kPredicatesPerByte
      in (predicates P ! nat word_idx) AND push_bit (nat (byte_idx * 8 + bit_idx)) 1 \<noteq> 0)"

section \<open>The pitch-linear iterator\<close>

text \<open>
  \<^verbatim>\<open>PredicatedTileAccessIteratorParams\<close> is declared in a header that is not part of the
  sources at hand; the iterator reads these four members of it.
\<close>

record Params =
  stride :: int
  inc_strided :: int
  inc_next :: int
  inc_advance :: int

text \<open>
  The data members of the pitch-linear specialization. The gather index array behind
  \<^verbatim>\<open>indices_\<close> is a function from positions to row indices.
\<close>

record Iterator =
  the_predicates :: Predicates
  params :: Params
  pointer :: int
  is_residue_tile :: bool
  indices :: "int \<Rightarrow> int"
  permute_layout :: "Coord \<Rightarrow> int"
  coord_offset :: Coord

text \<open>
  \<^verbatim>\<open>layout::PitchLinear::operator()\<close>: the offset in elements of a coordinate, as
  \<^verbatim>\<open>get()\<close> itself spells it out on the gather path
  (\<^verbatim>\<open>coord_strided * LongIndex(params_.stride_) + coord_contig\<close>).
\<close>

definition layout :: "int \<Rightarrow> Coord \<Rightarrow> int" where
  "layout str coord = contiguous coord + strided coord * str"

text \<open>
  \<^verbatim>\<open>OffsetBytes<Element>\<close> converts an element offset to bytes, with the formula of
  \<^verbatim>\<open>add_pointer_offset\<close>.
\<close>

definition OffsetBytes :: "Config \<Rightarrow> int \<Rightarrow> int" where
  "OffsetBytes cfg index = (Element_bits cfg * index) sdiv 8"

text \<open>\<^verbatim>\<open>sizeof(AccessType)\<close>: an access is an array of \<^verbatim>\<open>kElements\<close> elements.\<close>

definition sizeof_AccessType :: "Config \<Rightarrow> int" where
  "sizeof_AccessType cfg = (AccessType_kElements cfg * Element_bits cfg) sdiv 8"

definition add_pointer_offset :: "Config \<Rightarrow> int \<Rightarrow> Iterator \<Rightarrow> Iterator" where
  "add_pointer_offset cfg pointer_offset it =
     it\<lparr>pointer := pointer it + (Element_bits cfg * pointer_offset) sdiv 8\<rparr>"

text \<open>
  The constructor. \<^verbatim>\<open>coord_offset_\<close> is left uninitialised by the source when neither
  gather nor permute is active, and is never read then.
\<close>

definition PredicatedTileAccessIterator ::
    "Config \<Rightarrow> Params \<Rightarrow> int \<Rightarrow> Coord \<Rightarrow> int \<Rightarrow> Coord \<Rightarrow> (int \<Rightarrow> int) \<Rightarrow> Iterator" where
  "PredicatedTileAccessIterator cfg prm ptr ext thread_id threadblock_offset idxs =
     (let P = set_predicates cfg thread_id threadblock_offset (Predicates_init ext);
          it0 = \<lparr>the_predicates = P, params = prm, pointer = ptr, is_residue_tile = True,
                 indices = idxs, permute_layout = PermuteLayout cfg ext (stride prm),
                 coord_offset = make_Coord 0 0\<rparr>
      in if \<not> Gather cfg \<and> \<not> Permute cfg then
           add_pointer_offset cfg (layout (stride prm) (thread_offset P)) it0
         else
           (let it1 = it0\<lparr>coord_offset := thread_offset P\<rparr>
            in if \<not> Permute cfg then
                 add_pointer_offset cfg
                   (layout (stride prm) (make_Coord (contiguous (coord_offset it1)) 0)) it1
               else it1))"

definition valid :: "Config \<Rightarrow> Iterator \<Rightarrow> bool" where
  "valid cfg it = Predicates_valid cfg (the_predicates it)"

definition clear_mask :: "Config \<Rightarrow> bool \<Rightarrow> Iterator \<Rightarrow> Iterator" where
  "clear_mask cfg enable it =
     it\<lparr>the_predicates := Predicates_clear_mask cfg enable (the_predicates it)\<rparr>"

definition enable_mask :: "Config \<Rightarrow> Iterator \<Rightarrow> Iterator" where
  "enable_mask cfg it = it\<lparr>the_predicates := Predicates_enable_mask cfg (the_predicates it)\<rparr>"

definition set_mask :: "Config \<Rightarrow> 32 word list \<Rightarrow> Iterator \<Rightarrow> Iterator" where
  "set_mask cfg msk it =
     it\<lparr>the_predicates := Predicates_set_mask cfg msk (the_predicates it)\<rparr>"

definition get_mask :: "Config \<Rightarrow> Iterator \<Rightarrow> 32 word list \<Rightarrow> 32 word list" where
  "get_mask cfg it msk = Predicates_get_mask cfg (the_predicates it) msk"

text \<open>\<^verbatim>\<open>get()\<close>: \<^verbatim>\<open>nullptr\<close> is \<open>None\<close>, an address is \<open>Some\<close> of its byte address.\<close>

definition get :: "Config \<Rightarrow> Iterator \<Rightarrow> int option" where
  "get cfg it =
     (let P = the_predicates it in
      if Gather cfg \<or> Permute cfg then
        (if \<not> valid cfg it then None
         else
           (let coord_contig = (if Permute cfg then contiguous (coord_offset it) else 0)
                                 + iteration_contiguous P * Delta_kContiguous cfg
                                 + iteration_vector P * AccessType_kElements cfg;
                coord_strided0 = strided (coord_offset it) + iteration_strided P * Delta_kStrided cfg;
                coord_strided = (if Gather cfg then indices it coord_strided0 else coord_strided0);
                offset = (if Permute cfg then permute_layout it (make_Coord coord_contig coord_strided)
                          else coord_strided * stride (params it) + coord_contig)
            in Some (pointer it + OffsetBytes cfg offset)))
      else
        Some (pointer it
              + (iteration_contiguous P * (Delta_kContiguous cfg * Element_bits cfg)) sdiv 8
              + iteration_vector P * sizeof_AccessType cfg))"

text \<open>\<^verbatim>\<open>operator++\<close> of the pitch-linear specialization.\<close>

definition operator_inc :: "Config \<Rightarrow> Iterator \<Rightarrow> Iterator" where
  "operator_inc cfg it =
     (let P = the_predicates it;
          P1 = P\<lparr>iteration_vector := iteration_vector P + 1\<rparr>
      in if iteration_vector P1 < kAccessesPerVector cfg then it\<lparr>the_predicates := P1\<rparr>
         else
           (let P2 = P1\<lparr>iteration_vector := 0, iteration_contiguous := iteration_contiguous P1 + 1\<rparr>
            in if iteration_contiguous P2 < Iterations_kContiguous cfg then it\<lparr>the_predicates := P2\<rparr>
               else
                 (let P3 = P2\<lparr>iteration_contiguous := 0, iteration_strided := iteration_strided P2 + 1\<rparr>
                  in if iteration_strided P3 < Iterations_kStrided cfg then
                       (if \<not> Gather cfg \<and> \<not> Permute cfg then
                          it\<lparr>the_predicates := P3, pointer := pointer it + inc_strided (params it)\<rparr>
                        else it\<lparr>the_predicates := P3\<rparr>)
                     else
                       (let P4 = P3\<lparr>iteration_strided := 0\<rparr>
                        in if \<not> Gather cfg \<and> \<not> Permute cfg then
                             it\<lparr>the_predicates := P4,
                                pointer := pointer it + inc_next (params it) - inc_advance (params it)\<rparr>
                           else it\<lparr>the_predicates := P4\<rparr>))))"

text \<open>\<^verbatim>\<open>add_tile_offset\<close> of the pitch-linear specialization.\<close>

definition add_tile_offset :: "Config \<Rightarrow> Coord \<Rightarrow> Iterator \<Rightarrow> Iterator" where
  "add_tile_offset cfg tile_offset it =
     (if is_residue_tile it then
        (let P0 = the_predicates it;
             P1 = P0\<lparr>thread_offset := coord_add (thread_offset P0) (residue_offset P0)\<rparr>;
             P = compute_predicates cfg (extent P1) True P1;
             it1 = it\<lparr>the_predicates := P\<rparr>;
             it2 =
               (if \<not> Gather cfg \<and> \<not> Permute cfg then
                  (let a = add_pointer_offset cfg (layout (stride (params it1)) (residue_offset P)) it1
                   in if kAdvanceRank cfg \<noteq> 0 then
                        a\<lparr>pointer := pointer a
                             + inc_advance (params a) * (strided tile_offset - 1)
                             + (Shape_kContiguous cfg * contiguous tile_offset * Element_bits cfg) sdiv 8\<rparr>
                      else
                        a\<lparr>pointer := pointer a
                             + inc_advance (params a) * (contiguous tile_offset - 1)
                             + (Shape_kStrided cfg * strided tile_offset * Element_bits cfg) sdiv 8\<rparr>)
                else
                  (let b = it1\<lparr>coord_offset := (coord_offset it1)\<lparr>strided :=
                                 strided (thread_offset P)
                                 + Shape_kStrided cfg * (strided tile_offset - kAdvanceRank cfg)\<rparr>\<rparr>
                   in if \<not> Permute cfg then
                        add_pointer_offset cfg
                          (Shape_kContiguous cfg * (contiguous tile_offset - (1 - kAdvanceRank cfg)))
                          (add_pointer_offset cfg
                             (layout (stride (params b)) (make_Coord (contiguous (residue_offset P)) 0)) b)
                      else
                        b\<lparr>coord_offset := (coord_offset b)\<lparr>contiguous :=
                             contiguous (thread_offset P)
                             + Shape_kContiguous cfg * (contiguous tile_offset - (1 - kAdvanceRank cfg))\<rparr>\<rparr>))
         in it2\<lparr>is_residue_tile := False\<rparr>)
      else
        (let it2 =
               (if \<not> Gather cfg \<and> \<not> Permute cfg then
                  (if kAdvanceRank cfg \<noteq> 0 then
                     it\<lparr>pointer := pointer it
                          + inc_advance (params it) * strided tile_offset
                          + Shape_kContiguous cfg * contiguous tile_offset\<rparr>
                   else
                     it\<lparr>pointer := pointer it
                          + inc_advance (params it) * contiguous tile_offset
                          + Shape_kStrided cfg * strided tile_offset\<rparr>)
                else
                  (let b = it\<lparr>coord_offset := (coord_offset it)\<lparr>strided :=
                                 strided (coord_offset it) + Shape_kStrided cfg * strided tile_offset\<rparr>\<rparr>
                   in if \<not> Permute cfg then
                        add_pointer_offset cfg (Shape_kContiguous cfg * contiguous tile_offset) b
                      else
                        b\<lparr>coord_offset := (coord_offset b)\<lparr>contiguous :=
                             contiguous (coord_offset b)
                             + Shape_kContiguous cfg * contiguous tile_offset\<rparr>\<rparr>))
         in it2\<lparr>is_residue_tile := False\<rparr>))"

subsection \<open>The methods with a call counter\<close>






section \<open>Layout adapters\<close>

text \<open>
  \<^verbatim>\<open>MatrixCoord\<close> and the template parameters of an adapter specialization: a
  \<^verbatim>\<open>MatrixShape\<close>, the advance rank, the interleave factor, and the parameters handed to
  the underlying iterator unchanged (element, thread map, access type, gather and permute
  layout), kept in \<open>passthrough\<close>, whose own shape and advance rank are replaced.
\<close>

record MatrixCoord =
  row :: int
  column :: int

record MatrixConfig =
  Shape_kRow :: int
  Shape_kColumn :: int
  AdvanceRank :: int
  kInterleavedK :: int
  passthrough :: Config

text \<open>An adapter object holds the underlying pitch-linear iterator \<^verbatim>\<open>iterator_\<close>.\<close>

record Adapter =
  iterator :: Iterator

text \<open>The public mutating methods of an adapter, as a caller issues them.\<close>

datatype matrix_call =
  Mat_inc | Mat_add_tile_offset MatrixCoord | Mat_clear_mask bool | Mat_enable_mask
  | Mat_set_mask "32 word list"

text \<open>The row-major specialization: \<^verbatim>\<open>UnderlyingIterator\<close>, constructor and methods.\<close>

definition RowMajor_Underlying :: "MatrixConfig \<Rightarrow> Config" where
  "RowMajor_Underlying mc =
     (passthrough mc)\<lparr>Shape_kContiguous := Shape_kColumn mc, Shape_kStrided := Shape_kRow mc,
                       kAdvanceRank := (if AdvanceRank mc = 0 then 1 else 0)\<rparr>"

definition RowMajor_PredicatedTileAccessIterator ::
    "MatrixConfig \<Rightarrow> Params \<Rightarrow> int \<Rightarrow> MatrixCoord \<Rightarrow> int \<Rightarrow> MatrixCoord \<Rightarrow> (int \<Rightarrow> int)
     \<Rightarrow> Adapter" where
  "RowMajor_PredicatedTileAccessIterator mc prm ptr ext thread_id threadblock_offset idxs =
     \<lparr>iterator =
        PredicatedTileAccessIterator (RowMajor_Underlying mc) prm ptr
          (make_Coord (column ext) (row ext)) thread_id
          (make_Coord (column threadblock_offset) (row threadblock_offset)) idxs\<rparr>"

fun RowMajor_call :: "MatrixConfig \<Rightarrow> matrix_call \<Rightarrow> Adapter \<Rightarrow> Adapter" where
  "RowMajor_call mc Mat_inc a =
     a\<lparr>iterator := operator_inc (RowMajor_Underlying mc) (iterator a)\<rparr>"
| "RowMajor_call mc (Mat_add_tile_offset tile_offset) a =
     a\<lparr>iterator := add_tile_offset (RowMajor_Underlying mc)
                        (make_Coord (column tile_offset) (row tile_offset)) (iterator a)\<rparr>"
| "RowMajor_call mc (Mat_clear_mask enable) a =
     a\<lparr>iterator := clear_mask (RowMajor_Underlying mc) enable (iterator a)\<rparr>"
| "RowMajor_call mc Mat_enable_mask a =
     a\<lparr>iterator := enable_mask (RowMajor_Underlying mc) (iterator a)\<rparr>"
| "RowMajor_call mc (Mat_set_mask msk) a =
     a\<lparr>iterator := set_mask (RowMajor_Underlying mc) msk (iterator a)\<rparr>"

definition RowMajor_get :: "MatrixConfig \<Rightarrow> Adapter \<Rightarrow> int option" where
  "RowMajor_get mc a = get (RowMajor_Underlying mc) (iterator a)"

definition RowMajor_valid :: "MatrixConfig \<Rightarrow> Adapter \<Rightarrow> bool" where
  "RowMajor_valid mc a = valid (RowMajor_Underlying mc) (iterator a)"

definition RowMajor_get_mask :: "MatrixConfig \<Rightarrow> Adapter \<Rightarrow> 32 word list \<Rightarrow> 32 word list" where
  "RowMajor_get_mask mc a msk = get_mask (RowMajor_Underlying mc) (iterator a) msk"

text \<open>
  The row-major interleaved specialization. It exists for \<^verbatim>\<open>Gather = false\<close> and
  \<^verbatim>\<open>NoPermute\<close> only, and its constructor does not forward \<^verbatim>\<open>indices\<close>: the underlying
  iterator gets the default null index array, never read, a constant function here.
\<close>

definition RowMajorInterleaved_Underlying :: "MatrixConfig \<Rightarrow> Config" where
  "RowMajorInterleaved_Underlying mc =
     (passthrough mc)\<lparr>Shape_kContiguous := Shape_kColumn mc * kInterleavedK mc,
                       Shape_kStrided := Shape_kRow mc sdiv kInterleavedK mc,
                       kAdvanceRank := (if AdvanceRank mc = 0 then 1 else 0),
                       Gather := False, Permute := False\<rparr>"

definition RowMajorInterleaved_PredicatedTileAccessIterator ::
    "MatrixConfig \<Rightarrow> Params \<Rightarrow> int \<Rightarrow> MatrixCoord \<Rightarrow> int \<Rightarrow> MatrixCoord \<Rightarrow> (int \<Rightarrow> int)
     \<Rightarrow> Adapter" where
  "RowMajorInterleaved_PredicatedTileAccessIterator mc prm ptr ext thread_id threadblock_offset idxs =
     \<lparr>iterator =
        PredicatedTileAccessIterator (RowMajorInterleaved_Underlying mc) prm ptr
          (make_Coord (column ext * kInterleavedK mc) (row ext sdiv kInterleavedK mc)) thread_id
          (make_Coord (column threadblock_offset * kInterleavedK mc)
                      (row threadblock_offset sdiv kInterleavedK mc))
          (\<lambda>i. 0)\<rparr>"

fun RowMajorInterleaved_call :: "MatrixConfig \<Rightarrow> matrix_call \<Rightarrow> Adapter \<Rightarrow> Adapter" where
  "RowMajorInterleaved_call mc Mat_inc a =
     a\<lparr>iterator := operator_inc (RowMajorInterleaved_Underlying mc) (iterator a)\<rparr>"
| "RowMajorInterleaved_call mc (Mat_add_tile_offset tile_offset) a =
     a\<lparr>iterator := add_tile_offset (RowMajorInterleaved_Underlying mc)
                        (make_Coord (column tile_offset) (row tile_offset)) (iterator a)\<rparr>"
| "RowMajorInterleaved_call mc (Mat_clear_mask enable) a =
     a\<lparr>iterator := clear_mask (RowMajorInterleaved_Underlying mc) enable (iterator a)\<rparr>"
| "RowMajorInterleaved_call mc Mat_enable_mask a =
     a\<lparr>iterator := enable_mask (RowMajorInterleaved_Underlying mc) (iterator a)\<rparr>"
| "RowMajorInterleaved_call mc (Mat_set_mask msk) a =
     a\<lparr>iterator := set_mask (RowMajorInterleaved_Underlying mc) msk (iterator a)\<rparr>"

definition RowMajorInterleaved_get :: "MatrixConfig \<Rightarrow> Adapter \<Rightarrow> int option" where
  "RowMajorInterleaved_get mc a = get (RowMajorInterleaved_Underlying mc) (iterator a)"

definition RowMajorInterleaved_valid :: "MatrixConfig \<Rightarrow> Adapter \<Rightarrow> bool" where
  "RowMajorInterleaved_valid mc a = valid (RowMajorInterleaved_Underlying mc) (iterator a)"

definition RowMajorInterleaved_get_mask ::
    "MatrixConfig \<Rightarrow> Adapter \<Rightarrow> 32 word list \<Rightarrow> 32 word list" where
  "RowMajorInterleaved_get_mask mc a msk =
     get_mask (RowMajorInterleaved_Underlying mc) (iterator a) msk"

text \<open>The column-major interleaved specialization, under the same restrictions.\<close>

definition ColumnMajorInterleaved_Underlying :: "MatrixConfig \<Rightarrow> Config" where
  "ColumnMajorInterleaved_Underlying mc =
     (passthrough mc)\<lparr>Shape_kContiguous := Shape_kRow mc * kInterleavedK mc,
                       Shape_kStrided := Shape_kColumn mc sdiv kInterleavedK mc,
                       kAdvanceRank := (if AdvanceRank mc = 0 then 0 else 1),
                       Gather := False, Permute := False\<rparr>"

definition ColumnMajorInterleaved_PredicatedTileAccessIterator ::
    "MatrixConfig \<Rightarrow> Params \<Rightarrow> int \<Rightarrow> MatrixCoord \<Rightarrow> int \<Rightarrow> MatrixCoord \<Rightarrow> (int \<Rightarrow> int)
     \<Rightarrow> Adapter" where
  "ColumnMajorInterleaved_PredicatedTileAccessIterator mc prm ptr ext thread_id threadblock_offset idxs =
     \<lparr>iterator =
        PredicatedTileAccessIterator (ColumnMajorInterleaved_Underlying mc) prm ptr
          (make_Coord (row ext * kInterleavedK mc) (column ext sdiv kInterleavedK mc)) thread_id
          (make_Coord (row threadblock_offset * kInterleavedK mc)
                      (column threadblock_offset sdiv kInterleavedK mc))
          (\<lambda>i. 0)\<rparr>"

fun ColumnMajorInterleaved_call :: "MatrixConfig \<Rightarrow> matrix_call \<Rightarrow> Adapter \<Rightarrow> Adapter" where
  "ColumnMajorInterleaved_call mc Mat_inc a =
     a\<lparr>iterator := operator_inc (ColumnMajorInterleaved_Underlying mc) (iterator a)\<rparr>"
| "ColumnMajorInterleaved_call mc (Mat_add_tile_offset tile_offset) a =
     a\<lparr>iterator := add_tile_offset (ColumnMajorInterleaved_Underlying mc)
                        (make_Coord (row tile_offset) (column tile_offset)) (iterator a)\<rparr>"
| "ColumnMajorInterleaved_call mc (Mat_clear_mask enable) a =
     a\<lparr>iterator := clear_mask (ColumnMajorInterleaved_Underlying mc) enable (iterator a)\<rparr>"
| "ColumnMajorInterleaved_call mc Mat_enable_mask a =
     a\<lparr>iterator := enable_mask (ColumnMajorInterleaved_Underlying mc) (iterator a)\<rparr>"
| "ColumnMajorInterleaved_call mc (Mat_set_mask msk) a =
     a\<lparr>iterator := set_mask (ColumnMajorInterleaved_Underlying mc) msk (iterator a)\<rparr>"

definition ColumnMajorInterleaved_get :: "MatrixConfig \<Rightarrow> Adapter \<Rightarrow> int option" where
  "ColumnMajorInterleaved_get mc a = get (ColumnMajorInterleaved_Underlying mc) (iterator a)"

definition ColumnMajorInterleaved_valid :: "MatrixConfig \<Rightarrow> Adapter \<Rightarrow> bool" where
  "ColumnMajorInterleaved_valid mc a = valid (ColumnMajorInterleaved_Underlying mc) (iterator a)"

definition ColumnMajorInterleaved_get_mask ::
    "MatrixConfig \<Rightarrow> Adapter \<Rightarrow> 32 word list \<Rightarrow> 32 word list" where
  "ColumnMajorInterleaved_get_mask mc a msk =
     get_mask (ColumnMajorInterleaved_Underlying mc) (iterator a) msk"

subsection \<open>The adapters as the specification words them\<close>

text \<open>
  Following the specification's words, not the source: an adapter is the canonical
  pitch-linear iterator applied to mapped coordinates. Row-major exchanges the two logical
  axes (row becomes strided, column becomes contiguous, and so the advance rank \<open>r\<close>
  becomes \<open>1 - r\<close>); an interleaved layout multiplies one axis by the interleave factor and
  divides the other by it. Shape, extent and threadblock offset are element coordinates
  and are mapped that way; a tile offset counts tiles of the mapped shape and only has its
  axes ordered like the layout's.
\<close>

definition spec_swap_axes :: "MatrixCoord \<Rightarrow> Coord" where
  "spec_swap_axes c = make_Coord (column c) (row c)"

definition spec_keep_axes :: "MatrixCoord \<Rightarrow> Coord" where
  "spec_keep_axes c = make_Coord (row c) (column c)"

definition spec_shape :: "MatrixConfig \<Rightarrow> MatrixCoord" where
  "spec_shape mc = \<lparr>row = Shape_kRow mc, column = Shape_kColumn mc\<rparr>"

definition spec_scale_contiguous :: "int \<Rightarrow> Coord \<Rightarrow> Coord" where
  "spec_scale_contiguous k c = make_Coord (contiguous c * k) (strided c sdiv k)"

definition spec_canonical_config :: "MatrixConfig \<Rightarrow> Coord \<Rightarrow> int \<Rightarrow> Config" where
  "spec_canonical_config mc shape rank =
     (passthrough mc)\<lparr>Shape_kContiguous := contiguous shape, Shape_kStrided := strided shape,
                       kAdvanceRank := rank\<rparr>"

text \<open>The canonical iterator driven by the calls of the adapter's caller.\<close>

fun spec_canonical_call ::
    "Config \<Rightarrow> (MatrixCoord \<Rightarrow> Coord) \<Rightarrow> matrix_call \<Rightarrow> Iterator \<Rightarrow> Iterator" where
  "spec_canonical_call cfg f Mat_inc it = operator_inc cfg it"
| "spec_canonical_call cfg f (Mat_add_tile_offset t) it = add_tile_offset cfg (f t) it"
| "spec_canonical_call cfg f (Mat_clear_mask e) it = clear_mask cfg e it"
| "spec_canonical_call cfg f Mat_enable_mask it = enable_mask cfg it"
| "spec_canonical_call cfg f (Mat_set_mask m) it = set_mask cfg m it"

definition spec_RowMajor_config :: "MatrixConfig \<Rightarrow> Config" where
  "spec_RowMajor_config mc =
     spec_canonical_config mc (spec_swap_axes (spec_shape mc)) (1 - AdvanceRank mc)"

definition spec_RowMajor_run ::
    "MatrixConfig \<Rightarrow> Params \<Rightarrow> int \<Rightarrow> MatrixCoord \<Rightarrow> int \<Rightarrow> MatrixCoord \<Rightarrow> (int \<Rightarrow> int)
     \<Rightarrow> matrix_call list \<Rightarrow> Iterator" where
  "spec_RowMajor_run mc prm ptr ext tid tb idxs calls =
     fold (spec_canonical_call (spec_RowMajor_config mc) spec_swap_axes) calls
       (PredicatedTileAccessIterator (spec_RowMajor_config mc) prm ptr
          (spec_swap_axes ext) tid (spec_swap_axes tb) idxs)"

definition spec_RowMajorInterleaved_config :: "MatrixConfig \<Rightarrow> Config" where
  "spec_RowMajorInterleaved_config mc =
     (spec_canonical_config mc
        (spec_scale_contiguous (kInterleavedK mc) (spec_swap_axes (spec_shape mc)))
        (1 - AdvanceRank mc))\<lparr>Gather := False, Permute := False\<rparr>"

definition spec_RowMajorInterleaved_run ::
    "MatrixConfig \<Rightarrow> Params \<Rightarrow> int \<Rightarrow> MatrixCoord \<Rightarrow> int \<Rightarrow> MatrixCoord
     \<Rightarrow> matrix_call list \<Rightarrow> Iterator" where
  "spec_RowMajorInterleaved_run mc prm ptr ext tid tb calls =
     fold (spec_canonical_call (spec_RowMajorInterleaved_config mc) spec_swap_axes) calls
       (PredicatedTileAccessIterator (spec_RowMajorInterleaved_config mc) prm ptr
          (spec_scale_contiguous (kInterleavedK mc) (spec_swap_axes ext)) tid
          (spec_scale_contiguous (kInterleavedK mc) (spec_swap_axes tb)) (\<lambda>i. 0))"

definition spec_ColumnMajorInterleaved_config :: "MatrixConfig \<Rightarrow> Config" where
  "spec_ColumnMajorInterleaved_config mc =
     (spec_canonical_config mc
        (spec_scale_contiguous (kInterleavedK mc) (spec_keep_axes (spec_shape mc)))
        (AdvanceRank mc))\<lparr>Gather := False, Permute := False\<rparr>"

definition spec_ColumnMajorInterleaved_run ::
    "MatrixConfig \<Rightarrow> Params \<Rightarrow> int \<Rightarrow> MatrixCoord \<Rightarrow> int \<Rightarrow> MatrixCoord
     \<Rightarrow> matrix_call list \<Rightarrow> Iterator" where
  "spec_ColumnMajorInterleaved_run mc prm ptr ext tid tb calls =
     fold (spec_canonical_call (spec_ColumnMajorInterleaved_config mc) spec_keep_axes) calls
       (PredicatedTileAccessIterator (spec_ColumnMajorInterleaved_config mc) prm ptr
          (spec_scale_contiguous (kInterleavedK mc) (spec_keep_axes ext)) tid
          (spec_scale_contiguous (kInterleavedK mc) (spec_keep_axes tb)) (\<lambda>i. 0))"

section \<open>Auxiliary definitions for the statements\<close>

text \<open>
  The word and the bit position that \<^verbatim>\<open>compute_predicates_\<close> and \<^verbatim>\<open>valid\<close> derive from
  a predicate index: 16 predicates per word, 4 per byte, each byte using its low 4 bits.
\<close>

definition pred_word :: "int \<Rightarrow> nat" where
  "pred_word p = nat (p div 16)"

definition pred_bit :: "int \<Rightarrow> nat" where
  "pred_bit p = nat ((p mod 16) div 4 * 8 + (p mod 16) mod 4)"

text \<open>
  The logical coordinate of the access (vector \<open>v\<close>, contiguous iteration \<open>c\<close>, strided
  iteration \<open>s\<close>): the thread offset plus the iteration delta, as \<^verbatim>\<open>compute_predicates_\<close>
  forms it.
\<close>

definition iteration_coord :: "Config \<Rightarrow> int \<Rightarrow> int \<Rightarrow> int \<Rightarrow> Coord" where
  "iteration_coord cfg v c s =
     make_Coord (c * Delta_kContiguous cfg + v * AccessType_kElements cfg) (s * Delta_kStrided cfg)"

definition access_coord :: "Config \<Rightarrow> Coord \<Rightarrow> int \<Rightarrow> int \<Rightarrow> int \<Rightarrow> Coord" where
  "access_coord cfg toff v c s = coord_add toff (iteration_coord cfg v c s)"

text \<open>The predicate index of an access triple.\<close>

definition pred_index :: "Config \<Rightarrow> int \<Rightarrow> int \<Rightarrow> int \<Rightarrow> int" where
  "pred_index cfg v c s = v + kAccessesPerVector cfg * (c + Iterations_kContiguous cfg * s)"

text \<open>The cursor lies inside the iteration space of the thread map.\<close>

definition cursor_ok :: "Config \<Rightarrow> Predicates \<Rightarrow> bool" where
  "cursor_ok cfg P \<longleftrightarrow>
     0 \<le> iteration_vector P \<and> iteration_vector P < kAccessesPerVector cfg \<and>
     0 \<le> iteration_contiguous P \<and> iteration_contiguous P < Iterations_kContiguous cfg \<and>
     0 \<le> iteration_strided P \<and> iteration_strided P < Iterations_kStrided cfg"

text \<open>
  A well-formed iterator: the cursor is in range and the predicate array has its declared
  length \<^verbatim>\<open>kPredicateWordCount\<close>.
\<close>

definition wf_iterator :: "Config \<Rightarrow> Iterator \<Rightarrow> bool" where
  "wf_iterator cfg it \<longleftrightarrow>
     cursor_ok cfg (the_predicates it) \<and>
     length (predicates (the_predicates it)) = nat (kPredicateWordCount cfg)"

text \<open>The predicate state with its cursor placed on the access triple \<open>(v, c, s)\<close>.\<close>

definition at_cursor :: "Predicates \<Rightarrow> int \<Rightarrow> int \<Rightarrow> int \<Rightarrow> Predicates" where
  "at_cursor P v c s = P\<lparr>iteration_vector := v, iteration_contiguous := c, iteration_strided := s\<rparr>"

text \<open>
  A concrete instantiation used to exercise the theorems: a 128 x 32 tile of 32-bit
  elements advanced along the contiguous axis, 4 x 2 accesses per thread, 32 threads per
  row.
\<close>

definition cfg_example :: Config where
  "cfg_example =
     \<lparr>Shape_kContiguous = 128, Shape_kStrided = 32, Element_bits = 32, kAdvanceRank = 0,
      ThreadMap_kElementsPerAccess = 1, Iterations_kContiguous = 4, Iterations_kStrided = 2,
      Delta_kContiguous = 32, Delta_kStrided = 16,
      initial_offset = (\<lambda>t. make_Coord (t mod 32) (t div 32)),
      AccessType_kElements = 1, Gather = False, Permute = False,
      PermuteLayout = (\<lambda>e str c. contiguous c + strided c * str)\<rparr>"

definition prm_example :: Params where
  "prm_example = \<lparr>stride = 130, inc_strided = 8320, inc_next = - 7808, inc_advance = 512\<rparr>"

text \<open>
  The iterator of thread 5 over a 130 x 64 tensor at base address 1000 and threadblock
  offset (0, 0).
\<close>

definition it_example :: Iterator where
  "it_example =
     PredicatedTileAccessIterator cfg_example prm_example 1000 (make_Coord 130 64) 5
       (make_Coord 0 0) (\<lambda>i. i)"

text \<open>The same instantiation with gather addressing, for thread 1 and reversed rows.\<close>

definition cfg_gather :: Config where
  "cfg_gather = cfg_example\<lparr>Gather := True\<rparr>"

definition it_gather :: Iterator where
  "it_gather =
     PredicatedTileAccessIterator cfg_gather prm_example 1000 (make_Coord 130 64) 1
       (make_Coord 0 0) (\<lambda>i. 63 - i)"

text \<open>
  The residue size and the residue-adjusted extent that \<^verbatim>\<open>set_predicates\<close> computes from
  the extent and the threadblock offset, named so that statements can refer to them.
\<close>

definition residue_size :: "Config \<Rightarrow> Coord \<Rightarrow> Coord \<Rightarrow> int" where
  "residue_size cfg ext tb =
     (if kAdvanceRank cfg \<noteq> 0 then
        (let r = (coord_at ext (kAdvanceRank cfg) - strided tb) smod Shape_kStrided cfg
         in if r = 0 then Shape_kStrided cfg else r)
      else
        (let r = (coord_at ext (kAdvanceRank cfg) - contiguous tb) smod Shape_kContiguous cfg
         in if r = 0 then Shape_kContiguous cfg else r))"

definition residue_extent :: "Config \<Rightarrow> Coord \<Rightarrow> Coord \<Rightarrow> Coord" where
  "residue_extent cfg ext tb =
     (if kAdvanceRank cfg \<noteq> 0 then
        make_Coord (contiguous ext) (min (strided tb + residue_size cfg ext tb) (strided ext))
      else
        make_Coord (min (contiguous ext) (contiguous tb + residue_size cfg ext tb)) (strided ext))"

text \<open>The tile size along the advance axis.\<close>

definition advance_tile_size :: "Config \<Rightarrow> int" where
  "advance_tile_size cfg =
     (if kAdvanceRank cfg \<noteq> 0 then Shape_kStrided cfg else Shape_kContiguous cfg)"

text \<open>The logical coordinate of the access under the cursor of an iterator.\<close>

definition cursor_coord :: "Config \<Rightarrow> Iterator \<Rightarrow> Coord" where
  "cursor_coord cfg it =
     access_coord cfg (thread_offset (the_predicates it))
       (iteration_vector (the_predicates it)) (iteration_contiguous (the_predicates it))
       (iteration_strided (the_predicates it))"

text \<open>
  Thread 480 (thread offset (0, 15)) over a 128 x 30 tensor, and thread 0 over a tensor
  that is empty along the contiguous axis.
\<close>

definition it_divisible :: Iterator where
  "it_divisible =
     PredicatedTileAccessIterator cfg_example prm_example 1000 (make_Coord 128 30) 480
       (make_Coord 0 0) (\<lambda>i. i)"

definition it_empty :: Iterator where
  "it_empty =
     PredicatedTileAccessIterator cfg_example prm_example 1000 (make_Coord 0 64) 0
       (make_Coord 0 0) (\<lambda>i. i)"

text \<open>
  Thread 5 over a 130 x 10 tensor: the second strided row of its accesses lies outside
  the tensor.
\<close>

definition it_short :: Iterator where
  "it_short =
     PredicatedTileAccessIterator cfg_example prm_example 1000 (make_Coord 130 10) 5
       (make_Coord 0 0) (\<lambda>i. i)"

text \<open>A caller's sequence of cursor movements, run from left to right.\<close>

datatype iterator_op = Op_inc | Op_add_tile_offset Coord

fun apply_op :: "Config \<Rightarrow> iterator_op \<Rightarrow> Iterator \<Rightarrow> Iterator" where
  "apply_op cfg Op_inc it = operator_inc cfg it"
| "apply_op cfg (Op_add_tile_offset t) it = add_tile_offset cfg t it"

fun run_ops :: "Config \<Rightarrow> iterator_op list \<Rightarrow> Iterator \<Rightarrow> Iterator" where
  "run_ops cfg [] it = it"
| "run_ops cfg (x # xs) it = run_ops cfg xs (apply_op cfg x it)"





text \<open>
  A traversal along the advance axis: every tile offset of the sequence has a zero
  component on the other axis. \<open>tile_steps\<close> adds up the advance-axis components, the
  number of tile steps the sequence has taken.
\<close>

fun advance_only :: "Config \<Rightarrow> iterator_op list \<Rightarrow> bool" where
  "advance_only cfg [] = True"
| "advance_only cfg (Op_inc # xs) = advance_only cfg xs"
| "advance_only cfg (Op_add_tile_offset t # xs) =
     (coord_at t (1 - kAdvanceRank cfg) = 0 \<and> advance_only cfg xs)"

fun tile_steps :: "Config \<Rightarrow> iterator_op list \<Rightarrow> int" where
  "tile_steps cfg [] = 0"
| "tile_steps cfg (Op_inc # xs) = tile_steps cfg xs"
| "tile_steps cfg (Op_add_tile_offset t # xs) = coord_at t (kAdvanceRank cfg) + tile_steps cfg xs"

text \<open>
  The coordinate of the access under the cursor once \<open>n\<close> tile steps have been taken from
  the first tile: the threadblock offset plus the thread's initial offset, moved along the
  advance axis by the residue size and by \<open>n - 1\<close> full tiles, plus the iteration delta of
  the cursor.
\<close>

definition tile_origin :: "Config \<Rightarrow> Coord \<Rightarrow> Coord \<Rightarrow> int \<Rightarrow> Coord" where
  "tile_origin cfg ext tb n =
     (if kAdvanceRank cfg \<noteq> 0 then
        make_Coord 0 (residue_size cfg ext tb + (n - 1) * Shape_kStrided cfg)
      else
        make_Coord (residue_size cfg ext tb + (n - 1) * Shape_kContiguous cfg) 0)"

definition tile_coord :: "Config \<Rightarrow> Coord \<Rightarrow> int \<Rightarrow> Coord \<Rightarrow> int \<Rightarrow> Iterator \<Rightarrow> Coord" where
  "tile_coord cfg ext tid tb n it =
     coord_add (coord_add (coord_add tb (initial_offset cfg tid)) (tile_origin cfg ext tb n))
       (iteration_coord cfg (iteration_vector (the_predicates it))
          (iteration_contiguous (the_predicates it)) (iteration_strided (the_predicates it)))"

text \<open>
  The geometry of a traversal: the threadblock offset, the thread's initial offset and the
  deltas of the thread map are not negative.
\<close>

definition nonneg_geometry :: "Config \<Rightarrow> int \<Rightarrow> Coord \<Rightarrow> bool" where
  "nonneg_geometry cfg tid tb \<longleftrightarrow>
     0 \<le> contiguous tb \<and> 0 \<le> strided tb \<and>
     0 \<le> contiguous (initial_offset cfg tid) \<and> 0 \<le> strided (initial_offset cfg tid) \<and>
     0 \<le> Delta_kContiguous cfg \<and> 0 \<le> Delta_kStrided cfg"

text \<open>
  Modelled from the spec: the contents of \<^verbatim>\<open>PredicatedTileAccessIteratorParams\<close>, whose
  header is not part of the sources. Section 4.2 of the specification describes the
  increments as plain byte offsets derived from the stride and the thread map's deltas:
  \<^verbatim>\<open>inc_strided_\<close> takes the pointer from one strided row of accesses to the next, and
  \<^verbatim>\<open>inc_next_\<close> takes it from the last row of a tile to the first access of the next
  tile, which lies \<^verbatim>\<open>inc_advance_\<close> after the first access of the current one.
\<close>

definition params_ok :: "Config \<Rightarrow> Params \<Rightarrow> bool" where
  "params_ok cfg prm \<longleftrightarrow>
     inc_strided prm = (stride prm * Delta_kStrided cfg * Element_bits cfg) sdiv 8 \<and>
     inc_next prm = inc_advance prm - (Iterations_kStrided cfg - 1) * inc_strided prm"

text \<open>
  Modelled from the spec: the fourth increment of section 4.2, from the first access of
  one tile to the first access of the next tile along the advance axis, as a byte offset:
  one tile of strided rows when advancing along the strided axis, one tile of contiguous
  elements otherwise.
\<close>

definition params_advance_ok :: "Config \<Rightarrow> Params \<Rightarrow> bool" where
  "params_advance_ok cfg prm \<longleftrightarrow>
     inc_advance prm =
       (if kAdvanceRank cfg \<noteq> 0 then (Shape_kStrided cfg * stride prm * Element_bits cfg) sdiv 8
        else (Shape_kContiguous cfg * Element_bits cfg) sdiv 8)"

text \<open>
  Every access starts on a byte boundary: the access width, the contiguous delta, the
  stride, the thread's contiguous offset, the residue size and the tile size along the
  advance axis are whole bytes (always so for whole-byte elements).
\<close>

definition byte_aligned :: "Config \<Rightarrow> Params \<Rightarrow> Coord \<Rightarrow> int \<Rightarrow> Coord \<Rightarrow> bool" where
  "byte_aligned cfg prm ext tid tb \<longleftrightarrow>
     8 dvd Element_bits cfg * AccessType_kElements cfg \<and>
     8 dvd Element_bits cfg * Delta_kContiguous cfg \<and>
     8 dvd Element_bits cfg * stride prm \<and>
     8 dvd Element_bits cfg * contiguous (coord_add tb (initial_offset cfg tid)) \<and>
     8 dvd Element_bits cfg * residue_size cfg ext tb \<and>
     8 dvd Element_bits cfg * advance_tile_size cfg"

text \<open>A row-major instantiation over the example thread map, advancing along rows.\<close>

definition mc_example :: MatrixConfig where
  "mc_example =
     \<lparr>Shape_kRow = 32, Shape_kColumn = 128, AdvanceRank = 1, kInterleavedK = 4,
      passthrough = cfg_example\<rparr>"

section \<open>Arithmetic of the predicate index\<close>

text \<open>On non-negative operands truncating and flooring division agree.\<close>

lemma sdiv_nonneg: "0 \<le> a \<Longrightarrow> 0 \<le> b \<Longrightarrow> (a::int) sdiv b = a div b"
  by (cases "a = 0"; cases "b = 0") (simp_all add: signed_divide_int_def sgn_if)

lemma smod_nonneg: "0 \<le> a \<Longrightarrow> 0 \<le> b \<Longrightarrow> (a::int) smod b = a mod b"
  by (cases "a = 0") (simp_all add: signed_modulo_int_def sgn_if)

lemma pred_bit_lt: "pred_bit p < 32"
proof -
  have "0 \<le> p mod 16" "p mod 16 < 16" by simp_all
  then have "(p mod 16) div 4 \<le> 3" "0 \<le> (p mod 16) mod 4" "(p mod 16) mod 4 < 4"
    by simp_all
  then show ?thesis by (simp add: pred_bit_def nat_less_iff)
qed

lemma enc_inj:
  "0 \<le> b \<Longrightarrow> b < 4 \<Longrightarrow> 0 \<le> b' \<Longrightarrow> b' < 4 \<Longrightarrow> a * 8 + b = a' * 8 + b'
   \<Longrightarrow> a = a' \<and> b = (b'::int)"
  by arith

lemma pred_pos_inj:
  assumes "0 \<le> p" "0 \<le> q" "pred_word p = pred_word q" "pred_bit p = pred_bit q"
  shows "p = q"
proof -
  from assms have d: "p div 16 = q div 16" by (simp add: pred_word_def)
  have np: "0 \<le> (p mod 16) div 4 * 8 + (p mod 16) mod 4"
    by (simp add: pos_imp_zdiv_nonneg_iff)
  have nq: "0 \<le> (q mod 16) div 4 * 8 + (q mod 16) mod 4"
    by (simp add: pos_imp_zdiv_nonneg_iff)
  have "(p mod 16) div 4 * 8 + (p mod 16) mod 4 = (q mod 16) div 4 * 8 + (q mod 16) mod 4"
    using assms(4) np nq unfolding pred_bit_def by (metis int_nat_eq)
  then have "(p mod 16) div 4 = (q mod 16) div 4 \<and> (p mod 16) mod 4 = (q mod 16) mod 4"
    by (rule enc_inj [rotated -1]) simp_all
  then have "p mod 16 = q mod 16" by (metis mult_div_mod_eq)
  with d show ?thesis by (metis mult_div_mod_eq)
qed

lemma pred_word_lt:
  assumes "0 \<le> p" "p < n" 
  shows "pred_word p < nat (((n + 4 - 1) div 4 + 3) div 4)"
proof -
  define m where "m = (n + 4 - 1) div 4"
  define w where "w = (m + 3) div 4"
  have "n \<le> 4 * m" unfolding m_def by simp
  moreover have "m \<le> 4 * w" unfolding w_def by simp
  ultimately have "p < 16 * w" using assms by simp
  then have "p div 16 < w" by simp
  moreover have "0 \<le> p div 16" using assms by (simp add: pos_imp_zdiv_nonneg_iff)
  ultimately show ?thesis unfolding pred_word_def w_def m_def by (simp add: nat_less_iff)
qed

section \<open>The OR-accumulation loop\<close>

lemma bit_push_of_bool:
  "bit (push_bit m (of_bool g :: 32 word)) n \<longleftrightarrow> g \<and> n = m \<and> m < 32"
  by (cases g) (auto simp add: bit_push_bit_iff bit_1_iff bit_exp_iff)

lemma fold_or_length:
  "length (fold (\<lambda>i p. p[w i := p ! w i OR push_bit (b i) (of_bool (g i))]) js xs) = length xs"
  by (induction js arbitrary: xs) simp_all

lemma fold_or_bit:
  fixes xs :: "32 word list"
  assumes "k < length xs"
  shows "bit (fold (\<lambda>i p. p[w i := p ! w i OR push_bit (b i) (of_bool (g i))]) js xs ! k) n
         \<longleftrightarrow> bit (xs ! k) n \<or> (\<exists>i\<in>set js. w i = k \<and> b i = n \<and> g i \<and> n < 32)"
  using assms
proof (induction js arbitrary: xs)
  case Nil
  then show ?case by simp
next
  case (Cons j js)
  define e :: "32 word" where "e = push_bit (b j) (of_bool (g j))"
  define ys where "ys = xs[w j := xs ! w j OR e]"
  have be: "bit e n \<longleftrightarrow> g j \<and> n = b j \<and> b j < 32"
    unfolding e_def by (rule bit_push_of_bool)
  have len: "k < length ys" using Cons.prems by (simp add: ys_def)
  have here: "bit (ys ! k) n \<longleftrightarrow> bit (xs ! k) n \<or> (w j = k \<and> b j = n \<and> g j \<and> n < 32)"
  proof (cases "w j = k")
    case True
    then have "ys ! k = xs ! k OR e" using Cons.prems by (simp add: ys_def)
    then show ?thesis using True be by (auto simp add: bit_or_iff)
  next
    case False
    then have "ys ! k = xs ! k" by (simp add: ys_def)
    then show ?thesis using False by simp
  qed
  have "fold (\<lambda>i p. p[w i := p ! w i OR push_bit (b i) (of_bool (g i))]) (j # js) xs
        = fold (\<lambda>i p. p[w i := p ! w i OR push_bit (b i) (of_bool (g i))]) js ys"
    by (simp only: fold_simps ys_def e_def)
  then show ?case
    using Cons.IH [OF len] here by auto
qed

section \<open>Facts about a valid configuration\<close>

lemma kAccessesPerVector_pos: 
  assumes "valid_config cfg" shows "0 < kAccessesPerVector cfg"
proof -
  let ?n = "ThreadMap_kElementsPerAccess cfg" and ?k = "AccessType_kElements cfg"
  from assms have k: "0 < ?k" and n: "0 < ?n" and m: "?n smod ?k = 0"
    by (simp_all add: valid_config_def)
  from m k n have "?n mod ?k = 0" by (simp add: smod_nonneg)
  then have "?k dvd ?n" by (simp add: dvd_eq_mod_eq_0)
  with n k have "?k \<le> ?n" by (simp add: zdvd_imp_le)
  with k have "0 < ?n div ?k" by (simp add: pos_imp_zdiv_pos_iff)
  with k n show ?thesis by (simp add: kAccessesPerVector_def sdiv_nonneg)
qed

lemma Iterations_pos:
  "valid_config cfg \<Longrightarrow> 0 < Iterations_kContiguous cfg"
  "valid_config cfg \<Longrightarrow> 0 < Iterations_kStrided cfg"
  by (simp_all add: valid_config_def)

text \<open>Splitting an access index into (s, c, v) and recombining gives the index back.\<close>

lemma split_recombine:
  fixes i A C :: int
  assumes "0 < A" "0 < C"
  shows "(i mod (C * A)) mod A + A * ((i mod (C * A)) div A + C * (i div (C * A))) = i"
proof -
  have "(i mod (C * A)) mod A + A * ((i mod (C * A)) div A) = i mod (C * A)"
    by (simp add: mult.commute)
  moreover have "i mod (C * A) + (C * A) * (i div (C * A)) = i"
    by (simp add: mult.commute)
  ultimately show ?thesis by (simp add: algebra_simps)
qed

lemma combine_split:
  fixes v c s A C :: int
  assumes v: "0 \<le> v" "v < A" and c: "0 \<le> c" "c < C" and s: "0 \<le> s"
    and p: "p = v + A * (c + s * C)"
  shows "p div (C * A) = s" "(p mod (C * A)) div A = c" "(p mod (C * A)) mod A = v"
    "0 \<le> p" "p < C * A * (s + 1)"
proof -
  have A: "0 < A" and C: "0 < C" using v c by auto
  have r0: "0 \<le> v + A * c" using v c A by simp
  have "v + A * c < A + A * c" using v by simp
  also have "\<dots> = A * (c + 1)" by (simp add: algebra_simps)
  also have "\<dots> \<le> A * C" using c A by (intro mult_left_mono) auto
  finally have r1: "v + A * c < C * A" by (simp add: mult.commute)
  have ca: "C * A \<noteq> 0" using A C by simp
  have p': "p = (v + A * c) + s * (C * A)" by (simp add: p algebra_simps)
  have "p div (C * A) = s + (v + A * c) div (C * A)"
    unfolding p' using ca by simp
  then show "p div (C * A) = s" using r0 r1 by (simp add: div_pos_pos_trivial)
  have "p mod (C * A) = (v + A * c) mod (C * A)"
    unfolding p' by simp
  then have m: "p mod (C * A) = v + A * c" using r0 r1 by (simp add: mod_pos_pos_trivial)
  have "(v + A * c) div A = c + v div A" using A by simp
  then show "(p mod (C * A)) div A = c" using v by (simp add: m div_pos_pos_trivial)
  have "(v + A * c) mod A = v mod A" by simp
  then show "(p mod (C * A)) mod A = v" using v by (simp add: m mod_pos_pos_trivial)
  have "0 \<le> s * (C * A)" using s A C by simp
  then show "0 \<le> p" using r0 unfolding p' by linarith
  show "p < C * A * (s + 1)" using r1 unfolding p' by (simp add: algebra_simps)
qed

section \<open>What the predicate loop computes\<close>

lemma CA_pos: "valid_config cfg \<Longrightarrow> 0 < Iterations_kContiguous cfg * kAccessesPerVector cfg"
  by (simp add: kAccessesPerVector_pos Iterations_pos)

lemma pred_position:
  assumes "0 \<le> p"
  shows "nat (p sdiv kPredicatesPerWord) = pred_word p"
    and "nat ((p smod kPredicatesPerWord) sdiv kPredicatesPerByte * 8
              + (p smod kPredicatesPerWord) smod kPredicatesPerByte) = pred_bit p"
proof -
  have m: "p smod 16 = p mod 16" using assms by (simp add: smod_nonneg)
  have n: "0 \<le> p mod 16" by simp
  show "nat (p sdiv kPredicatesPerWord) = pred_word p"
    using assms by (simp add: kPredicatesPerWord_def kPredicatesPerByte_def sdiv_nonneg pred_word_def)
  show "nat ((p smod kPredicatesPerWord) sdiv kPredicatesPerByte * 8
              + (p smod kPredicatesPerWord) smod kPredicatesPerByte) = pred_bit p"
    using n by (simp add: kPredicatesPerWord_def kPredicatesPerByte_def m sdiv_nonneg smod_nonneg
        pred_bit_def)
qed

lemma compute_predicates_step_eq:
  assumes cfg: "valid_config cfg" and i: "0 \<le> i"
  shows "compute_predicates_step cfg ext ss toff preds i =
         preds[pred_word i := preds ! pred_word i OR
           push_bit (pred_bit i)
             (of_bool (compute_guard cfg ext ss
                (access_coord cfg toff
                   ((i mod (Iterations_kContiguous cfg * kAccessesPerVector cfg)) mod kAccessesPerVector cfg)
                   ((i mod (Iterations_kContiguous cfg * kAccessesPerVector cfg)) div kAccessesPerVector cfg)
                   (i div (Iterations_kContiguous cfg * kAccessesPerVector cfg)))))]"
proof -
  let ?A = "kAccessesPerVector cfg" and ?C = "Iterations_kContiguous cfg"
  have A: "0 < ?A" and C: "0 < ?C" and CA: "0 < ?C * ?A"
    using cfg by (simp_all add: kAccessesPerVector_pos Iterations_pos)
  have s: "i sdiv (?C * ?A) = i div (?C * ?A)" using i CA by (simp add: sdiv_nonneg)
  have r: "i smod (?C * ?A) = i mod (?C * ?A)" using i CA by (simp add: smod_nonneg)
  have rn: "0 \<le> i mod (?C * ?A)" using CA by simp
  have c: "(i mod (?C * ?A)) sdiv ?A = (i mod (?C * ?A)) div ?A"
    using rn A by (simp add: sdiv_nonneg)
  have v: "(i mod (?C * ?A)) smod ?A = (i mod (?C * ?A)) mod ?A"
    using rn A by (simp add: smod_nonneg)
  have idx: "(i mod (?C * ?A)) mod ?A + ?A * ((i mod (?C * ?A)) div ?A + ?C * (i div (?C * ?A))) = i"
    using A C by (rule split_recombine)
  show ?thesis
    unfolding compute_predicates_step_def Let_def s r c v idx
      pred_position [OF i] access_coord_def iteration_coord_def
    by (rule refl)
qed

lemma compute_predicates_fold:
  assumes cfg: "valid_config cfg"
  shows "predicates (compute_predicates cfg ext ss P) =
    fold (\<lambda>i p. p[pred_word i := p ! pred_word i OR
           push_bit (pred_bit i)
             (of_bool (compute_guard cfg ext ss
                (access_coord cfg (thread_offset P)
                   ((i mod (Iterations_kContiguous cfg * kAccessesPerVector cfg)) mod kAccessesPerVector cfg)
                   ((i mod (Iterations_kContiguous cfg * kAccessesPerVector cfg)) div kAccessesPerVector cfg)
                   (i div (Iterations_kContiguous cfg * kAccessesPerVector cfg)))))])
      (map int [0..<nat (Iterations_kCount cfg * kAccessesPerVector cfg)])
      (replicate (nat (kPredicateWordCount cfg)) 0)"
  unfolding compute_predicates_def
  by (simp, rule fold_cong) (auto simp add: compute_predicates_step_eq [OF cfg])

lemma compute_predicates_length:
  assumes cfg: "valid_config cfg"
  shows "length (predicates (compute_predicates cfg ext ss P)) = nat (kPredicateWordCount cfg)"
  unfolding compute_predicates_fold [OF cfg] fold_or_length by simp

lemma kPredicateCount_nonneg: "valid_config cfg \<Longrightarrow> 0 \<le> kPredicateCount cfg"
  using kAccessesPerVector_pos [of cfg]
  by (simp add: kPredicateCount_def Iterations_kCount_def valid_config_def)

lemma kPredicateWordCount_eq:
  assumes cfg: "valid_config cfg"
  shows "kPredicateWordCount cfg = ((kPredicateCount cfg + 4 - 1) div 4 + 3) div 4"
proof -
  have n: "0 \<le> kPredicateCount cfg" using cfg by (rule kPredicateCount_nonneg)
  then have b: "kPredicateByteCount cfg = (kPredicateCount cfg + 4 - 1) div 4"
    by (simp add: kPredicateByteCount_def kPredicatesPerByte_def sdiv_nonneg)
  have "0 \<le> (kPredicateCount cfg + 4 - 1) div 4" using n by (simp add: pos_imp_zdiv_nonneg_iff)
  then show ?thesis by (simp add: kPredicateWordCount_def b sdiv_nonneg)
qed

lemma pred_word_in_range:
  assumes cfg: "valid_config cfg" and p: "0 \<le> p" "p < kPredicateCount cfg"
  shows "pred_word p < nat (kPredicateWordCount cfg)"
  unfolding kPredicateWordCount_eq [OF cfg] using p by (rule pred_word_lt)

lemma pred_index_range:
  assumes cfg: "valid_config cfg"
    and v: "0 \<le> v" "v < kAccessesPerVector cfg"
    and c: "0 \<le> c" "c < Iterations_kContiguous cfg"
    and s: "0 \<le> s" "s < Iterations_kStrided cfg"
  shows "0 \<le> pred_index cfg v c s" "pred_index cfg v c s < kPredicateCount cfg"
proof -
  let ?A = "kAccessesPerVector cfg" and ?C = "Iterations_kContiguous cfg"
  have p: "pred_index cfg v c s = v + ?A * (c + s * ?C)"
    by (simp add: pred_index_def mult.commute)
  show "0 \<le> pred_index cfg v c s" using combine_split(4) [OF v c s(1) p] .
  have "pred_index cfg v c s < ?C * ?A * (s + 1)" using combine_split(5) [OF v c s(1) p] .
  also have "\<dots> \<le> ?C * ?A * Iterations_kStrided cfg"
    using s CA_pos [OF cfg] by (intro mult_left_mono) auto
  finally show "pred_index cfg v c s < kPredicateCount cfg"
    by (simp add: kPredicateCount_def Iterations_kCount_def algebra_simps)
qed

text \<open>After recomputation, the bit of every access triple is the guard of its coordinate.\<close>

lemma compute_predicates_bit:
  assumes cfg: "valid_config cfg"
    and v: "0 \<le> v" "v < kAccessesPerVector cfg"
    and c: "0 \<le> c" "c < Iterations_kContiguous cfg"
    and s: "0 \<le> s" "s < Iterations_kStrided cfg"
  shows "bit (predicates (compute_predicates cfg ext ss P) ! pred_word (pred_index cfg v c s))
             (pred_bit (pred_index cfg v c s))
         \<longleftrightarrow> compute_guard cfg ext ss (access_coord cfg (thread_offset P) v c s)"
proof -
  let ?A = "kAccessesPerVector cfg" and ?C = "Iterations_kContiguous cfg"
  let ?p = "pred_index cfg v c s"
  let ?g = "\<lambda>i. compute_guard cfg ext ss
                (access_coord cfg (thread_offset P)
                   ((i mod (?C * ?A)) mod ?A) ((i mod (?C * ?A)) div ?A) (i div (?C * ?A)))"
  let ?N = "nat (Iterations_kCount cfg * kAccessesPerVector cfg)"
  have pe: "?p = v + ?A * (c + s * ?C)" by (simp add: pred_index_def mult.commute)
  have p0: "0 \<le> ?p" and pN: "?p < kPredicateCount cfg"
    using pred_index_range [OF cfg v c s] by simp_all
  have k: "pred_word ?p < length (replicate (nat (kPredicateWordCount cfg)) (0::32 word))"
    using pred_word_in_range [OF cfg p0 pN] by simp
  have z: "replicate (nat (kPredicateWordCount cfg)) (0::32 word) ! pred_word ?p = 0"
    using k by simp
  have gp: "?g ?p = compute_guard cfg ext ss (access_coord cfg (thread_offset P) v c s)"
    using combine_split(1,2,3) [OF v c s(1) pe] by simp
  have mem: "?p \<in> set (map int [0..<?N])"
  proof -
    have "nat ?p < ?N" using p0 pN by (simp add: kPredicateCount_def nat_less_iff)
    then have "int (nat ?p) \<in> int ` {0..<?N}" by (intro imageI) simp
    then show ?thesis using p0 by simp
  qed
  have "bit (predicates (compute_predicates cfg ext ss P) ! pred_word ?p) (pred_bit ?p)
        \<longleftrightarrow> (\<exists>i\<in>set (map int [0..<?N]). pred_word i = pred_word ?p \<and>
               pred_bit i = pred_bit ?p \<and> ?g i \<and> pred_bit ?p < 32)"
    unfolding compute_predicates_fold [OF cfg] fold_or_bit [OF k] using z by simp
  also have "\<dots> \<longleftrightarrow> ?g ?p"
  proof
    assume "\<exists>i\<in>set (map int [0..<?N]). pred_word i = pred_word ?p \<and>
               pred_bit i = pred_bit ?p \<and> ?g i \<and> pred_bit ?p < 32"
    then obtain i where i: "i \<in> set (map int [0..<?N])" "pred_word i = pred_word ?p"
      "pred_bit i = pred_bit ?p" "?g i" by blast
    from i(1) have "0 \<le> i" by auto
    then have "i = ?p" using p0 i(2,3) by (rule pred_pos_inj)
    with i(4) show "?g ?p" by simp
  next
    assume "?g ?p"
    with mem pred_bit_lt [of ?p]
    show "\<exists>i\<in>set (map int [0..<?N]). pred_word i = pred_word ?p \<and>
               pred_bit i = pred_bit ?p \<and> ?g i \<and> pred_bit ?p < 32" by blast
  qed
  finally show ?thesis unfolding gp .
qed

lemma and_push_bit_1: "(w :: 32 word) AND push_bit n 1 \<noteq> 0 \<longleftrightarrow> bit w n"
  by (metis and_exp_eq_0_iff_not_bit push_bit_of_1)

text \<open>\<^verbatim>\<open>valid()\<close> reads the bit of the cursor's predicate index.\<close>

lemma Predicates_valid_bit:
  assumes cfg: "valid_config cfg" and cur: "cursor_ok cfg P"
  shows "Predicates_valid cfg P \<longleftrightarrow>
         bit (predicates P ! pred_word (pred_index cfg (iteration_vector P) (iteration_contiguous P)
                                          (iteration_strided P)))
             (pred_bit (pred_index cfg (iteration_vector P) (iteration_contiguous P)
                                          (iteration_strided P)))"
proof -
  let ?p = "pred_index cfg (iteration_vector P) (iteration_contiguous P) (iteration_strided P)"
  have p0: "0 \<le> ?p"
    using cur by (intro pred_index_range(1) [OF cfg]) (simp_all add: cursor_ok_def)
  have e: "iteration_vector P + kAccessesPerVector cfg *
             (iteration_contiguous P + iteration_strided P * Iterations_kContiguous cfg) = ?p"
    by (simp add: pred_index_def mult.commute)
  show ?thesis
    unfolding Predicates_valid_def Let_def e pred_position [OF p0] and_push_bit_1 by (rule refl)
qed

section \<open>The example configuration\<close>

lemma cfg_example_valid: "valid_config cfg_example"
  by (simp add: valid_config_def cfg_example_def kPredicateWordCount_def kPredicateByteCount_def
      kPredicateCount_def Iterations_kCount_def kAccessesPerVector_def kPredicatesPerByte_def
      signed_modulo_int_def)

lemma cfg_example_consts:
  "kAccessesPerVector cfg_example = 1" "Iterations_kContiguous cfg_example = 4"
  "Iterations_kStrided cfg_example = 2" "kAdvanceRank cfg_example = 0"
  "Delta_kContiguous cfg_example = 32" "Delta_kStrided cfg_example = 16"
  "AccessType_kElements cfg_example = 1" "Shape_kContiguous cfg_example = 128"
  "Shape_kStrided cfg_example = 32" "Element_bits cfg_example = 32"
  "Gather cfg_example = False" "Permute cfg_example = False"
  by (simp_all add: cfg_example_def kAccessesPerVector_def)

section \<open>Bit packing\<close>

lemma pred_bit_unused:
  "pred_bit p mod 8 < 4"
proof -
  have b: "0 \<le> (p mod 16) mod 4" "(p mod 16) mod 4 < 4" by simp_all
  have a: "0 \<le> (p mod 16) div 4" by (simp add: pos_imp_zdiv_nonneg_iff)
  have "int (pred_bit p) = (p mod 16) div 4 * 8 + (p mod 16) mod 4"
    using a b by (simp add: pred_bit_def)
  then have "int (pred_bit p) mod 8 = (p mod 16) mod 4"
    using b by (simp add: mod_pos_pos_trivial)
  then have "int (pred_bit p mod 8) < 4" using b by (simp add: zmod_int)
  then show ?thesis by simp
qed

lemma compute_predicates_unused_bits:
  assumes cfg: "valid_config cfg" and k: "k < nat (kPredicateWordCount cfg)"
    and n: "4 \<le> n mod 8"
  shows "\<not> bit (predicates (compute_predicates cfg ext ss P) ! k) n"
proof -
  have k': "k < length (replicate (nat (kPredicateWordCount cfg)) (0::32 word))" using k by simp
  have z: "replicate (nat (kPredicateWordCount cfg)) (0::32 word) ! k = 0" using k by simp
  show ?thesis
    unfolding compute_predicates_fold [OF cfg] fold_or_bit [OF k'] z
    using n pred_bit_unused by (auto simp add: not_less [symmetric])
qed

text \<open>
  Claim C6 (bit-packing contract). For an access triple \<open>(v, c, s)\<close> of the iteration
  space, with linear index \<open>p = v + kAccessesPerVector * (c + Iterations::kContiguous * s)\<close>:
  recomputation stores the guard of that access at bit \<open>(p mod 16 div 4) * 8 + p mod 16 mod 4\<close>
  of word \<open>p div 16\<close>; \<^verbatim>\<open>valid()\<close> with the cursor on the triple reads exactly that bit of
  the words currently held, whatever else the state contains; and the upper four bits of
  every byte stay clear after recomputation.
\<close>

theorem bit_packing_contract:
  assumes cfg: "valid_config cfg"
    and v: "0 \<le> v" "v < kAccessesPerVector cfg"
    and c: "0 \<le> c" "c < Iterations_kContiguous cfg"
    and s: "0 \<le> s" "s < Iterations_kStrided cfg"
    and p: "p = v + kAccessesPerVector cfg * (c + Iterations_kContiguous cfg * s)"
  shows "(bit (predicates (compute_predicates cfg ext ss P) ! nat (p div 16))
              (nat ((p mod 16) div 4 * 8 + (p mod 16) mod 4))
          = compute_guard cfg ext ss (access_coord cfg (thread_offset P) v c s))
       \<and> (Predicates_valid cfg (at_cursor Q v c s)
          = bit (predicates Q ! nat (p div 16)) (nat ((p mod 16) div 4 * 8 + (p mod 16) mod 4)))
       \<and> (k < nat (kPredicateWordCount cfg) \<and> 4 \<le> n mod 8
          \<longrightarrow> \<not> bit (predicates (compute_predicates cfg ext ss P) ! k) n)"
proof (intro conjI)
  have pi: "p = pred_index cfg v c s" by (simp add: p pred_index_def)
  show "bit (predicates (compute_predicates cfg ext ss P) ! nat (p div 16))
             (nat ((p mod 16) div 4 * 8 + (p mod 16) mod 4))
         = compute_guard cfg ext ss (access_coord cfg (thread_offset P) v c s)"
    using compute_predicates_bit [OF cfg v c s, of ext ss P]
    by (simp add: pi pred_word_def pred_bit_def)
  have cur: "cursor_ok cfg (at_cursor Q v c s)"
    using v c s by (simp add: cursor_ok_def at_cursor_def)
  show "Predicates_valid cfg (at_cursor Q v c s)
         = bit (predicates Q ! nat (p div 16)) (nat ((p mod 16) div 4 * 8 + (p mod 16) mod 4))"
    using Predicates_valid_bit [OF cfg cur]
    by (simp add: pi pred_word_def pred_bit_def at_cursor_def)
  show "k < nat (kPredicateWordCount cfg) \<and> 4 \<le> n mod 8
         \<longrightarrow> \<not> bit (predicates (compute_predicates cfg ext ss P) ! k) n"
    using compute_predicates_unused_bits [OF cfg] by blast
qed

theorem bit_packing_contract_witness:
  "valid_config cfg_example
   \<and> bit (predicates (compute_predicates cfg_example (make_Coord 2 64) False
                         (Predicates_init (make_Coord 130 64))) ! 0) 9 = False
   \<and> Predicates_valid cfg_example
         (at_cursor ((Predicates_init (make_Coord 130 64))\<lparr>predicates := [512]\<rparr>) 0 1 1) = True
   \<and> bit (predicates (compute_predicates cfg_example (make_Coord 2 64) False
                         (Predicates_init (make_Coord 130 64))) ! 0) 4 = False"
  using bit_packing_contract [of cfg_example 0 1 1 5 "make_Coord 2 64" False
      "Predicates_init (make_Coord 130 64)"
      "(Predicates_init (make_Coord 130 64))\<lparr>predicates := [512]\<rparr>" 0 4]
    cfg_example_valid
  by (simp add: cfg_example_consts compute_guard_def access_coord_def iteration_coord_def
      coord_add_def make_Coord_def Predicates_init_def kPredicateWordCount_def
      kPredicateByteCount_def kPredicateCount_def Iterations_kCount_def kPredicatesPerByte_def)

section \<open>Frame and invariant lemmas\<close>

lemma valid_after_compute:
  assumes cfg: "valid_config cfg"
    and v: "0 \<le> v" "v < kAccessesPerVector cfg"
    and c: "0 \<le> c" "c < Iterations_kContiguous cfg"
    and s: "0 \<le> s" "s < Iterations_kStrided cfg"
    and Q: "predicates Q = predicates (compute_predicates cfg ext ss P)"
  shows "Predicates_valid cfg (at_cursor Q v c s)
         = compute_guard cfg ext ss (access_coord cfg (thread_offset P) v c s)"
proof -
  have cur: "cursor_ok cfg (at_cursor Q v c s)"
    using v c s by (simp add: cursor_ok_def at_cursor_def)
  show ?thesis
    using Predicates_valid_bit [OF cfg cur] compute_predicates_bit [OF cfg v c s, of ext ss P]
    by (simp add: at_cursor_def Q)
qed

lemma operator_inc_frame:
  "predicates (the_predicates (operator_inc cfg it)) = predicates (the_predicates it)"
  "extent (the_predicates (operator_inc cfg it)) = extent (the_predicates it)"
  "thread_offset (the_predicates (operator_inc cfg it)) = thread_offset (the_predicates it)"
  "residue_offset (the_predicates (operator_inc cfg it)) = residue_offset (the_predicates it)"
  "is_residue_tile (operator_inc cfg it) = is_residue_tile it"
  "params (operator_inc cfg it) = params it"
  "indices (operator_inc cfg it) = indices it"
  "permute_layout (operator_inc cfg it) = permute_layout it"
  "coord_offset (operator_inc cfg it) = coord_offset it"
  by (simp_all add: operator_inc_def Let_def)

lemma operator_inc_cursor_ok:
  assumes "cursor_ok cfg (the_predicates it)"
  shows "cursor_ok cfg (the_predicates (operator_inc cfg it))"
  using assms by (auto simp add: operator_inc_def Let_def cursor_ok_def)

lemma operator_inc_wraps:
  assumes "iteration_vector (the_predicates it) + 1 = kAccessesPerVector cfg"
    and "iteration_contiguous (the_predicates it) + 1 = Iterations_kContiguous cfg"
    and "iteration_strided (the_predicates it) + 1 = Iterations_kStrided cfg"
  shows "iteration_vector (the_predicates (operator_inc cfg it)) = 0"
    and "iteration_contiguous (the_predicates (operator_inc cfg it)) = 0"
    and "iteration_strided (the_predicates (operator_inc cfg it)) = 0"
  using assms by (simp_all add: operator_inc_def Let_def)

lemma set_iteration_index_zero:
  "iteration_vector (set_iteration_index cfg 0 P) = 0"
  "iteration_contiguous (set_iteration_index cfg 0 P) = 0"
  "iteration_strided (set_iteration_index cfg 0 P) = 0"
  "predicates (set_iteration_index cfg 0 P) = predicates P"
  "extent (set_iteration_index cfg 0 P) = extent P"
  "thread_offset (set_iteration_index cfg 0 P) = thread_offset P"
  "residue_offset (set_iteration_index cfg 0 P) = residue_offset P"
  by (simp_all add: set_iteration_index_def Let_def)

lemma compute_predicates_frame:
  "extent (compute_predicates cfg ext ss P) = extent P"
  "thread_offset (compute_predicates cfg ext ss P) = thread_offset P"
  "residue_offset (compute_predicates cfg ext ss P) = residue_offset P"
  "iteration_vector (compute_predicates cfg ext ss P) = iteration_vector P"
  "iteration_contiguous (compute_predicates cfg ext ss P) = iteration_contiguous P"
  "iteration_strided (compute_predicates cfg ext ss P) = iteration_strided P"
  by (simp_all add: compute_predicates_def)

lemma set_predicates_cursor:
  "iteration_vector (set_predicates cfg tid tb P) = 0"
  "iteration_contiguous (set_predicates cfg tid tb P) = 0"
  "iteration_strided (set_predicates cfg tid tb P) = 0"
  by (simp_all add: set_predicates_def Let_def split_def set_iteration_index_zero)

lemma ctor_the_predicates:
  "the_predicates (PredicatedTileAccessIterator cfg prm ptr ext tid tb idxs)
   = set_predicates cfg tid tb (Predicates_init ext)"
  by (simp add: PredicatedTileAccessIterator_def Let_def add_pointer_offset_def)

lemma cursor_ok_zero:
  assumes cfg: "valid_config cfg"
    and "iteration_vector P = 0" "iteration_contiguous P = 0" "iteration_strided P = 0"
  shows "cursor_ok cfg P"
  using assms kAccessesPerVector_pos [OF cfg] Iterations_pos [OF cfg]
  by (simp add: cursor_ok_def)

lemma ctor_cursor_ok:
  assumes cfg: "valid_config cfg"
  shows "cursor_ok cfg (the_predicates (PredicatedTileAccessIterator cfg prm ptr ext tid tb idxs))"
  unfolding ctor_the_predicates
  by (rule cursor_ok_zero [OF cfg]) (simp_all add: set_predicates_cursor)

lemma funpow_operator_inc_cursor_ok:
  assumes "cursor_ok cfg (the_predicates it)"
  shows "cursor_ok cfg (the_predicates ((operator_inc cfg ^^ k) it))"
  by (induction k) (simp_all add: assms operator_inc_cursor_ok)

lemma funpow_operator_inc_frame:
  "predicates (the_predicates ((operator_inc cfg ^^ k) it)) = predicates (the_predicates it)"
  "extent (the_predicates ((operator_inc cfg ^^ k) it)) = extent (the_predicates it)"
  "thread_offset (the_predicates ((operator_inc cfg ^^ k) it)) = thread_offset (the_predicates it)"
  "residue_offset (the_predicates ((operator_inc cfg ^^ k) it)) = residue_offset (the_predicates it)"
  "is_residue_tile ((operator_inc cfg ^^ k) it) = is_residue_tile it"
  "params ((operator_inc cfg ^^ k) it) = params it"
  "indices ((operator_inc cfg ^^ k) it) = indices it"
  "permute_layout ((operator_inc cfg ^^ k) it) = permute_layout it"
  "coord_offset ((operator_inc cfg ^^ k) it) = coord_offset it"
  by (induction k) (simp_all add: operator_inc_frame)

lemma cursor_pred_index_in_range:
  assumes cfg: "valid_config cfg" and cur: "cursor_ok cfg P"
  shows "0 \<le> pred_index cfg (iteration_vector P) (iteration_contiguous P) (iteration_strided P)"
    and "pred_index cfg (iteration_vector P) (iteration_contiguous P) (iteration_strided P)
         < kPredicateCount cfg"
  using cur by (auto simp add: cursor_ok_def intro!: pred_index_range [OF cfg])

section \<open>Claims about predicates and the cursor\<close>

text \<open>
  Claim C5 (steady-state predicate asymmetry). After a recomputation with the
  steady-state flag set, the predicate of every access triple is the bounds check of one
  axis only: the strided coordinate against the strided extent when the advance rank is 0,
  the contiguous coordinate against the contiguous extent otherwise. The coordinate on the
  advance axis does not enter.
\<close>

theorem steady_state_predicate_asymmetry:
  assumes cfg: "valid_config cfg"
    and v: "0 \<le> v" "v < kAccessesPerVector cfg"
    and c: "0 \<le> c" "c < Iterations_kContiguous cfg"
    and s: "0 \<le> s" "s < Iterations_kStrided cfg"
  shows "Predicates_valid cfg (at_cursor (compute_predicates cfg ext True P) v c s)
         = (if kAdvanceRank cfg = 0
            then strided (thread_offset P) + s * Delta_kStrided cfg < strided ext
            else contiguous (thread_offset P)
                   + (c * Delta_kContiguous cfg + v * AccessType_kElements cfg) < contiguous ext)"
  using valid_after_compute [OF cfg v c s refl, of ext True P]
  by (simp add: compute_guard_def access_coord_def iteration_coord_def coord_add_def make_Coord_def)

theorem steady_state_predicate_asymmetry_witness:
  "valid_config cfg_example
   \<and> Predicates_valid cfg_example
       (at_cursor (compute_predicates cfg_example (make_Coord 2 64) True
                     (Predicates_init (make_Coord 130 64))) 0 1 1) = True"
  using steady_state_predicate_asymmetry [of cfg_example 0 1 1 "make_Coord 2 64"
      "Predicates_init (make_Coord 130 64)"] cfg_example_valid
  by (simp add: cfg_example_consts make_Coord_def Predicates_init_def)

text \<open>
  Claim C10 (cursor invariant). Construction leaves the cursor at \<open>(0, 0, 0)\<close>; every
  application of \<^verbatim>\<open>operator++\<close> keeps the three counters inside the iteration space;
  advancing from the last access of a tile returns the cursor to \<open>(0, 0, 0)\<close>; and for a
  cursor inside the iteration space the predicate index is below the predicate count, so
  its word index is below \<^verbatim>\<open>kPredicateWordCount\<close>.
\<close>

theorem cursor_invariant:
  assumes cfg: "valid_config cfg"
    and it0: "it0 = PredicatedTileAccessIterator cfg prm ptr ext tid tb idxs"
    and itk: "itk = (operator_inc cfg ^^ k) it0"
  shows "(iteration_vector (the_predicates it0) = 0 \<and> iteration_contiguous (the_predicates it0) = 0
          \<and> iteration_strided (the_predicates it0) = 0)
       \<and> (0 \<le> iteration_vector (the_predicates itk)
          \<and> iteration_vector (the_predicates itk) < kAccessesPerVector cfg
          \<and> 0 \<le> iteration_contiguous (the_predicates itk)
          \<and> iteration_contiguous (the_predicates itk) < Iterations_kContiguous cfg
          \<and> 0 \<le> iteration_strided (the_predicates itk)
          \<and> iteration_strided (the_predicates itk) < Iterations_kStrided cfg)
       \<and> (iteration_vector (the_predicates itk) + 1 = kAccessesPerVector cfg
          \<and> iteration_contiguous (the_predicates itk) + 1 = Iterations_kContiguous cfg
          \<and> iteration_strided (the_predicates itk) + 1 = Iterations_kStrided cfg
          \<longrightarrow> iteration_vector (the_predicates (operator_inc cfg itk)) = 0
              \<and> iteration_contiguous (the_predicates (operator_inc cfg itk)) = 0
              \<and> iteration_strided (the_predicates (operator_inc cfg itk)) = 0)
       \<and> (iteration_vector (the_predicates itk) + kAccessesPerVector cfg *
            (iteration_contiguous (the_predicates itk)
             + iteration_strided (the_predicates itk) * Iterations_kContiguous cfg)
            < kPredicateCount cfg)
       \<and> (nat ((iteration_vector (the_predicates itk) + kAccessesPerVector cfg *
            (iteration_contiguous (the_predicates itk)
             + iteration_strided (the_predicates itk) * Iterations_kContiguous cfg))
            sdiv kPredicatesPerWord)
          < length (predicates (the_predicates itk)))"
proof -
  let ?P = "the_predicates itk"
  have c0: "cursor_ok cfg (the_predicates it0)" unfolding it0 by (rule ctor_cursor_ok [OF cfg])
  have ck: "cursor_ok cfg ?P" unfolding itk by (rule funpow_operator_inc_cursor_ok [OF c0])
  have z: "iteration_vector (the_predicates it0) = 0 \<and> iteration_contiguous (the_predicates it0) = 0
          \<and> iteration_strided (the_predicates it0) = 0"
    unfolding it0 ctor_the_predicates by (simp add: set_predicates_cursor)
  have e: "iteration_vector ?P + kAccessesPerVector cfg *
            (iteration_contiguous ?P + iteration_strided ?P * Iterations_kContiguous cfg)
           = pred_index cfg (iteration_vector ?P) (iteration_contiguous ?P) (iteration_strided ?P)"
    by (simp add: pred_index_def mult.commute)
  note r = cursor_pred_index_in_range [OF cfg ck]
  have len: "length (predicates ?P) = nat (kPredicateWordCount cfg)"
    unfolding itk funpow_operator_inc_frame it0 ctor_the_predicates
    by (simp add: set_predicates_def Let_def split_def set_iteration_index_zero
        compute_predicates_length [OF cfg])
  have w: "nat (pred_index cfg (iteration_vector ?P) (iteration_contiguous ?P) (iteration_strided ?P)
            sdiv kPredicatesPerWord) < length (predicates ?P)"
    unfolding pred_position(1) [OF r(1)] len by (rule pred_word_in_range [OF cfg r])
  show ?thesis
    using z ck r w operator_inc_wraps [of itk cfg] unfolding e by (simp add: cursor_ok_def)
qed

section \<open>The mask operations\<close>

lemma fold_update_upt:
  assumes "n \<le> length xs"
  shows "fold (\<lambda>i p. p[i := f i (p ! i)]) [0..<n] xs = map (\<lambda>i. f i (xs ! i)) [0..<n] @ drop n xs"
  using assms
proof (induction n)
  case 0
  then show ?case by simp
next
  case (Suc n)
  let ?pre = "map (\<lambda>i. f i (xs ! i)) [0..<n]"
  have n: "n < length xs" using Suc.prems by simp
  have d: "drop n xs = xs ! n # drop (Suc n) xs" using n by (simp add: Cons_nth_drop_Suc)
  have IH: "fold (\<lambda>i p. p[i := f i (p ! i)]) [0..<n] xs = ?pre @ drop n xs"
    using Suc.IH n by simp
  have at: "(?pre @ drop n xs) ! n = xs ! n" by (simp add: nth_append d)
  have "fold (\<lambda>i p. p[i := f i (p ! i)]) [0..<Suc n] xs
        = (?pre @ drop n xs)[n := f n ((?pre @ drop n xs) ! n)]"
    by (simp add: IH)
  also have "\<dots> = ?pre @ (drop n xs)[0 := f n (xs ! n)]"
    unfolding at by (simp add: list_update_append)
  also have "\<dots> = ?pre @ (f n (xs ! n) # drop (Suc n) xs)" by (simp add: d)
  also have "\<dots> = map (\<lambda>i. f i (xs ! i)) [0..<Suc n] @ drop (Suc n) xs" by simp
  finally show ?case .
qed

lemma fold_update_all:
  assumes "length xs = n"
  shows "fold (\<lambda>i p. p[i := f i (p ! i)]) [0..<n] xs = map (\<lambda>i. f i (xs ! i)) [0..<n]"
  using fold_update_upt [of n xs f] assms by simp

lemma clear_mask_true_predicates:
  assumes "length (predicates P) = nat (kPredicateWordCount cfg)"
  shows "predicates (Predicates_clear_mask cfg True P) = replicate (nat (kPredicateWordCount cfg)) 0"
proof -
  have "fold (\<lambda>i p. p[i := (\<lambda>i x. 0) i (p ! i)]) [0..<nat (kPredicateWordCount cfg)] (predicates P)
        = map (\<lambda>i. 0) [0..<nat (kPredicateWordCount cfg)]"
    by (rule fold_update_all [OF assms])
  then show ?thesis by (simp add: Predicates_clear_mask_def map_replicate_const)
qed

lemma clear_mask_false_id: "Predicates_clear_mask cfg False P = P"
proof -
  have "fold (\<lambda>i p. p[i := p ! i]) js xs = xs" for js and xs :: "32 word list"
    by (induction js arbitrary: xs) simp_all
  then show ?thesis by (simp add: Predicates_clear_mask_def)
qed

lemma set_mask_predicates:
  assumes "length (predicates P) = nat (kPredicateWordCount cfg)"
    and "length m = nat (kPredicateWordCount cfg)"
  shows "predicates (Predicates_set_mask cfg m P) = m"
proof -
  have "fold (\<lambda>i p. p[i := (\<lambda>i x. m ! i) i (p ! i)]) [0..<nat (kPredicateWordCount cfg)] (predicates P)
        = map (\<lambda>i. m ! i) [0..<nat (kPredicateWordCount cfg)]"
    by (rule fold_update_all [OF assms(1)])
  also have "\<dots> = m" using assms(2) by (metis map_nth)
  finally show ?thesis by (simp add: Predicates_set_mask_def)
qed

lemma get_mask_result:
  assumes "length (predicates P) = nat (kPredicateWordCount cfg)"
    and "length m0 = nat (kPredicateWordCount cfg)"
  shows "Predicates_get_mask cfg P m0 = predicates P"
proof -
  have "fold (\<lambda>i p. p[i := (\<lambda>i x. predicates P ! i) i (p ! i)]) [0..<nat (kPredicateWordCount cfg)] m0
        = map (\<lambda>i. predicates P ! i) [0..<nat (kPredicateWordCount cfg)]"
    by (rule fold_update_all [OF assms(2)])
  also have "\<dots> = predicates P" using assms(1) by (metis map_nth)
  finally show ?thesis by (simp add: Predicates_get_mask_def)
qed

lemma valid_zero_predicates:
  assumes cfg: "valid_config cfg" and cur: "cursor_ok cfg P"
    and z: "predicates P = replicate (nat (kPredicateWordCount cfg)) 0"
  shows "\<not> Predicates_valid cfg P"
proof -
  let ?p = "pred_index cfg (iteration_vector P) (iteration_contiguous P) (iteration_strided P)"
  have "pred_word ?p < nat (kPredicateWordCount cfg)"
    using cursor_pred_index_in_range [OF cfg cur] by (rule pred_word_in_range [OF cfg])
  then have "predicates P ! pred_word ?p = 0" by (simp add: z)
  then show ?thesis unfolding Predicates_valid_bit [OF cfg cur] by simp
qed

lemma ctor_wf:
  assumes cfg: "valid_config cfg"
  shows "wf_iterator cfg (PredicatedTileAccessIterator cfg prm ptr ext tid tb idxs)"
  unfolding wf_iterator_def
proof
  show "cursor_ok cfg (the_predicates (PredicatedTileAccessIterator cfg prm ptr ext tid tb idxs))"
    by (rule ctor_cursor_ok [OF cfg])
  show "length (predicates (the_predicates (PredicatedTileAccessIterator cfg prm ptr ext tid tb idxs)))
        = nat (kPredicateWordCount cfg)"
    unfolding ctor_the_predicates
    by (simp add: set_predicates_def Let_def split_def set_iteration_index_zero
        compute_predicates_length [OF cfg])
qed

lemma enable_mask_predicates:
  assumes "length (predicates P) = nat (kPredicateWordCount cfg)"
  shows "predicates (Predicates_enable_mask cfg P)
         = replicate (nat (kPredicateWordCount cfg)) 0xffffffff"
proof -
  have "fold (\<lambda>i p. p[i := (\<lambda>i x. 0xffffffff) i (p ! i)]) [0..<nat (kPredicateWordCount cfg)]
          (predicates P)
        = map (\<lambda>i. 0xffffffff) [0..<nat (kPredicateWordCount cfg)]"
    by (rule fold_update_all [OF assms])
  then show ?thesis by (simp add: Predicates_enable_mask_def map_replicate_const)
qed

lemma valid_ones_predicates:
  assumes cfg: "valid_config cfg" and cur: "cursor_ok cfg P"
    and z: "predicates P = replicate (nat (kPredicateWordCount cfg)) 0xffffffff"
  shows "Predicates_valid cfg P"
proof -
  let ?p = "pred_index cfg (iteration_vector P) (iteration_contiguous P) (iteration_strided P)"
  have "pred_word ?p < nat (kPredicateWordCount cfg)"
    using cursor_pred_index_in_range [OF cfg cur] by (rule pred_word_in_range [OF cfg])
  then have "predicates P ! pred_word ?p = 0xffffffff" by (simp add: z)
  moreover have "(0xffffffff :: 32 word) = - 1" by simp
  ultimately have "predicates P ! pred_word ?p = - 1" by simp
  then show ?thesis
    unfolding Predicates_valid_bit [OF cfg cur] using pred_bit_lt [of ?p] by simp
qed

lemma mask_ops_cursor:
  "cursor_ok cfg (Predicates_clear_mask cfg e P) = cursor_ok cfg P"
  "cursor_ok cfg (Predicates_enable_mask cfg P) = cursor_ok cfg P"
  "cursor_ok cfg (Predicates_set_mask cfg m P) = cursor_ok cfg P"
  by (simp_all add: cursor_ok_def Predicates_clear_mask_def Predicates_enable_mask_def
      Predicates_set_mask_def)

lemma it_example_wf: "wf_iterator cfg_example it_example"
  unfolding it_example_def by (rule ctor_wf [OF cfg_example_valid])

lemma cfg_example_words: "nat (kPredicateWordCount cfg_example) = 1"
  by (simp add: kPredicateWordCount_def kPredicateByteCount_def kPredicateCount_def
      Iterations_kCount_def kPredicatesPerByte_def cfg_example_consts)

text \<open>
  Claim C9 (null pointer on the gather/permute path). With gather or permute addressing
  \<^verbatim>\<open>get()\<close> returns the null pointer exactly when \<^verbatim>\<open>valid()\<close> is false; with both
  disabled it always returns the computed address, whatever \<^verbatim>\<open>valid()\<close> says.
\<close>

theorem get_null_iff_invalid:
  "(Gather cfg \<or> Permute cfg \<longrightarrow> (get cfg it = None \<longleftrightarrow> \<not> valid cfg it))
   \<and> (\<not> Gather cfg \<and> \<not> Permute cfg \<longrightarrow>
        get cfg it = Some (pointer it
          + (iteration_contiguous (the_predicates it) * (Delta_kContiguous cfg * Element_bits cfg)) sdiv 8
          + iteration_vector (the_predicates it) * sizeof_AccessType cfg))"
  by (simp add: get_def Let_def)

lemma it_gather_eval:
  "Gather cfg_gather" "\<not> valid cfg_gather (operator_inc cfg_gather it_gather)"
  "valid cfg_gather it_gather"
  by code_simp+

lemma it_example_eval:
  "\<not> Gather cfg_example" "\<not> Permute cfg_example" "\<not> valid cfg_example it_example"
  by code_simp+

theorem get_null_iff_invalid_witness:
  "get cfg_gather (operator_inc cfg_gather it_gather) = None
   \<and> get cfg_gather it_gather \<noteq> None
   \<and> \<not> valid cfg_example it_example \<and> get cfg_example it_example \<noteq> None"
  using get_null_iff_invalid [of cfg_gather "operator_inc cfg_gather it_gather"]
    get_null_iff_invalid [of cfg_gather it_gather]
    get_null_iff_invalid [of cfg_example it_example] it_gather_eval it_example_eval
  by simp

section \<open>Construction and tile advance\<close>

lemma set_predicates_eq:
  "set_predicates cfg tid tb P =
     set_iteration_index cfg 0
       (compute_predicates cfg (residue_extent cfg (extent P) tb) False
          (P\<lparr>residue_offset := (if kAdvanceRank cfg \<noteq> 0 then make_Coord 0 (residue_size cfg (extent P) tb)
                                 else make_Coord (residue_size cfg (extent P) tb) 0),
             thread_offset := coord_add tb (initial_offset cfg tid)\<rparr>))"
  by (simp add: set_predicates_def residue_extent_def residue_size_def Let_def)

lemma ctor_predicates:
  "predicates (the_predicates (PredicatedTileAccessIterator cfg prm ptr ext tid tb idxs))
   = predicates (compute_predicates cfg (residue_extent cfg ext tb) False
       ((Predicates_init ext)\<lparr>residue_offset :=
            (if kAdvanceRank cfg \<noteq> 0 then make_Coord 0 (residue_size cfg ext tb)
             else make_Coord (residue_size cfg ext tb) 0),
          thread_offset := coord_add tb (initial_offset cfg tid)\<rparr>))"
  unfolding ctor_the_predicates set_predicates_eq set_iteration_index_zero
  by (simp add: Predicates_init_def)

lemma ctor_fields:
  "thread_offset (the_predicates (PredicatedTileAccessIterator cfg prm ptr ext tid tb idxs))
   = coord_add tb (initial_offset cfg tid)"
  "residue_offset (the_predicates (PredicatedTileAccessIterator cfg prm ptr ext tid tb idxs))
   = (if kAdvanceRank cfg \<noteq> 0 then make_Coord 0 (residue_size cfg ext tb)
      else make_Coord (residue_size cfg ext tb) 0)"
  "extent (the_predicates (PredicatedTileAccessIterator cfg prm ptr ext tid tb idxs)) = ext"
  "is_residue_tile (PredicatedTileAccessIterator cfg prm ptr ext tid tb idxs)"
  "params (PredicatedTileAccessIterator cfg prm ptr ext tid tb idxs) = prm"
  "indices (PredicatedTileAccessIterator cfg prm ptr ext tid tb idxs) = idxs"
  "permute_layout (PredicatedTileAccessIterator cfg prm ptr ext tid tb idxs)
   = PermuteLayout cfg ext (stride prm)"
  unfolding ctor_the_predicates set_predicates_eq set_iteration_index_zero compute_predicates_frame
  by (simp_all add: Predicates_init_def PredicatedTileAccessIterator_def Let_def
      add_pointer_offset_def)

lemma at_cursor_self:
  "at_cursor P (iteration_vector P) (iteration_contiguous P) (iteration_strided P) = P"
  by (simp add: at_cursor_def)

lemma valid_iterator_computed:
  assumes cfg: "valid_config cfg" and cur: "cursor_ok cfg (the_predicates it)"
    and Q: "predicates (the_predicates it) = predicates (compute_predicates cfg e ss P)"
  shows "valid cfg it
         = compute_guard cfg e ss
             (access_coord cfg (thread_offset P) (iteration_vector (the_predicates it))
                (iteration_contiguous (the_predicates it)) (iteration_strided (the_predicates it)))"
proof -
  have "Predicates_valid cfg (at_cursor (the_predicates it) (iteration_vector (the_predicates it))
                (iteration_contiguous (the_predicates it)) (iteration_strided (the_predicates it)))
        = compute_guard cfg e ss
             (access_coord cfg (thread_offset P) (iteration_vector (the_predicates it))
                (iteration_contiguous (the_predicates it)) (iteration_strided (the_predicates it)))"
    using cur by (intro valid_after_compute [OF cfg _ _ _ _ _ _ Q]) (simp_all add: cursor_ok_def)
  then show ?thesis by (simp add: valid_def at_cursor_self)
qed

text \<open>In the first tile validity is the two-axis check against the residue-adjusted extent.\<close>

lemma first_tile_valid:
  assumes cfg: "valid_config cfg"
  shows "valid cfg ((operator_inc cfg ^^ k) (PredicatedTileAccessIterator cfg prm ptr ext tid tb idxs))
         = compute_guard cfg (residue_extent cfg ext tb) False
             (cursor_coord cfg
                ((operator_inc cfg ^^ k) (PredicatedTileAccessIterator cfg prm ptr ext tid tb idxs)))"
proof -
  let ?it0 = "PredicatedTileAccessIterator cfg prm ptr ext tid tb idxs"
  let ?itk = "(operator_inc cfg ^^ k) ?it0"
  have cur: "cursor_ok cfg (the_predicates ?itk)"
    by (rule funpow_operator_inc_cursor_ok [OF ctor_cursor_ok [OF cfg]])
  have Q: "predicates (the_predicates ?itk)
   = predicates (compute_predicates cfg (residue_extent cfg ext tb) False
       ((Predicates_init ext)\<lparr>residue_offset :=
            (if kAdvanceRank cfg \<noteq> 0 then make_Coord 0 (residue_size cfg ext tb)
             else make_Coord (residue_size cfg ext tb) 0),
          thread_offset := coord_add tb (initial_offset cfg tid)\<rparr>))"
    unfolding funpow_operator_inc_frame by (rule ctor_predicates)
  show ?thesis
    unfolding valid_iterator_computed [OF cfg cur Q] cursor_coord_def funpow_operator_inc_frame
      ctor_fields
    by simp
qed

lemma add_tile_offset_residue:
  assumes "is_residue_tile it"
  shows "the_predicates (add_tile_offset cfg t it)
         = compute_predicates cfg (extent (the_predicates it)) True
             ((the_predicates it)\<lparr>thread_offset :=
                coord_add (thread_offset (the_predicates it)) (residue_offset (the_predicates it))\<rparr>)"
    and "\<not> is_residue_tile (add_tile_offset cfg t it)"
  using assms
  by (simp_all add: add_tile_offset_def Let_def add_pointer_offset_def compute_predicates_frame)

lemma add_tile_offset_steady:
  assumes "\<not> is_residue_tile it"
  shows "the_predicates (add_tile_offset cfg t it) = the_predicates it"
    and "\<not> is_residue_tile (add_tile_offset cfg t it)"
  using assms
  by (simp_all add: add_tile_offset_def Let_def add_pointer_offset_def)

lemma residue_le_remaining:
  fixes rem T :: int
  assumes "0 < rem" "0 < T"
  shows "(if rem mod T = 0 then T else rem mod T) \<le> rem"
proof (cases "rem mod T = 0")
  case True
  then have "T dvd rem" by (simp add: dvd_eq_mod_eq_0)
  then have "T \<le> rem" using assms by (simp add: zdvd_imp_le)
  with True show ?thesis by simp
next
  case False
  have "rem mod T \<le> rem" using assms by (simp add: zmod_le_nonneg_dividend)
  with False show ?thesis by simp
qed

text \<open>
  Claim C4 (residue correctness), as the code implements it. The residue offset is zero
  on the axis that is not advanced along, and on the advance axis it is the remaining
  extent (extent minus threadblock offset) modulo the tile size, replaced by the tile size
  when that remainder is zero. When some extent remains on the advance axis, an access of
  the first tile is valid exactly when its advance-axis coordinate is below the
  threadblock offset plus that residue size and its other coordinate is below the extent
  on the other axis.
\<close>

theorem residue_correctness_amended:
  assumes cfg: "valid_config cfg"
    and it0: "it0 = PredicatedTileAccessIterator cfg prm ptr ext tid tb idxs"
    and itk: "itk = (operator_inc cfg ^^ k) it0"
    and a: "a = kAdvanceRank cfg" and T: "T = advance_tile_size cfg"
    and rem: "rem = coord_at ext a - coord_at tb a"
  shows "coord_at (residue_offset (the_predicates it0)) a = (if rem smod T = 0 then T else rem smod T)
       \<and> coord_at (residue_offset (the_predicates it0)) (1 - a) = 0
       \<and> (0 < rem \<longrightarrow>
            (valid cfg itk \<longleftrightarrow>
               coord_at (cursor_coord cfg itk) a
                 < coord_at tb a + (if rem mod T = 0 then T else rem mod T)
               \<and> coord_at (cursor_coord cfg itk) (1 - a) < coord_at ext (1 - a)))"
proof -
  have rank: "a = 0 \<or> a = 1" using cfg by (simp add: a valid_config_def)
  have Tpos: "0 < T" using cfg by (simp add: T advance_tile_size_def valid_config_def)
  have rs: "residue_size cfg ext tb = (if rem smod T = 0 then T else rem smod T)"
    using rank by (auto simp add: residue_size_def Let_def a T rem advance_tile_size_def coord_at_def)
  have ro: "residue_offset (the_predicates it0)
            = (if a \<noteq> 0 then make_Coord 0 (residue_size cfg ext tb)
               else make_Coord (residue_size cfg ext tb) 0)"
    unfolding it0 a by (rule ctor_fields)
  have c1: "coord_at (residue_offset (the_predicates it0)) a = (if rem smod T = 0 then T else rem smod T)"
    using rank by (auto simp add: ro rs coord_at_def make_Coord_def)
  have c2: "coord_at (residue_offset (the_predicates it0)) (1 - a) = 0"
    using rank by (auto simp add: ro coord_at_def make_Coord_def)
  have c3: "valid cfg itk \<longleftrightarrow>
               coord_at (cursor_coord cfg itk) a
                 < coord_at tb a + (if rem mod T = 0 then T else rem mod T)
               \<and> coord_at (cursor_coord cfg itk) (1 - a) < coord_at ext (1 - a)"
    if pos: "0 < rem"
  proof -
    have sm: "rem smod T = rem mod T" using pos Tpos by (simp add: smod_nonneg)
    define r where "r = (if rem mod T = 0 then T else rem mod T)"
    have le: "r \<le> rem" unfolding r_def using pos Tpos by (rule residue_le_remaining)
    have rs': "residue_size cfg ext tb = r" by (simp add: rs sm r_def)
    have re: "coord_at (residue_extent cfg ext tb) a = coord_at tb a + r
              \<and> coord_at (residue_extent cfg ext tb) (1 - a) = coord_at ext (1 - a)"
    proof (cases "a = 0")
      case True
      then have k: "kAdvanceRank cfg = 0" by (simp add: a)
      have "r \<le> contiguous ext - contiguous tb" using le by (simp add: rem True coord_at_def)
      then show ?thesis
        by (simp add: residue_extent_def rs' k True coord_at_def make_Coord_def min_def)
    next
      case False
      then have a1: "a = 1" using rank by simp
      then have k: "kAdvanceRank cfg = 1" by (simp add: a)
      have "r \<le> strided ext - strided tb" using le by (simp add: rem a1 coord_at_def)
      then show ?thesis
        by (simp add: residue_extent_def rs' k a1 coord_at_def make_Coord_def min_def)
    qed
    have "valid cfg itk \<longleftrightarrow>
            contiguous (cursor_coord cfg itk) < contiguous (residue_extent cfg ext tb)
            \<and> strided (cursor_coord cfg itk) < strided (residue_extent cfg ext tb)"
      unfolding itk it0 first_tile_valid [OF cfg] by (auto simp add: compute_guard_def)
    also have "\<dots> \<longleftrightarrow> coord_at (cursor_coord cfg itk) a < coord_at (residue_extent cfg ext tb) a
               \<and> coord_at (cursor_coord cfg itk) (1 - a) < coord_at (residue_extent cfg ext tb) (1 - a)"
      using rank by (auto simp add: coord_at_def)
    finally show ?thesis using re by (simp add: r_def)
  qed
  from c1 c2 c3 show ?thesis by blast
qed

lemma it_example_residue:
  "coord_at (make_Coord 130 64) (kAdvanceRank cfg_example) = 130"
  "advance_tile_size cfg_example = 128"
  "coord_at (cursor_coord cfg_example it_example) (kAdvanceRank cfg_example) = 5"
  "coord_at (make_Coord 0 0) (kAdvanceRank cfg_example) = 0"
  "(130::int) smod 128 = 2"
  by code_simp+

theorem residue_correctness_amended_witness:
  "valid_config cfg_example
   \<and> coord_at (residue_offset (the_predicates it_example)) (kAdvanceRank cfg_example) = 2
   \<and> coord_at (residue_offset (the_predicates it_example)) (1 - kAdvanceRank cfg_example) = 0
   \<and> \<not> valid cfg_example ((operator_inc cfg_example ^^ 0) it_example)"
  using residue_correctness_amended [OF cfg_example_valid it_example_def refl refl refl refl, of 0]
    cfg_example_valid
  by (simp add: it_example_residue)

theorem residue_correctness_counterexample:
  "coord_at (extent (the_predicates it_divisible)) (kAdvanceRank cfg_example)
     smod advance_tile_size cfg_example = 0
   \<and> \<not> valid cfg_example ((operator_inc cfg_example ^^ 4) it_divisible)
   \<and> coord_at (extent (the_predicates it_empty)) (kAdvanceRank cfg_example)
     smod advance_tile_size cfg_example = 0
   \<and> \<not> valid cfg_example it_empty"
  by code_simp

section \<open>Sequences of cursor movements\<close>

lemma add_tile_offset_params:
  "params (add_tile_offset cfg t it) = params it"
  by (simp add: add_tile_offset_def Let_def add_pointer_offset_def)

lemma apply_op_steady:
  assumes "\<not> is_residue_tile it"
  shows "\<not> is_residue_tile (apply_op cfg x it)"
    and "predicates (the_predicates (apply_op cfg x it)) = predicates (the_predicates it)"
  using assms
  by (cases x; simp add: operator_inc_frame add_tile_offset_steady)+

lemma apply_op_params: "params (apply_op cfg x it) = params it"
  by (cases x) (simp_all add: operator_inc_frame add_tile_offset_params)

lemma run_ops_steady:
  assumes "\<not> is_residue_tile it"
  shows "\<not> is_residue_tile (run_ops cfg xs it)
         \<and> predicates (the_predicates (run_ops cfg xs it)) = predicates (the_predicates it)"
  using assms
proof (induction xs arbitrary: it)
  case Nil
  then show ?case by simp
next
  case (Cons x xs)
  from Cons.IH [OF apply_op_steady(1) [OF Cons.prems]] apply_op_steady(2) [OF Cons.prems]
  show ?case by simp
qed


lemma add_tile_offset_residue_pointer:
  assumes "is_residue_tile it" "\<not> Gather cfg" "\<not> Permute cfg"
    and "coord_at t (1 - kAdvanceRank cfg) = 0" "kAdvanceRank cfg = 0 \<or> kAdvanceRank cfg = 1"
  shows "pointer (add_tile_offset cfg t it)
         = pointer it
           + (Element_bits cfg * layout (stride (params it)) (residue_offset (the_predicates it))) sdiv 8
           + inc_advance (params it) * (coord_at t (kAdvanceRank cfg) - 1)"
  using assms
  by (auto simp add: add_tile_offset_def Let_def add_pointer_offset_def compute_predicates_frame
      coord_at_def)

lemma add_tile_offset_steady_pointer:
  assumes "\<not> is_residue_tile it" "\<not> Gather cfg" "\<not> Permute cfg"
    and "coord_at t (1 - kAdvanceRank cfg) = 0" "kAdvanceRank cfg = 0 \<or> kAdvanceRank cfg = 1"
  shows "pointer (add_tile_offset cfg t it)
         = pointer it + inc_advance (params it) * coord_at t (kAdvanceRank cfg)"
  using assms
  by (auto simp add: add_tile_offset_def Let_def coord_at_def)

section \<open>Pointer arithmetic\<close>

lemma sdiv_mult_cancel: "(8 * y) sdiv 8 = (y::int)"
proof -
  have "\<bar>8 * y\<bar> div 8 = \<bar>y\<bar>" by (simp add: abs_mult)
  moreover have "sgn (8 * y) = sgn y" by (simp add: sgn_mult)
  ultimately have "(8 * y) sdiv 8 = sgn y * \<bar>y\<bar>" by (simp add: signed_divide_int_def)
  then show ?thesis by (simp add: mult_sgn_abs)
qed

lemma operator_inc_cursor:
  "iteration_vector (the_predicates (operator_inc cfg it))
   = (if iteration_vector (the_predicates it) + 1 < kAccessesPerVector cfg
      then iteration_vector (the_predicates it) + 1 else 0)"
  "iteration_contiguous (the_predicates (operator_inc cfg it))
   = (if iteration_vector (the_predicates it) + 1 < kAccessesPerVector cfg
      then iteration_contiguous (the_predicates it)
      else if iteration_contiguous (the_predicates it) + 1 < Iterations_kContiguous cfg
      then iteration_contiguous (the_predicates it) + 1 else 0)"
  "iteration_strided (the_predicates (operator_inc cfg it))
   = (if iteration_vector (the_predicates it) + 1 < kAccessesPerVector cfg
      then iteration_strided (the_predicates it)
      else if iteration_contiguous (the_predicates it) + 1 < Iterations_kContiguous cfg
      then iteration_strided (the_predicates it)
      else if iteration_strided (the_predicates it) + 1 < Iterations_kStrided cfg
      then iteration_strided (the_predicates it) + 1 else 0)"
  by (simp_all add: operator_inc_def Let_def)

lemma operator_inc_pointer_fast:
  assumes fast: "\<not> Gather cfg" "\<not> Permute cfg"
    and cur: "cursor_ok cfg (the_predicates it)" and prm: "params_ok cfg (params it)"
    and inv: "pointer it = p0 + iteration_strided (the_predicates it) * inc_strided (params it)"
  shows "pointer (operator_inc cfg it)
         = p0 + iteration_strided (the_predicates (operator_inc cfg it)) * inc_strided (params it)"
proof -
  let ?P = "the_predicates it"
  consider (stay) "iteration_vector ?P + 1 < kAccessesPerVector cfg
                   \<or> iteration_contiguous ?P + 1 < Iterations_kContiguous cfg"
    | (row) "\<not> iteration_vector ?P + 1 < kAccessesPerVector cfg"
            "\<not> iteration_contiguous ?P + 1 < Iterations_kContiguous cfg"
            "iteration_strided ?P + 1 < Iterations_kStrided cfg"
    | (wrap) "\<not> iteration_vector ?P + 1 < kAccessesPerVector cfg"
            "\<not> iteration_contiguous ?P + 1 < Iterations_kContiguous cfg"
            "\<not> iteration_strided ?P + 1 < Iterations_kStrided cfg"
    by blast
  then show ?thesis
  proof cases
    case stay
    then show ?thesis using inv by (auto simp add: operator_inc_def Let_def)
  next
    case row
    then show ?thesis using inv fast by (simp add: operator_inc_def Let_def algebra_simps)
  next
    case wrap
    have "iteration_strided ?P = Iterations_kStrided cfg - 1"
      using wrap(3) cur by (simp add: cursor_ok_def)
    moreover have "inc_next (params it) - inc_advance (params it)
                   = - ((Iterations_kStrided cfg - 1) * inc_strided (params it))"
      using prm by (simp add: params_ok_def)
    ultimately show ?thesis using wrap inv fast by (simp add: operator_inc_def Let_def)
  qed
qed

lemma operator_inc_pointer_slow:
  assumes "Gather cfg \<or> Permute cfg"
  shows "pointer (operator_inc cfg it) = pointer it"
  using assms by (auto simp add: operator_inc_def Let_def)

lemma funpow_pointer_fast:
  assumes fast: "\<not> Gather cfg" "\<not> Permute cfg"
    and cur: "cursor_ok cfg (the_predicates it)" and prm: "params_ok cfg (params it)"
    and inv: "pointer it = p0 + iteration_strided (the_predicates it) * inc_strided (params it)"
  shows "pointer ((operator_inc cfg ^^ k) it)
         = p0 + iteration_strided (the_predicates ((operator_inc cfg ^^ k) it)) * inc_strided (params it)"
proof (induction k)
  case 0
  then show ?case using inv by simp
next
  case (Suc k)
  let ?itk = "(operator_inc cfg ^^ k) it"
  have c: "cursor_ok cfg (the_predicates ?itk)" by (rule funpow_operator_inc_cursor_ok [OF cur])
  have p: "params ?itk = params it" by (rule funpow_operator_inc_frame)
  have "pointer (operator_inc cfg ?itk)
         = p0 + iteration_strided (the_predicates (operator_inc cfg ?itk)) * inc_strided (params ?itk)"
    by (rule operator_inc_pointer_fast [OF fast c]) (simp_all add: p prm Suc.IH)
  then show ?case by (simp add: p)
qed

lemma funpow_pointer_slow:
  assumes "Gather cfg \<or> Permute cfg"
  shows "pointer ((operator_inc cfg ^^ k) it) = pointer it"
  by (induction k) (simp_all add: operator_inc_pointer_slow [OF assms])

lemma ctor_pointer:
  "pointer (PredicatedTileAccessIterator cfg prm ptr ext tid tb idxs)
   = (if \<not> Gather cfg \<and> \<not> Permute cfg then
        ptr + (Element_bits cfg * layout (stride prm) (coord_add tb (initial_offset cfg tid))) sdiv 8
      else if \<not> Permute cfg then
        ptr + (Element_bits cfg * contiguous (coord_add tb (initial_offset cfg tid))) sdiv 8
      else ptr)"
  "Gather cfg \<or> Permute cfg \<Longrightarrow>
     coord_offset (PredicatedTileAccessIterator cfg prm ptr ext tid tb idxs)
     = coord_add tb (initial_offset cfg tid)"
  using ctor_fields(1) [of cfg prm ptr ext tid tb idxs]
  by (auto simp add: PredicatedTileAccessIterator_def Let_def add_pointer_offset_def
      ctor_the_predicates layout_def make_Coord_def)

lemma params_example_ok: "params_ok cfg_example prm_example" "params_ok cfg_gather prm_example"
  by (simp_all add: params_ok_def cfg_example_def cfg_gather_def prm_example_def)

lemma cfg_gather_valid: "valid_config cfg_gather"
  using cfg_example_valid
  by (simp add: valid_config_def cfg_gather_def kPredicateWordCount_def kPredicateByteCount_def
      kPredicateCount_def Iterations_kCount_def kAccessesPerVector_def)


lemma it_example_cursor0:
  "iteration_vector (the_predicates it_example) = 0"
  "iteration_contiguous (the_predicates it_example) = 0"
  "iteration_strided (the_predicates it_example) = 0"
  unfolding it_example_def ctor_the_predicates by (simp_all add: set_predicates_cursor)

lemma it_example_cursor5:
  "iteration_vector (the_predicates ((operator_inc cfg_example ^^ 5) it_example)) = 0"
  "iteration_contiguous (the_predicates ((operator_inc cfg_example ^^ 5) it_example)) = 1"
  "iteration_strided (the_predicates ((operator_inc cfg_example ^^ 5) it_example)) = 1"
  by (simp_all add: eval_nat_numeral operator_inc_cursor it_example_cursor0 cfg_example_consts)

lemma it_example_cursor7:
  "iteration_vector (the_predicates ((operator_inc cfg_example ^^ 7) it_example)) = 0"
  "iteration_contiguous (the_predicates ((operator_inc cfg_example ^^ 7) it_example)) = 3"
  "iteration_strided (the_predicates ((operator_inc cfg_example ^^ 7) it_example)) = 1"
  by (simp_all add: eval_nat_numeral operator_inc_cursor it_example_cursor0 cfg_example_consts)


theorem cursor_invariant_witness:
  "valid_config cfg_example
   \<and> iteration_vector (the_predicates it_example) = 0
   \<and> 0 \<le> iteration_strided (the_predicates ((operator_inc cfg_example ^^ 5) it_example))
   \<and> iteration_strided (the_predicates ((operator_inc cfg_example ^^ 5) it_example)) < 2
   \<and> iteration_contiguous (the_predicates ((operator_inc cfg_example ^^ 5) it_example)) < 4
   \<and> iteration_vector (the_predicates ((operator_inc cfg_example ^^ 7) it_example)) + 1
       = kAccessesPerVector cfg_example
   \<and> iteration_contiguous (the_predicates ((operator_inc cfg_example ^^ 7) it_example)) + 1
       = Iterations_kContiguous cfg_example
   \<and> iteration_strided (the_predicates ((operator_inc cfg_example ^^ 7) it_example)) + 1
       = Iterations_kStrided cfg_example
   \<and> iteration_vector (the_predicates
         (operator_inc cfg_example ((operator_inc cfg_example ^^ 7) it_example))) = 0
   \<and> iteration_contiguous (the_predicates
         (operator_inc cfg_example ((operator_inc cfg_example ^^ 7) it_example))) = 0
   \<and> iteration_strided (the_predicates
         (operator_inc cfg_example ((operator_inc cfg_example ^^ 7) it_example))) = 0"
  using cursor_invariant [OF cfg_example_valid it_example_def refl, of 5]
    cursor_invariant [OF cfg_example_valid it_example_def refl, of 7] cfg_example_valid
  by (simp add: cfg_example_consts it_example_cursor7)

lemma it_example_thread_offset:
  "thread_offset (the_predicates ((operator_inc cfg_example ^^ k) it_example)) = make_Coord 5 0"
  unfolding funpow_operator_inc_frame it_example_def ctor_fields
  by (simp add: cfg_example_def coord_add_def make_Coord_def)

lemma it_example_coord5:
  "cursor_coord cfg_example ((operator_inc cfg_example ^^ 5) it_example) = make_Coord 37 16"
  by (simp add: cursor_coord_def it_example_thread_offset it_example_cursor5 access_coord_def
      iteration_coord_def coord_add_def make_Coord_def cfg_example_consts)

lemma cfg_gather_consts:
  "Element_bits cfg_gather = 32" "Gather cfg_gather" "\<not> Permute cfg_gather"
  "stride prm_example = 130"
  by (simp_all add: cfg_gather_def cfg_example_def prm_example_def)

lemma it_gather_cursor0:
  "iteration_vector (the_predicates it_gather) = 0"
  "iteration_contiguous (the_predicates it_gather) = 0"
  "iteration_strided (the_predicates it_gather) = 0"
  unfolding it_gather_def ctor_the_predicates by (simp_all add: set_predicates_cursor)

lemma it_gather_thread_offset:
  "thread_offset (the_predicates it_gather) = make_Coord 1 0"
  unfolding it_gather_def ctor_fields
  by (simp add: cfg_gather_def cfg_example_def coord_add_def make_Coord_def)

lemma it_gather_coord0:
  "cursor_coord cfg_gather it_gather = make_Coord 1 0"
  by (simp add: cursor_coord_def it_gather_thread_offset it_gather_cursor0 access_coord_def
      iteration_coord_def coord_add_def make_Coord_def)


lemma OffsetBytes_aligned:
  assumes "Element_bits cfg * x = 8 * p"
  shows "OffsetBytes cfg x = p"
  unfolding OffsetBytes_def assms by (rule sdiv_mult_cancel)

lemma OffsetBytes_add:
  assumes "8 dvd Element_bits cfg * x" "8 dvd Element_bits cfg * y"
  shows "OffsetBytes cfg (x + y) = OffsetBytes cfg x + OffsetBytes cfg y"
proof -
  from assms obtain p q where p: "Element_bits cfg * x = 8 * p" and q: "Element_bits cfg * y = 8 * q"
    by (auto simp add: dvd_def)
  have "Element_bits cfg * (x + y) = 8 * (p + q)" by (simp only: distrib_left p q)
  then have "OffsetBytes cfg (x + y) = p + q" by (rule OffsetBytes_aligned)
  then show ?thesis by (simp only: OffsetBytes_aligned [OF p] OffsetBytes_aligned [OF q])
qed

lemma OffsetBytes_mult:
  assumes "8 dvd Element_bits cfg * x"
  shows "OffsetBytes cfg (k * x) = k * OffsetBytes cfg x"
proof -
  from assms obtain p where p: "Element_bits cfg * x = 8 * p" by (auto simp add: dvd_def)
  have "Element_bits cfg * (k * x) = k * (Element_bits cfg * x)" by (simp only: mult.left_commute)
  also have "\<dots> = 8 * (k * p)" by (simp only: p mult.left_commute)
  finally have "OffsetBytes cfg (k * x) = k * p" by (rule OffsetBytes_aligned)
  then show ?thesis by (simp only: OffsetBytes_aligned [OF p])
qed

lemma aligned_mult: "8 dvd (b::int) * x \<Longrightarrow> 8 dvd b * (k * x)"
proof -
  assume "8 dvd b * x"
  then have "8 dvd k * (b * x)" by (rule dvd_mult)
  then show ?thesis by (simp only: mult.left_commute)
qed

lemma aligned_add: "8 dvd (b::int) * x \<Longrightarrow> 8 dvd b * y \<Longrightarrow> 8 dvd b * (x + y)"
  by (simp only: distrib_left dvd_add)

text \<open>
  Claim C2 (pointer/coordinate agreement). Let the \<^verbatim>\<open>Params\<close> object hold the increments
  described in section 4.2, and let every access start on a byte boundary (the access
  width, the contiguous delta, the stride and the thread's contiguous offset are whole
  bytes; always so for whole-byte elements). After any number \<open>k\<close> of \<^verbatim>\<open>operator++\<close>
  applications to a freshly constructed iterator: on the plain path \<^verbatim>\<open>get()\<close> returns
  the base pointer plus the byte offset of the pitch-linear layout at the logical
  coordinate of the cursor; on the gather and permute paths it returns, when the access is
  valid, the base pointer plus the byte offset resolved from the tracked coordinate, with
  the strided coordinate looked up in the index array when gathering and the offset taken
  from the permutation function when permuting (and the null pointer when the access is
  not valid).
\<close>

theorem pointer_coordinate_agreement:
  assumes cfg: "valid_config cfg" and prm: "params_ok cfg prm"
    and al_ke: "8 dvd Element_bits cfg * AccessType_kElements cfg"
    and al_dc: "8 dvd Element_bits cfg * Delta_kContiguous cfg"
    and al_st: "8 dvd Element_bits cfg * stride prm"
    and al_tc: "8 dvd Element_bits cfg * contiguous (coord_add tb (initial_offset cfg tid))"
    and it0: "it0 = PredicatedTileAccessIterator cfg prm ptr ext tid tb idxs"
    and itk: "itk = (operator_inc cfg ^^ k) it0"
    and co: "co = cursor_coord cfg itk"
  shows "(\<not> Gather cfg \<and> \<not> Permute cfg \<longrightarrow>
            get cfg itk = Some (ptr + OffsetBytes cfg (layout (stride prm) co)))
       \<and> (Gather cfg \<and> \<not> Permute cfg \<longrightarrow>
            get cfg itk =
              (if valid cfg itk
               then Some (ptr + OffsetBytes cfg
                            (layout (stride prm) (make_Coord (contiguous co) (idxs (strided co)))))
               else None))
       \<and> (Permute cfg \<longrightarrow>
            get cfg itk =
              (if valid cfg itk
               then Some (ptr + OffsetBytes cfg
                            (PermuteLayout cfg ext (stride prm)
                               (make_Coord (contiguous co)
                                  (if Gather cfg then idxs (strided co) else strided co))))
               else None))"
proof -
  let ?P = "the_predicates itk"
  let ?toff = "coord_add tb (initial_offset cfg tid)"
  let ?tc = "contiguous ?toff" and ?ts = "strided ?toff"
  let ?iv = "iteration_vector ?P" and ?ic = "iteration_contiguous ?P"
    and ?is = "iteration_strided ?P"
  let ?dc = "Delta_kContiguous cfg" and ?ds = "Delta_kStrided cfg"
    and ?ke = "AccessType_kElements cfg" and ?str = "stride prm"
  let ?O = "OffsetBytes cfg"
  have raw: "(Element_bits cfg * x) sdiv 8 = ?O x" for x by (simp add: OffsetBytes_def)
  have raw_ic: "(?ic * (?dc * Element_bits cfg)) sdiv 8 = ?ic * ?O ?dc"
  proof -
    have "?ic * (?dc * Element_bits cfg) = Element_bits cfg * (?ic * ?dc)"
      by (simp only: mult.commute mult.left_commute)
    then show ?thesis by (simp only: raw OffsetBytes_mult [OF al_dc])
  qed
  have sz: "sizeof_AccessType cfg = ?O ?ke"
    by (simp add: sizeof_AccessType_def OffsetBytes_def mult.commute)
  have acc: "8 dvd Element_bits cfg * (?ic * ?dc + ?iv * ?ke)"
    by (intro aligned_add aligned_mult al_dc al_ke)
  have O_acc: "?O (?ic * ?dc + ?iv * ?ke) = ?ic * ?O ?dc + ?iv * ?O ?ke"
    by (simp only: OffsetBytes_add [OF aligned_mult [OF al_dc] aligned_mult [OF al_ke]]
        OffsetBytes_mult [OF al_dc] OffsetBytes_mult [OF al_ke])
  have f: "thread_offset ?P = ?toff" "params itk = prm" "indices itk = idxs"
    "permute_layout itk = PermuteLayout cfg ext (stride prm)"
    unfolding itk funpow_operator_inc_frame it0 ctor_fields by (rule refl)+
  have cur0: "cursor_ok cfg (the_predicates it0)" unfolding it0 by (rule ctor_cursor_ok [OF cfg])
  have p0: "params it0 = prm" unfolding it0 by (rule ctor_fields)
  have cov: "contiguous co = ?tc + (?ic * ?dc + ?iv * ?ke)" "strided co = ?ts + ?is * ?ds"
    by (simp_all add: co cursor_coord_def f access_coord_def iteration_coord_def coord_add_def
        make_Coord_def)
  have fast: "get cfg itk = Some (ptr + ?O (layout ?str co))"
    if nf: "\<not> Gather cfg \<and> \<not> Permute cfg"
  proof -
    have incs: "inc_strided prm = ?ds * ?O ?str"
    proof -
      have e: "?str * ?ds * Element_bits cfg = Element_bits cfg * (?ds * ?str)"
        by (simp only: mult.commute mult.left_commute)
      have "inc_strided prm = (?str * ?ds * Element_bits cfg) sdiv 8"
        using prm by (simp add: params_ok_def)
      then have "inc_strided prm = ?O (?ds * ?str)" by (simp only: e raw)
      then show ?thesis by (simp only: OffsetBytes_mult [OF al_st])
    qed
    have O0: "?O (layout ?str ?toff) = ?O ?tc + ?ts * ?O ?str"
      by (simp only: layout_def OffsetBytes_add [OF al_tc aligned_mult [OF al_st]]
          OffsetBytes_mult [OF al_st])
    have inv0: "pointer it0 = (ptr + ?O (layout ?str ?toff))
                  + iteration_strided (the_predicates it0) * inc_strided (params it0)"
      using nf unfolding it0
      by (simp add: ctor_pointer raw ctor_the_predicates set_predicates_cursor)
    have "pointer itk = (ptr + ?O (layout ?str ?toff)) + ?is * inc_strided (params it0)"
      unfolding itk using nf
      by (intro funpow_pointer_fast [OF _ _ cur0 _ inv0]) (simp_all add: p0 prm)
    then have pk: "pointer itk = ptr + (?O ?tc + ?ts * ?O ?str) + ?is * (?ds * ?O ?str)"
      by (simp only: p0 incs O0)
    have lay: "layout ?str co = (?tc + (?ic * ?dc + ?iv * ?ke)) + (?ts + ?is * ?ds) * ?str"
      by (simp only: layout_def cov)
    have Ol: "?O (layout ?str co)
              = (?O ?tc + (?ic * ?O ?dc + ?iv * ?O ?ke)) + (?ts + ?is * ?ds) * ?O ?str"
      by (simp only: lay OffsetBytes_add [OF aligned_add [OF al_tc acc] aligned_mult [OF al_st]]
          OffsetBytes_add [OF al_tc acc] O_acc OffsetBytes_mult [OF al_st])
    have "get cfg itk = Some (pointer itk + (?ic * (?dc * Element_bits cfg)) sdiv 8
                                + ?iv * sizeof_AccessType cfg)"
      using nf by (simp add: get_def Let_def)
    also have "\<dots> = Some (pointer itk + ?ic * ?O ?dc + ?iv * ?O ?ke)"
      by (simp only: raw_ic sz)
    also have "\<dots> = Some (ptr + ?O (layout ?str co))"
      by (simp add: pk Ol algebra_simps)
    finally show ?thesis .
  qed
  have cof: "coord_offset itk = ?toff" if "Gather cfg \<or> Permute cfg"
    unfolding itk funpow_operator_inc_frame it0 by (rule ctor_pointer(2) [OF that])
  have gath: "get cfg itk =
              (if valid cfg itk
               then Some (ptr + ?O (layout ?str (make_Coord (contiguous co) (idxs (strided co)))))
               else None)"
    if g: "Gather cfg \<and> \<not> Permute cfg"
  proof -
    let ?row = "idxs (?ts + ?is * ?ds)"
    have pk: "pointer itk = ptr + ?O ?tc"
      unfolding itk using g by (simp add: funpow_pointer_slow it0 ctor_pointer raw)
    have rest: "8 dvd Element_bits cfg * (?row * ?str + (?ic * ?dc + ?iv * ?ke))"
      by (intro aligned_add aligned_mult al_st al_dc al_ke)
    have lay: "layout ?str (make_Coord (contiguous co) (idxs (strided co)))
               = ?tc + (?row * ?str + (?ic * ?dc + ?iv * ?ke))"
      by (simp add: layout_def make_Coord_def cov)
    have Ol: "?O (layout ?str (make_Coord (contiguous co) (idxs (strided co))))
              = ?O ?tc + ?O (?row * ?str + (?ic * ?dc + ?iv * ?ke))"
      by (simp only: lay OffsetBytes_add [OF al_tc rest])
    have off: "?row * ?str + (0 + ?ic * ?dc + ?iv * ?ke) = ?row * ?str + (?ic * ?dc + ?iv * ?ke)"
      by simp
    have "get cfg itk = (if valid cfg itk
            then Some (pointer itk + ?O (?row * ?str + (0 + ?ic * ?dc + ?iv * ?ke))) else None)"
      using g cof by (simp add: get_def Let_def f)
    then show ?thesis by (simp add: pk Ol)
  qed
  have perm: "get cfg itk =
              (if valid cfg itk
               then Some (ptr + ?O (PermuteLayout cfg ext (stride prm)
                               (make_Coord (contiguous co)
                                  (if Gather cfg then idxs (strided co) else strided co))))
               else None)"
    if p: "Permute cfg"
  proof -
    have pk: "pointer itk = ptr"
      unfolding itk using p by (simp add: funpow_pointer_slow it0 ctor_pointer)
    show ?thesis
      using p cof
      by (simp add: get_def Let_def pk f cov algebra_simps)
  qed
  from fast gath perm show ?thesis by blast
qed


lemma example_aligned:
  "8 dvd Element_bits cfg_example * x" "8 dvd Element_bits cfg_gather * x"
  by (simp_all add: cfg_example_consts cfg_gather_consts)

theorem pointer_coordinate_agreement_witness:
  "valid_config cfg_example \<and> params_ok cfg_example prm_example
   \<and> 8 dvd Element_bits cfg_example * stride prm_example
   \<and> get cfg_example ((operator_inc cfg_example ^^ 5) it_example) = Some 9468
   \<and> get cfg_gather ((operator_inc cfg_gather ^^ 0) it_gather) = Some 33764"
  using pointer_coordinate_agreement [OF cfg_example_valid params_example_ok(1)
      example_aligned(1) example_aligned(1) example_aligned(1) example_aligned(1) it_example_def
      refl refl, of 5]
    pointer_coordinate_agreement [OF cfg_gather_valid params_example_ok(2)
      example_aligned(2) example_aligned(2) example_aligned(2) example_aligned(2) it_gather_def
      refl refl, of 0]
    cfg_example_valid params_example_ok it_gather_eval example_aligned(1)
  by (simp add: it_example_coord5 it_gather_coord0 cfg_example_consts cfg_gather_consts
      OffsetBytes_def layout_def make_Coord_def)

lemma it_example_flag: "is_residue_tile it_example"
  unfolding it_example_def by (rule ctor_fields)

section \<open>Mask override\<close>

lemma add_tile_offset_cursor_ok:
  "cursor_ok cfg (the_predicates (add_tile_offset cfg t it)) = cursor_ok cfg (the_predicates it)"
proof (cases "is_residue_tile it")
  case True
  show ?thesis
    unfolding add_tile_offset_residue(1) [OF True]
    by (simp add: cursor_ok_def compute_predicates_frame)
next
  case False
  show ?thesis unfolding add_tile_offset_steady(1) [OF False] by (rule refl)
qed

lemma run_ops_cursor_ok:
  assumes "cursor_ok cfg (the_predicates it)"
  shows "cursor_ok cfg (the_predicates (run_ops cfg xs it))"
  using assms
proof (induction xs arbitrary: it)
  case Nil
  then show ?case by simp
next
  case (Cons x xs)
  have "cursor_ok cfg (the_predicates (apply_op cfg x it))"
    using Cons.prems by (cases x) (simp_all add: operator_inc_cursor_ok add_tile_offset_cursor_ok)
  then show ?case using Cons.IH by simp
qed

text \<open>
  Claim C7 (mask override), as the code implements it. After \<^verbatim>\<open>clear_mask(true)\<close>,
  \<^verbatim>\<open>valid()\<close> is false at every cursor position of the iteration space and after any
  number of \<^verbatim>\<open>operator++\<close> applications, and, once the iterator has left its first tile,
  after any sequence of \<^verbatim>\<open>operator++\<close> and \<^verbatim>\<open>add_tile_offset\<close> calls; \<^verbatim>\<open>enable_mask()\<close>
  makes it true again; \<^verbatim>\<open>clear_mask(false)\<close> changes nothing; and \<^verbatim>\<open>get_mask\<close> right
  after \<^verbatim>\<open>set_mask(m)\<close> returns \<open>m\<close>. (The first \<^verbatim>\<open>add_tile_offset\<close> of an iterator
  recomputes the predicates and so ends the cleared state as well.)
\<close>

theorem mask_override_amended:
  assumes cfg: "valid_config cfg" and wf: "wf_iterator cfg it"
    and m: "length m = nat (kPredicateWordCount cfg)"
    and m0: "length m0 = nat (kPredicateWordCount cfg)"
  shows "\<not> valid cfg ((operator_inc cfg ^^ k) (clear_mask cfg True it))
       \<and> (0 \<le> v \<and> v < kAccessesPerVector cfg \<and> 0 \<le> c \<and> c < Iterations_kContiguous cfg
            \<and> 0 \<le> s \<and> s < Iterations_kStrided cfg
          \<longrightarrow> \<not> Predicates_valid cfg (at_cursor (the_predicates (clear_mask cfg True it)) v c s))
       \<and> (\<not> is_residue_tile it \<longrightarrow> \<not> valid cfg (run_ops cfg ops (clear_mask cfg True it)))
       \<and> valid cfg ((operator_inc cfg ^^ k) (enable_mask cfg (clear_mask cfg True it)))
       \<and> clear_mask cfg False it = it
       \<and> get_mask cfg (set_mask cfg m it) m0 = m"
proof (intro conjI impI)
  let ?P = "the_predicates it"
  have cur: "cursor_ok cfg ?P" and len: "length (predicates ?P) = nat (kPredicateWordCount cfg)"
    using wf by (simp_all add: wf_iterator_def)
  let ?c = "clear_mask cfg True it"
  have pc: "predicates (the_predicates ?c) = replicate (nat (kPredicateWordCount cfg)) 0"
    by (simp add: clear_mask_def clear_mask_true_predicates [OF len])
  have cc: "cursor_ok cfg (the_predicates ?c)"
    using cur by (simp add: clear_mask_def mask_ops_cursor)
  show "\<not> valid cfg ((operator_inc cfg ^^ k) ?c)"
    unfolding valid_def
    by (rule valid_zero_predicates [OF cfg funpow_operator_inc_cursor_ok [OF cc]])
       (simp add: funpow_operator_inc_frame pc)
  show "\<not> Predicates_valid cfg (at_cursor (the_predicates ?c) v c s)"
    if "0 \<le> v \<and> v < kAccessesPerVector cfg \<and> 0 \<le> c \<and> c < Iterations_kContiguous cfg
            \<and> 0 \<le> s \<and> s < Iterations_kStrided cfg"
    using that by (intro valid_zero_predicates [OF cfg]) (simp_all add: cursor_ok_def at_cursor_def pc)
  show "\<not> valid cfg (run_ops cfg ops ?c)" if steady: "\<not> is_residue_tile it"
  proof -
    have "\<not> is_residue_tile ?c" using steady by (simp add: clear_mask_def)
    then have "predicates (the_predicates (run_ops cfg ops ?c)) = predicates (the_predicates ?c)"
      using run_ops_steady by blast
    then show ?thesis
      unfolding valid_def
      by (intro valid_zero_predicates [OF cfg run_ops_cursor_ok [OF cc]]) (simp add: pc)
  qed
  let ?e = "enable_mask cfg ?c"
  have lc: "length (predicates (the_predicates ?c)) = nat (kPredicateWordCount cfg)"
    by (simp add: pc)
  have pe: "predicates (the_predicates ?e) = replicate (nat (kPredicateWordCount cfg)) 0xffffffff"
    by (simp add: enable_mask_def enable_mask_predicates [OF lc])
  have ce: "cursor_ok cfg (the_predicates ?e)"
    using cc by (simp add: enable_mask_def mask_ops_cursor)
  show "valid cfg ((operator_inc cfg ^^ k) ?e)"
    unfolding valid_def
    by (rule valid_ones_predicates [OF cfg funpow_operator_inc_cursor_ok [OF ce]])
       (simp add: funpow_operator_inc_frame pe)
  show "clear_mask cfg False it = it"
    by (simp add: clear_mask_def clear_mask_false_id)
  have ls: "length (predicates (the_predicates (set_mask cfg m it))) = nat (kPredicateWordCount cfg)"
    by (simp add: set_mask_def set_mask_predicates [OF len m] m)
  show "get_mask cfg (set_mask cfg m it) m0 = m"
    unfolding get_mask_def get_mask_result [OF ls m0]
    by (simp add: set_mask_def set_mask_predicates [OF len m])
qed

lemma it_steady_wf:
  "wf_iterator cfg_example (add_tile_offset cfg_example (make_Coord 1 0) it_example)"
  "\<not> is_residue_tile (add_tile_offset cfg_example (make_Coord 1 0) it_example)"
proof -
  have "cursor_ok cfg_example (the_predicates it_example)"
    using it_example_wf by (simp add: wf_iterator_def)
  then have c: "cursor_ok cfg_example
      (the_predicates (add_tile_offset cfg_example (make_Coord 1 0) it_example))"
    by (simp only: add_tile_offset_cursor_ok)
  have l: "length (predicates (the_predicates
      (add_tile_offset cfg_example (make_Coord 1 0) it_example)))
      = nat (kPredicateWordCount cfg_example)"
    unfolding add_tile_offset_residue(1) [OF it_example_flag]
    by (rule compute_predicates_length [OF cfg_example_valid])
  from c l show "wf_iterator cfg_example (add_tile_offset cfg_example (make_Coord 1 0) it_example)"
    by (simp only: wf_iterator_def simp_thms)
  show "\<not> is_residue_tile (add_tile_offset cfg_example (make_Coord 1 0) it_example)"
    by (rule add_tile_offset_residue(2) [OF it_example_flag])
qed

theorem mask_override_amended_witness:
  "valid_config cfg_example
   \<and> wf_iterator cfg_example (add_tile_offset cfg_example (make_Coord 1 0) it_example)
   \<and> \<not> valid cfg_example
         ((operator_inc cfg_example ^^ 3)
            (clear_mask cfg_example True
               (add_tile_offset cfg_example (make_Coord 1 0) it_example)))
   \<and> \<not> Predicates_valid cfg_example
         (at_cursor (the_predicates (clear_mask cfg_example True
               (add_tile_offset cfg_example (make_Coord 1 0) it_example))) 0 1 1)
   \<and> \<not> valid cfg_example
         (run_ops cfg_example [Op_inc, Op_add_tile_offset (make_Coord 1 0), Op_inc]
            (clear_mask cfg_example True
               (add_tile_offset cfg_example (make_Coord 1 0) it_example)))
   \<and> valid cfg_example
        ((operator_inc cfg_example ^^ 3)
           (enable_mask cfg_example (clear_mask cfg_example True
               (add_tile_offset cfg_example (make_Coord 1 0) it_example))))
   \<and> clear_mask cfg_example False (add_tile_offset cfg_example (make_Coord 1 0) it_example)
       = add_tile_offset cfg_example (make_Coord 1 0) it_example
   \<and> get_mask cfg_example
         (set_mask cfg_example [5] (add_tile_offset cfg_example (make_Coord 1 0) it_example)) [0]
       = [5]"
  using mask_override_amended [OF cfg_example_valid it_steady_wf(1), of "[5]" "[0]" 3 0 1 1
      "[Op_inc, Op_add_tile_offset (make_Coord 1 0), Op_inc]"]
    cfg_example_valid it_steady_wf
  by (simp add: cfg_example_words cfg_example_consts)

theorem mask_override_counterexample:
  "\<not> valid cfg_example (clear_mask cfg_example True it_example)
   \<and> valid cfg_example
        (add_tile_offset cfg_example (make_Coord 1 0) (clear_mask cfg_example True it_example))"
  by code_simp

section \<open>The first tile transition\<close>








lemma add_tile_offset_cursor:
  "iteration_vector (the_predicates (add_tile_offset cfg t it)) = iteration_vector (the_predicates it)"
  "iteration_contiguous (the_predicates (add_tile_offset cfg t it))
   = iteration_contiguous (the_predicates it)"
  "iteration_strided (the_predicates (add_tile_offset cfg t it)) = iteration_strided (the_predicates it)"
  by (simp_all add: add_tile_offset_def Let_def add_pointer_offset_def compute_predicates_frame)








section \<open>Bounds fidelity\<close>

lemma iteration_coord_nonneg:
  assumes cfg: "valid_config cfg" and cur: "cursor_ok cfg P"
    and d: "0 \<le> Delta_kContiguous cfg" "0 \<le> Delta_kStrided cfg"
  shows "0 \<le> contiguous (iteration_coord cfg (iteration_vector P) (iteration_contiguous P)
                            (iteration_strided P))"
    and "0 \<le> strided (iteration_coord cfg (iteration_vector P) (iteration_contiguous P)
                         (iteration_strided P))"
proof -
  have "0 \<le> iteration_contiguous P * Delta_kContiguous cfg"
    using cur d by (simp add: cursor_ok_def)
  moreover have "0 \<le> iteration_vector P * AccessType_kElements cfg"
    using cur cfg by (simp add: cursor_ok_def valid_config_def)
  ultimately show "0 \<le> contiguous (iteration_coord cfg (iteration_vector P)
                            (iteration_contiguous P) (iteration_strided P))"
    by (simp add: iteration_coord_def make_Coord_def)
  show "0 \<le> strided (iteration_coord cfg (iteration_vector P) (iteration_contiguous P)
                         (iteration_strided P))"
    using cur d by (simp add: iteration_coord_def make_Coord_def cursor_ok_def)
qed

lemma residue_size_eq:
  assumes cfg: "valid_config cfg"
  shows "residue_size cfg ext tb
         = (let r = (coord_at ext (kAdvanceRank cfg) - coord_at tb (kAdvanceRank cfg))
                      smod advance_tile_size cfg
            in if r = 0 then advance_tile_size cfg else r)"
  using cfg by (auto simp add: residue_size_def advance_tile_size_def coord_at_def valid_config_def Let_def)

lemma advance_tile_size_pos:
  assumes cfg: "valid_config cfg"
  shows "0 < advance_tile_size cfg"
  using cfg by (simp add: advance_tile_size_def valid_config_def)

lemma residue_size_pos:
  assumes cfg: "valid_config cfg"
    and rem: "coord_at tb (kAdvanceRank cfg) \<le> coord_at ext (kAdvanceRank cfg)"
  shows "0 < residue_size cfg ext tb"
proof -
  let ?x = "coord_at ext (kAdvanceRank cfg) - coord_at tb (kAdvanceRank cfg)"
  have T: "0 < advance_tile_size cfg" by (rule advance_tile_size_pos [OF cfg])
  have x: "0 \<le> ?x" using rem by simp
  have "0 \<le> ?x smod advance_tile_size cfg" by (rule smod_int_compares(2) [OF x T])
  then show ?thesis using T unfolding residue_size_eq [OF cfg] by (simp add: Let_def)
qed

lemma residue_size_gt:
  assumes cfg: "valid_config cfg"
  shows "- advance_tile_size cfg < residue_size cfg ext tb"
proof -
  let ?x = "coord_at ext (kAdvanceRank cfg) - coord_at tb (kAdvanceRank cfg)"
  have T: "0 < advance_tile_size cfg" by (rule advance_tile_size_pos [OF cfg])
  then have "?x smod advance_tile_size cfg \<in> {- \<bar>advance_tile_size cfg\<bar> + 1..\<bar>advance_tile_size cfg\<bar> - 1}"
    by (intro smod_int_range) simp
  then have "- advance_tile_size cfg < ?x smod advance_tile_size cfg" using T by simp
  then show ?thesis using T unfolding residue_size_eq [OF cfg] by (simp add: Let_def)
qed

lemma tile_inside_residue_pos:
  assumes cfg: "valid_config cfg" and n: "1 \<le> n"
    and ins: "coord_at tb (kAdvanceRank cfg) + residue_size cfg ext tb + n * advance_tile_size cfg
              \<le> coord_at ext (kAdvanceRank cfg)"
  shows "0 < residue_size cfg ext tb"
proof -
  have T: "0 < advance_tile_size cfg" by (rule advance_tile_size_pos [OF cfg])
  have "1 * advance_tile_size cfg \<le> n * advance_tile_size cfg"
    using n T by (intro mult_right_mono) simp_all
  then have "0 < residue_size cfg ext tb + n * advance_tile_size cfg"
    using residue_size_gt [OF cfg, of ext tb] by simp
  then have "coord_at tb (kAdvanceRank cfg) \<le> coord_at ext (kAdvanceRank cfg)" using ins by simp
  then show ?thesis by (rule residue_size_pos [OF cfg])
qed

lemma later_tile_valid:
  assumes cfg: "valid_config cfg"
    and itk: "itk = (operator_inc cfg ^^ k) (PredicatedTileAccessIterator cfg prm ptr ext tid tb idxs)"
    and itn: "itn = run_ops cfg ops (add_tile_offset cfg t itk)"
  shows "valid cfg itn
         = (coord_at (tile_coord cfg ext tid tb n itn) (1 - kAdvanceRank cfg)
            < coord_at ext (1 - kAdvanceRank cfg))"
proof -
  let ?it0 = "PredicatedTileAccessIterator cfg prm ptr ext tid tb idxs"
  let ?P = "the_predicates itk"
  let ?P1 = "?P\<lparr>thread_offset := coord_add (thread_offset ?P) (residue_offset ?P)\<rparr>"
  let ?it1 = "add_tile_offset cfg t itk"
  have rank: "kAdvanceRank cfg = 0 \<or> kAdvanceRank cfg = 1" using cfg by (simp add: valid_config_def)
  have rk: "is_residue_tile itk" unfolding itk funpow_operator_inc_frame by (rule ctor_fields)
  have fk: "extent ?P = ext" "thread_offset ?P = coord_add tb (initial_offset cfg tid)"
    "residue_offset ?P = (if kAdvanceRank cfg \<noteq> 0 then make_Coord 0 (residue_size cfg ext tb)
                           else make_Coord (residue_size cfg ext tb) 0)"
    unfolding itk funpow_operator_inc_frame ctor_fields by (rule refl)+
  have p1: "the_predicates ?it1 = compute_predicates cfg ext True ?P1"
    unfolding add_tile_offset_residue(1) [OF rk] fk(1) by (rule refl)
  have r1: "\<not> is_residue_tile ?it1" by (rule add_tile_offset_residue(2) [OF rk])
  have ck: "cursor_ok cfg ?P"
    unfolding itk by (rule funpow_operator_inc_cursor_ok [OF ctor_cursor_ok [OF cfg]])
  have c1: "cursor_ok cfg (the_predicates ?it1)" unfolding add_tile_offset_cursor_ok by (rule ck)
  have cn: "cursor_ok cfg (the_predicates itn)" unfolding itn by (rule run_ops_cursor_ok [OF c1])
  have Q: "predicates (the_predicates itn) = predicates (compute_predicates cfg ext True ?P1)"
    using run_ops_steady [OF r1, of cfg ops] by (simp add: itn p1)
  have toff: "thread_offset ?P1
              = coord_add (coord_add tb (initial_offset cfg tid))
                  (if kAdvanceRank cfg \<noteq> 0 then make_Coord 0 (residue_size cfg ext tb)
                   else make_Coord (residue_size cfg ext tb) 0)"
    by (simp add: fk)
  show ?thesis
    unfolding valid_iterator_computed [OF cfg cn Q] toff
    using rank
    by (auto simp add: compute_guard_def access_coord_def tile_coord_def tile_origin_def
        coord_add_def make_Coord_def coord_at_def)
qed

lemma apply_op_pointer_steady:
  assumes fast: "\<not> Gather cfg" "\<not> Permute cfg"
    and cur: "cursor_ok cfg (the_predicates it)" and prm: "params_ok cfg (params it)"
    and st: "\<not> is_residue_tile it"
    and rank: "kAdvanceRank cfg = 0 \<or> kAdvanceRank cfg = 1"
    and adv: "advance_only cfg [x]"
    and inv: "pointer it = B + iteration_strided (the_predicates it) * inc_strided (params it)"
  shows "pointer (apply_op cfg x it)
         = (B + inc_advance (params it) * tile_steps cfg [x])
           + iteration_strided (the_predicates (apply_op cfg x it)) * inc_strided (params it)"
proof (cases x)
  case Op_inc
  show ?thesis
    using operator_inc_pointer_fast [OF fast cur prm inv] by (simp add: Op_inc)
next
  case (Op_add_tile_offset t)
  have "coord_at t (1 - kAdvanceRank cfg) = 0" using adv by (simp add: Op_add_tile_offset)
  from add_tile_offset_steady_pointer [OF st fast this rank] inv
  show ?thesis by (simp add: Op_add_tile_offset add_tile_offset_cursor)
qed

lemma advance_only_Cons:
  "advance_only cfg (x # xs) = (advance_only cfg [x] \<and> advance_only cfg xs)"
  by (cases x) simp_all

lemma tile_steps_Cons:
  "tile_steps cfg (x # xs) = tile_steps cfg [x] + tile_steps cfg xs"
  by (cases x) simp_all

lemma run_ops_pointer_steady:
  assumes fast: "\<not> Gather cfg" "\<not> Permute cfg"
    and rank: "kAdvanceRank cfg = 0 \<or> kAdvanceRank cfg = 1"
    and prm: "params_ok cfg (params it)"
    and cur: "cursor_ok cfg (the_predicates it)"
    and st: "\<not> is_residue_tile it"
    and adv: "advance_only cfg xs"
    and inv: "pointer it = B + iteration_strided (the_predicates it) * inc_strided (params it)"
  shows "pointer (run_ops cfg xs it)
         = (B + inc_advance (params it) * tile_steps cfg xs)
           + iteration_strided (the_predicates (run_ops cfg xs it)) * inc_strided (params it)"
  using prm cur st adv inv
proof (induction xs arbitrary: it B)
  case Nil
  then show ?case by simp
next
  case (Cons x xs)
  let ?it' = "apply_op cfg x it"
  have a1: "advance_only cfg [x]" and a2: "advance_only cfg xs"
    using Cons.prems(4) advance_only_Cons [of cfg x xs] by simp_all
  have p': "params ?it' = params it" by (rule apply_op_params)
  have c': "cursor_ok cfg (the_predicates ?it')"
    using run_ops_cursor_ok [OF Cons.prems(2), of "[x]"] by simp
  have s': "\<not> is_residue_tile ?it'" by (rule apply_op_steady(1) [OF Cons.prems(3)])
  have i': "pointer ?it'
         = (B + inc_advance (params it) * tile_steps cfg [x])
           + iteration_strided (the_predicates ?it') * inc_strided (params ?it')"
    unfolding p'
    by (rule apply_op_pointer_steady [OF fast Cons.prems(2) Cons.prems(1) Cons.prems(3) rank a1
          Cons.prems(5)])
  have "pointer (run_ops cfg xs ?it')
         = ((B + inc_advance (params it) * tile_steps cfg [x])
              + inc_advance (params ?it') * tile_steps cfg xs)
           + iteration_strided (the_predicates (run_ops cfg xs ?it')) * inc_strided (params ?it')"
    by (rule Cons.IH [OF _ c' s' a2 i']) (simp add: p' Cons.prems(1))
  then show ?case
    unfolding p' by (simp add: tile_steps_Cons [of cfg x xs] distrib_left)
qed

lemma get_plain_address:
  assumes fast: "\<not> Gather cfg" "\<not> Permute cfg"
    and prm: "params_ok cfg prm"
    and al_ke: "8 dvd Element_bits cfg * AccessType_kElements cfg"
    and al_dc: "8 dvd Element_bits cfg * Delta_kContiguous cfg"
    and al_st: "8 dvd Element_bits cfg * stride prm"
    and al_bc: "8 dvd Element_bits cfg * contiguous base"
    and ptr: "pointer it = ptr + OffsetBytes cfg (layout (stride prm) base)
                           + iteration_strided (the_predicates it) * inc_strided prm"
  shows "get cfg it
         = Some (ptr + OffsetBytes cfg (layout (stride prm)
                   (coord_add base
                      (iteration_coord cfg (iteration_vector (the_predicates it))
                         (iteration_contiguous (the_predicates it))
                         (iteration_strided (the_predicates it))))))"
proof -
  let ?P = "the_predicates it"
  let ?tc = "contiguous base" and ?ts = "strided base"
  let ?iv = "iteration_vector ?P" and ?ic = "iteration_contiguous ?P"
    and ?is = "iteration_strided ?P"
  let ?dc = "Delta_kContiguous cfg" and ?ds = "Delta_kStrided cfg"
    and ?ke = "AccessType_kElements cfg" and ?str = "stride prm"
  let ?O = "OffsetBytes cfg"
  let ?co = "coord_add base (iteration_coord cfg ?iv ?ic ?is)"
  have raw: "(Element_bits cfg * x) sdiv 8 = ?O x" for x by (simp add: OffsetBytes_def)
  have raw_ic: "(?ic * (?dc * Element_bits cfg)) sdiv 8 = ?ic * ?O ?dc"
  proof -
    have "?ic * (?dc * Element_bits cfg) = Element_bits cfg * (?ic * ?dc)"
      by (simp only: mult.commute mult.left_commute)
    then show ?thesis by (simp only: raw OffsetBytes_mult [OF al_dc])
  qed
  have sz: "sizeof_AccessType cfg = ?O ?ke"
    by (simp add: sizeof_AccessType_def OffsetBytes_def mult.commute)
  have acc: "8 dvd Element_bits cfg * (?ic * ?dc + ?iv * ?ke)"
    by (intro aligned_add aligned_mult al_dc al_ke)
  have O_acc: "?O (?ic * ?dc + ?iv * ?ke) = ?ic * ?O ?dc + ?iv * ?O ?ke"
    by (simp only: OffsetBytes_add [OF aligned_mult [OF al_dc] aligned_mult [OF al_ke]]
        OffsetBytes_mult [OF al_dc] OffsetBytes_mult [OF al_ke])
  have cov: "contiguous ?co = ?tc + (?ic * ?dc + ?iv * ?ke)" "strided ?co = ?ts + ?is * ?ds"
    by (simp_all add: iteration_coord_def coord_add_def make_Coord_def)
  have incs: "inc_strided prm = ?ds * ?O ?str"
  proof -
    have e: "?str * ?ds * Element_bits cfg = Element_bits cfg * (?ds * ?str)"
      by (simp only: mult.commute mult.left_commute)
    have "inc_strided prm = (?str * ?ds * Element_bits cfg) sdiv 8"
      using prm by (simp add: params_ok_def)
    then have "inc_strided prm = ?O (?ds * ?str)" by (simp only: e raw)
    then show ?thesis by (simp only: OffsetBytes_mult [OF al_st])
  qed
  have O0: "?O (layout ?str base) = ?O ?tc + ?ts * ?O ?str"
    by (simp only: layout_def OffsetBytes_add [OF al_bc aligned_mult [OF al_st]]
        OffsetBytes_mult [OF al_st])
  have pk: "pointer it = ptr + (?O ?tc + ?ts * ?O ?str) + ?is * (?ds * ?O ?str)"
    by (simp only: ptr incs O0)
  have lay: "layout ?str ?co = (?tc + (?ic * ?dc + ?iv * ?ke)) + (?ts + ?is * ?ds) * ?str"
    by (simp only: layout_def cov)
  have Ol: "?O (layout ?str ?co)
            = (?O ?tc + (?ic * ?O ?dc + ?iv * ?O ?ke)) + (?ts + ?is * ?ds) * ?O ?str"
    by (simp only: lay OffsetBytes_add [OF aligned_add [OF al_bc acc] aligned_mult [OF al_st]]
        OffsetBytes_add [OF al_bc acc] O_acc OffsetBytes_mult [OF al_st])
  have "get cfg it = Some (pointer it + (?ic * (?dc * Element_bits cfg)) sdiv 8
                              + ?iv * sizeof_AccessType cfg)"
    using fast by (simp add: get_def Let_def)
  also have "\<dots> = Some (pointer it + ?ic * ?O ?dc + ?iv * ?O ?ke)"
    by (simp only: raw_ic sz)
  also have "\<dots> = Some (ptr + ?O (layout ?str ?co))"
    by (simp add: pk Ol algebra_simps)
  finally show ?thesis .
qed

lemma tile_base_offset:
  assumes rank: "kAdvanceRank cfg = 0 \<or> kAdvanceRank cfg = 1"
    and pa: "params_advance_ok cfg prm"
    and al: "byte_aligned cfg prm ext tid tb"
  shows "OffsetBytes cfg (layout (stride prm)
           (coord_add (coord_add tb (initial_offset cfg tid)) (tile_origin cfg ext tb n)))
         = OffsetBytes cfg (layout (stride prm) (coord_add tb (initial_offset cfg tid)))
           + (Element_bits cfg * layout (stride prm)
                (if kAdvanceRank cfg \<noteq> 0 then make_Coord 0 (residue_size cfg ext tb)
                 else make_Coord (residue_size cfg ext tb) 0)) sdiv 8
           + inc_advance prm * (n - 1)"
    and "8 dvd Element_bits cfg
           * contiguous (coord_add (coord_add tb (initial_offset cfg tid)) (tile_origin cfg ext tb n))"
proof -
  let ?toff = "coord_add tb (initial_offset cfg tid)"
  let ?tc = "contiguous ?toff" and ?ts = "strided ?toff"
  let ?r = "residue_size cfg ext tb" and ?str = "stride prm"
  let ?O = "OffsetBytes cfg"
  let ?base = "coord_add ?toff (tile_origin cfg ext tb n)"
  have al_st: "8 dvd Element_bits cfg * ?str" and al_tc: "8 dvd Element_bits cfg * ?tc"
    and al_r: "8 dvd Element_bits cfg * ?r"
    and al_T: "8 dvd Element_bits cfg * advance_tile_size cfg"
    using al by (simp_all add: byte_aligned_def)
  have raw: "(Element_bits cfg * x) sdiv 8 = ?O x" for x by (simp add: OffsetBytes_def)
  have L0: "layout ?str ?toff = ?tc + ?ts * ?str" by (simp add: layout_def)
  have al_L0: "8 dvd Element_bits cfg * (?tc + ?ts * ?str)"
    by (intro aligned_add aligned_mult al_tc al_st)
  show "?O (layout ?str ?base)
         = ?O (layout ?str ?toff)
           + (Element_bits cfg * layout ?str
                (if kAdvanceRank cfg \<noteq> 0 then make_Coord 0 ?r else make_Coord ?r 0)) sdiv 8
           + inc_advance prm * (n - 1)"
  proof (cases "kAdvanceRank cfg = 0")
    case True
    let ?T = "Shape_kContiguous cfg"
    have al_T': "8 dvd Element_bits cfg * ?T" using al_T True by (simp add: advance_tile_size_def)
    have Lb: "layout ?str ?base = (?tc + ?ts * ?str) + (?r + (n - 1) * ?T)"
      by (simp add: layout_def coord_add_def make_Coord_def tile_origin_def True)
    have al_rt: "8 dvd Element_bits cfg * (?r + (n - 1) * ?T)"
      by (intro aligned_add aligned_mult al_r al_T')
    have Ob: "?O (layout ?str ?base) = ?O (?tc + ?ts * ?str) + (?O ?r + (n - 1) * ?O ?T)"
      by (simp only: Lb OffsetBytes_add [OF al_L0 al_rt]
          OffsetBytes_add [OF al_r aligned_mult [OF al_T']] OffsetBytes_mult [OF al_T'])
    have res: "(Element_bits cfg * layout ?str
                (if kAdvanceRank cfg \<noteq> 0 then make_Coord 0 ?r else make_Coord ?r 0)) sdiv 8 = ?O ?r"
      by (simp add: True layout_def make_Coord_def OffsetBytes_def)
    have inc: "inc_advance prm = ?O ?T"
      using pa by (simp add: params_advance_ok_def True OffsetBytes_def mult.commute)
    show ?thesis by (simp only: Ob res inc L0) (simp add: algebra_simps)
  next
    case False
    let ?T = "Shape_kStrided cfg"
    have Lb: "layout ?str ?base = (?tc + ?ts * ?str) + (?r * ?str + (n - 1) * (?T * ?str))"
      using False
      by (simp add: layout_def coord_add_def make_Coord_def tile_origin_def algebra_simps)
    have al_rt: "8 dvd Element_bits cfg * (?r * ?str + (n - 1) * (?T * ?str))"
      by (intro aligned_add aligned_mult al_st)
    have Ob: "?O (layout ?str ?base)
              = ?O (?tc + ?ts * ?str) + (?O (?r * ?str) + (n - 1) * ?O (?T * ?str))"
      by (simp only: Lb OffsetBytes_add [OF al_L0 al_rt]
          OffsetBytes_add [OF aligned_mult [OF al_st] aligned_mult [OF aligned_mult [OF al_st]]]
          OffsetBytes_mult [OF aligned_mult [OF al_st]])
    have res: "(Element_bits cfg * layout ?str
                (if kAdvanceRank cfg \<noteq> 0 then make_Coord 0 ?r else make_Coord ?r 0)) sdiv 8
               = ?O (?r * ?str)"
      using False by (simp add: layout_def make_Coord_def OffsetBytes_def)
    have e: "?T * ?str * Element_bits cfg = Element_bits cfg * (?T * ?str)"
      by (simp only: mult.commute)
    have inc: "inc_advance prm = ?O (?T * ?str)"
      using pa False by (simp add: params_advance_ok_def e raw)
    show ?thesis by (simp only: Ob res inc L0) (simp add: algebra_simps)
  qed
  show "8 dvd Element_bits cfg * contiguous ?base"
  proof (cases "kAdvanceRank cfg = 0")
    case True
    have al_T': "8 dvd Element_bits cfg * Shape_kContiguous cfg"
      using al_T True by (simp add: advance_tile_size_def)
    have "contiguous ?base = ?tc + (?r + (n - 1) * Shape_kContiguous cfg)"
      by (simp add: coord_add_def make_Coord_def tile_origin_def True)
    then show ?thesis by (simp only:) (intro aligned_add aligned_mult al_tc al_r al_T')
  next
    case False
    then have "contiguous ?base = ?tc"
      by (simp add: coord_add_def make_Coord_def tile_origin_def)
    then show ?thesis using al_tc by (simp only:)
  qed
qed

text \<open>
  Claim C1 (bounds fidelity), as the code implements it. Let the threadblock offset, the
  thread's initial offset and the deltas of the thread map be non-negative. In the first
  tile the coordinate of the access under the cursor is the thread offset plus the
  iteration delta, and \<^verbatim>\<open>valid()\<close> is true exactly when that coordinate lies within
  \<open>[0, R.contiguous) \<times> [0, R.strided)\<close> for the residue-adjusted extent \<open>R\<close>; put
  differently, when it lies within \<open>[0, E.contiguous) \<times> [0, E.strided)\<close> and, on the
  advance axis, below the threadblock offset plus the residue size. From the first
  \<^verbatim>\<open>add_tile_offset\<close> on, along any sequence of \<^verbatim>\<open>operator++\<close> and \<^verbatim>\<open>add_tile_offset\<close>
  calls whose tile offsets lie along the advance axis, with \<open>n\<close> the number of tile steps
  taken, the coordinate of the access is the thread offset moved along the advance axis by
  the residue size and \<open>n - 1\<close> full tiles, plus the iteration delta; \<^verbatim>\<open>valid()\<close> is true
  exactly when that coordinate is below \<open>E\<close> on the axis that is not the advance axis, and
  when the tile lies inside the extent along the advance axis and the access inside its
  tile, \<^verbatim>\<open>valid()\<close> is true exactly when the coordinate lies within
  \<open>[0, E.contiguous) \<times> [0, E.strided)\<close>. On the plain path, with the increments of section
  4.2 in the \<^verbatim>\<open>Params\<close> object and accesses that start on byte boundaries, \<^verbatim>\<open>get()\<close>
  returns the address of these coordinates in both phases.
\<close>

theorem bounds_fidelity_amended:
  assumes cfg: "valid_config cfg" and geo: "nonneg_geometry cfg tid tb"
    and it0: "it0 = PredicatedTileAccessIterator cfg prm ptr ext tid tb idxs"
    and itk: "itk = (operator_inc cfg ^^ k) it0"
    and adv: "advance_only cfg (Op_add_tile_offset t # ops)"
    and itn: "itn = run_ops cfg (Op_add_tile_offset t # ops) itk"
    and n: "n = tile_steps cfg (Op_add_tile_offset t # ops)"
    and co1: "co1 = cursor_coord cfg itk"
    and con: "con = tile_coord cfg ext tid tb n itn"
  shows "co1 = coord_add (coord_add tb (initial_offset cfg tid))
                 (iteration_coord cfg (iteration_vector (the_predicates itk))
                    (iteration_contiguous (the_predicates itk))
                    (iteration_strided (the_predicates itk)))
       \<and> (valid cfg itk \<longleftrightarrow>
            0 \<le> contiguous co1 \<and> contiguous co1 < contiguous (residue_extent cfg ext tb)
            \<and> 0 \<le> strided co1 \<and> strided co1 < strided (residue_extent cfg ext tb))
       \<and> (valid cfg itk \<longleftrightarrow>
            (0 \<le> contiguous co1 \<and> contiguous co1 < contiguous ext
             \<and> 0 \<le> strided co1 \<and> strided co1 < strided ext)
            \<and> coord_at co1 (kAdvanceRank cfg)
                < coord_at tb (kAdvanceRank cfg) + residue_size cfg ext tb)
       \<and> (valid cfg itn \<longleftrightarrow>
            coord_at con (1 - kAdvanceRank cfg) < coord_at ext (1 - kAdvanceRank cfg))
       \<and> (1 \<le> n
            \<and> coord_at tb (kAdvanceRank cfg) + residue_size cfg ext tb + n * advance_tile_size cfg
                \<le> coord_at ext (kAdvanceRank cfg)
            \<and> coord_at (coord_add (initial_offset cfg tid)
                           (iteration_coord cfg (iteration_vector (the_predicates itn))
                              (iteration_contiguous (the_predicates itn))
                              (iteration_strided (the_predicates itn))))
                 (kAdvanceRank cfg)
                < advance_tile_size cfg
          \<longrightarrow> (valid cfg itn \<longleftrightarrow>
                 0 \<le> contiguous con \<and> contiguous con < contiguous ext
                 \<and> 0 \<le> strided con \<and> strided con < strided ext))
       \<and> (\<not> Gather cfg \<and> \<not> Permute cfg \<and> params_ok cfg prm \<and> params_advance_ok cfg prm
            \<and> byte_aligned cfg prm ext tid tb
          \<longrightarrow> get cfg itk = Some (ptr + OffsetBytes cfg (layout (stride prm) co1))
              \<and> get cfg itn = Some (ptr + OffsetBytes cfg (layout (stride prm) con)))"
proof -
  let ?toff = "coord_add tb (initial_offset cfg tid)"
  let ?res = "if kAdvanceRank cfg \<noteq> 0 then make_Coord 0 (residue_size cfg ext tb)
              else make_Coord (residue_size cfg ext tb) 0"
  let ?it1 = "add_tile_offset cfg t itk"
  let ?dk = "iteration_coord cfg (iteration_vector (the_predicates itk))
                    (iteration_contiguous (the_predicates itk))
                    (iteration_strided (the_predicates itk))"
  let ?dn = "iteration_coord cfg (iteration_vector (the_predicates itn))
                    (iteration_contiguous (the_predicates itn))
                    (iteration_strided (the_predicates itn))"
  let ?a = "kAdvanceRank cfg"
  let ?T = "advance_tile_size cfg"
  let ?O = "OffsetBytes cfg"
  have rank: "?a = 0 \<or> ?a = 1" using cfg by (simp add: valid_config_def)
  have itk': "itk = (operator_inc cfg ^^ k) (PredicatedTileAccessIterator cfg prm ptr ext tid tb idxs)"
    unfolding itk it0 by (rule refl)
  have itn': "itn = run_ops cfg ops ?it1" unfolding itn by simp
  have fk: "thread_offset (the_predicates itk) = ?toff" "params itk = prm"
    "residue_offset (the_predicates itk) = ?res"
    unfolding itk funpow_operator_inc_frame it0 ctor_fields by (rule refl)+
  have rk: "is_residue_tile itk" unfolding itk' funpow_operator_inc_frame by (rule ctor_fields)
  have r1: "\<not> is_residue_tile ?it1" by (rule add_tile_offset_residue(2) [OF rk])
  have cur0: "cursor_ok cfg (the_predicates it0)" unfolding it0 by (rule ctor_cursor_ok [OF cfg])
  have ck: "cursor_ok cfg (the_predicates itk)"
    unfolding itk by (rule funpow_operator_inc_cursor_ok [OF cur0])
  have c1: "cursor_ok cfg (the_predicates ?it1)" unfolding add_tile_offset_cursor_ok by (rule ck)
  have cn: "cursor_ok cfg (the_predicates itn)" unfolding itn' by (rule run_ops_cursor_ok [OF c1])
  have d: "0 \<le> Delta_kContiguous cfg" "0 \<le> Delta_kStrided cfg"
    and g: "0 \<le> contiguous tb" "0 \<le> strided tb" "0 \<le> contiguous (initial_offset cfg tid)"
      "0 \<le> strided (initial_offset cfg tid)"
    using geo by (simp_all add: nonneg_geometry_def)
  note dk = iteration_coord_nonneg [OF cfg ck d]
  note dn = iteration_coord_nonneg [OF cfg cn d]
  have e1: "co1 = coord_add ?toff ?dk"
    by (simp add: co1 cursor_coord_def access_coord_def fk)
  have lo1: "0 \<le> contiguous co1" "0 \<le> strided co1"
    using dk g by (simp_all add: e1 coord_add_def make_Coord_def)
  have v1: "valid cfg itk \<longleftrightarrow>
            0 \<le> contiguous co1 \<and> contiguous co1 < contiguous (residue_extent cfg ext tb)
            \<and> 0 \<le> strided co1 \<and> strided co1 < strided (residue_extent cfg ext tb)"
    unfolding itk' co1 first_tile_valid [OF cfg]
    using lo1 unfolding co1 itk' by (auto simp add: compute_guard_def)
  have s1: "valid cfg itk \<longleftrightarrow>
            (0 \<le> contiguous co1 \<and> contiguous co1 < contiguous ext
             \<and> 0 \<le> strided co1 \<and> strided co1 < strided ext)
            \<and> coord_at co1 ?a < coord_at tb ?a + residue_size cfg ext tb"
    unfolding v1 using rank
    by (auto simp add: residue_extent_def make_Coord_def coord_at_def)
  have vn: "valid cfg itn \<longleftrightarrow> coord_at con (1 - ?a) < coord_at ext (1 - ?a)"
    unfolding con by (rule later_tile_valid [OF cfg itk' itn'])
  have two: "valid cfg itn \<longleftrightarrow>
                 0 \<le> contiguous con \<and> contiguous con < contiguous ext
                 \<and> 0 \<le> strided con \<and> strided con < strided ext"
    if h: "1 \<le> n
            \<and> coord_at tb ?a + residue_size cfg ext tb + n * ?T \<le> coord_at ext ?a
            \<and> coord_at (coord_add (initial_offset cfg tid) ?dn) ?a < ?T"
  proof -
    have rpos: "0 < residue_size cfg ext tb"
      using h by (intro tile_inside_residue_pos [OF cfg, of n]) simp_all
    have Tpos: "0 < ?T" by (rule advance_tile_size_pos [OF cfg])
    have nT: "0 \<le> (n - 1) * ?T" using h Tpos by simp
    have ca: "coord_at con ?a
              = coord_at tb ?a + residue_size cfg ext tb + (n - 1) * ?T
                + coord_at (coord_add (initial_offset cfg tid) ?dn) ?a"
      using rank
      by (auto simp add: con tile_coord_def tile_origin_def coord_add_def make_Coord_def
          coord_at_def advance_tile_size_def)
    have cb: "coord_at con (1 - ?a)
              = coord_at tb (1 - ?a) + coord_at (coord_add (initial_offset cfg tid) ?dn) (1 - ?a)"
      using rank
      by (auto simp add: con tile_coord_def tile_origin_def coord_add_def make_Coord_def
          coord_at_def)
    have in0: "0 \<le> coord_at (coord_add (initial_offset cfg tid) ?dn) i" for i
      using dn g by (simp add: coord_at_def coord_add_def make_Coord_def)
    have tb0: "0 \<le> coord_at tb i" for i using g by (simp add: coord_at_def)
    have "n * ?T = (n - 1) * ?T + ?T" by (simp add: algebra_simps)
    then have hi_a: "coord_at con ?a < coord_at ext ?a" using h unfolding ca by linarith
    have lo_a: "0 \<le> coord_at con ?a"
      unfolding ca using tb0 [of ?a] rpos nT in0 [of ?a] by linarith
    have lo_b: "0 \<le> coord_at con (1 - ?a)"
      unfolding cb using tb0 [of "1 - ?a"] in0 [of "1 - ?a"] by linarith
    show ?thesis
      unfolding vn using rank hi_a lo_a lo_b by (auto simp add: coord_at_def)
  qed
  have addr: "get cfg itk = Some (ptr + ?O (layout (stride prm) co1))
              \<and> get cfg itn = Some (ptr + ?O (layout (stride prm) con))"
    if h: "\<not> Gather cfg \<and> \<not> Permute cfg \<and> params_ok cfg prm \<and> params_advance_ok cfg prm
            \<and> byte_aligned cfg prm ext tid tb"
  proof -
    have fast: "\<not> Gather cfg" "\<not> Permute cfg" and prm: "params_ok cfg prm"
      and pa: "params_advance_ok cfg prm" and al: "byte_aligned cfg prm ext tid tb"
      using h by simp_all
    have al_ke: "8 dvd Element_bits cfg * AccessType_kElements cfg"
      and al_dc: "8 dvd Element_bits cfg * Delta_kContiguous cfg"
      and al_st: "8 dvd Element_bits cfg * stride prm"
      and al_tc: "8 dvd Element_bits cfg * contiguous ?toff"
      using al by (simp_all add: byte_aligned_def)
    have raw: "(Element_bits cfg * x) sdiv 8 = ?O x" for x by (simp add: OffsetBytes_def)
    have p0: "params it0 = prm" unfolding it0 by (rule ctor_fields)
    have inv0: "pointer it0 = (ptr + ?O (layout (stride prm) ?toff))
                  + iteration_strided (the_predicates it0) * inc_strided (params it0)"
      using fast unfolding it0
      by (simp add: ctor_pointer raw ctor_the_predicates set_predicates_cursor)
    have "pointer itk = (ptr + ?O (layout (stride prm) ?toff))
                  + iteration_strided (the_predicates itk) * inc_strided (params it0)"
      unfolding itk
      by (intro funpow_pointer_fast [OF fast cur0 _ inv0]) (simp add: p0 prm)
    then have pk: "pointer itk = ptr + ?O (layout (stride prm) ?toff)
                  + iteration_strided (the_predicates itk) * inc_strided prm"
      by (simp only: p0)
    have gk: "get cfg itk = Some (ptr + ?O (layout (stride prm) co1))"
      unfolding e1 by (rule get_plain_address [OF fast prm al_ke al_dc al_st al_tc pk])
    have tadv: "coord_at t (1 - ?a) = 0" and oadv: "advance_only cfg ops" using adv by simp_all
    have p1: "pointer ?it1
              = pointer itk + (Element_bits cfg * layout (stride prm) ?res) sdiv 8
                + inc_advance prm * (coord_at t ?a - 1)"
      using add_tile_offset_residue_pointer [OF rk fast tadv rank] by (simp only: fk)
    have prm1: "params ?it1 = prm" unfolding add_tile_offset_params by (rule fk)
    have inv1: "pointer ?it1
                = (ptr + ?O (layout (stride prm) ?toff)
                     + (Element_bits cfg * layout (stride prm) ?res) sdiv 8
                     + inc_advance prm * (coord_at t ?a - 1))
                  + iteration_strided (the_predicates ?it1) * inc_strided (params ?it1)"
      unfolding p1 pk prm1 add_tile_offset_cursor by simp
    have "pointer itn
          = ((ptr + ?O (layout (stride prm) ?toff)
                     + (Element_bits cfg * layout (stride prm) ?res) sdiv 8
                     + inc_advance prm * (coord_at t ?a - 1))
             + inc_advance (params ?it1) * tile_steps cfg ops)
            + iteration_strided (the_predicates itn) * inc_strided (params ?it1)"
      unfolding itn'
      by (rule run_ops_pointer_steady [OF fast rank _ c1 r1 oadv inv1]) (simp add: prm1 prm)
    moreover have "inc_advance prm * (n - 1)
          = inc_advance prm * (coord_at t ?a - 1) + inc_advance prm * tile_steps cfg ops"
      by (simp add: n algebra_simps)
    ultimately have "pointer itn
          = ptr + (?O (layout (stride prm) ?toff)
                     + (Element_bits cfg * layout (stride prm) ?res) sdiv 8
                     + inc_advance prm * (n - 1))
            + iteration_strided (the_predicates itn) * inc_strided prm"
      by (simp add: prm1)
    then have pn: "pointer itn
          = ptr + ?O (layout (stride prm) (coord_add ?toff (tile_origin cfg ext tb n)))
            + iteration_strided (the_predicates itn) * inc_strided prm"
      by (simp only: tile_base_offset(1) [OF rank pa al])
    have gn: "get cfg itn = Some (ptr + ?O (layout (stride prm) con))"
      unfolding con tile_coord_def
      by (rule get_plain_address [OF fast prm al_ke al_dc al_st tile_base_offset(2) [OF rank pa al] pn])
    from gk gn show ?thesis by simp
  qed
  from e1 v1 s1 vn two addr show ?thesis by blast
qed

lemma it_short_cursor0:
  "iteration_vector (the_predicates it_short) = 0"
  "iteration_contiguous (the_predicates it_short) = 0"
  "iteration_strided (the_predicates it_short) = 0"
  unfolding it_short_def ctor_the_predicates by (simp_all add: set_predicates_cursor)

lemma example_traversal:
  "nonneg_geometry cfg_example 5 (make_Coord 0 0)"
  "nonneg_geometry cfg_gather 1 (make_Coord 0 0)"
  "advance_only cfg_example
     [Op_add_tile_offset (make_Coord 1 0), Op_inc, Op_inc, Op_inc, Op_inc, Op_inc]"
  "advance_only cfg_gather [Op_add_tile_offset (make_Coord 1 0)]"
  "tile_steps cfg_example
     [Op_add_tile_offset (make_Coord 1 0), Op_inc, Op_inc, Op_inc, Op_inc, Op_inc] = 1"
  "params_advance_ok cfg_example prm_example"
  "byte_aligned cfg_example prm_example ext 5 (make_Coord 0 0)"
  "residue_size cfg_example (make_Coord 130 64) (make_Coord 0 0) = 2"
  "residue_size cfg_example (make_Coord 130 10) (make_Coord 0 0) = 2"
  "residue_extent cfg_example (make_Coord 130 64) (make_Coord 0 0) = make_Coord 2 64"
  "residue_extent cfg_gather (make_Coord 130 64) (make_Coord 0 0) = make_Coord 2 64"
  by (simp_all add: nonneg_geometry_def advance_only.simps tile_steps.simps params_advance_ok_def
      byte_aligned_def residue_size_def residue_extent_def coord_at_def make_Coord_def
      cfg_example_def cfg_gather_def prm_example_def signed_modulo_int_def signed_divide_int_def)

lemma example_tile_cursor:
  "iteration_vector (the_predicates (run_ops cfg_example
     [Op_add_tile_offset (make_Coord 1 0), Op_inc, Op_inc, Op_inc, Op_inc, Op_inc] it_example)) = 0"
  "iteration_contiguous (the_predicates (run_ops cfg_example
     [Op_add_tile_offset (make_Coord 1 0), Op_inc, Op_inc, Op_inc, Op_inc, Op_inc] it_example)) = 1"
  "iteration_strided (the_predicates (run_ops cfg_example
     [Op_add_tile_offset (make_Coord 1 0), Op_inc, Op_inc, Op_inc, Op_inc, Op_inc] it_example)) = 1"
  "iteration_vector (the_predicates (run_ops cfg_example
     [Op_add_tile_offset (make_Coord 1 0), Op_inc, Op_inc, Op_inc, Op_inc, Op_inc] it_short)) = 0"
  "iteration_contiguous (the_predicates (run_ops cfg_example
     [Op_add_tile_offset (make_Coord 1 0), Op_inc, Op_inc, Op_inc, Op_inc, Op_inc] it_short)) = 1"
  "iteration_strided (the_predicates (run_ops cfg_example
     [Op_add_tile_offset (make_Coord 1 0), Op_inc, Op_inc, Op_inc, Op_inc, Op_inc] it_short)) = 1"
  by (simp_all add: operator_inc_cursor add_tile_offset_cursor it_example_cursor0 it_short_cursor0
      cfg_example_consts)

lemma make_Coord_simps:
  "contiguous (make_Coord x y) = x" "strided (make_Coord x y) = y"
  "coord_add (make_Coord x y) (make_Coord u v) = make_Coord (x + u) (y + v)"
  "(make_Coord x y = make_Coord u v) = (x = u \<and> y = v)"
  by (simp_all add: make_Coord_def coord_add_def)

lemma example_initial_offset:
  "initial_offset cfg_example 5 = make_Coord 5 0"
  "initial_offset cfg_gather 1 = make_Coord 1 0"
  by (simp_all add: cfg_example_def cfg_gather_def make_Coord_def)

lemma it_short_coord0:
  "cursor_coord cfg_example it_short = make_Coord 5 0"
proof -
  have "thread_offset (the_predicates it_short)
        = coord_add (make_Coord 0 0) (initial_offset cfg_example 5)"
    unfolding it_short_def by (rule ctor_fields)
  then show ?thesis
    by (simp add: cursor_coord_def it_short_cursor0 access_coord_def iteration_coord_def
        example_initial_offset make_Coord_simps)
qed

lemma example_tile_coord:
  "cursor_coord cfg_example it_example = make_Coord 5 0"
  "tile_coord cfg_example (make_Coord 130 64) 5 (make_Coord 0 0) 1
     (run_ops cfg_example
        [Op_add_tile_offset (make_Coord 1 0), Op_inc, Op_inc, Op_inc, Op_inc, Op_inc] it_example)
   = make_Coord 39 16"
  "tile_coord cfg_example (make_Coord 130 10) 5 (make_Coord 0 0) 1
     (run_ops cfg_example
        [Op_add_tile_offset (make_Coord 1 0), Op_inc, Op_inc, Op_inc, Op_inc, Op_inc] it_short)
   = make_Coord 39 16"
  "coord_at (coord_add (initial_offset cfg_example 5) (iteration_coord cfg_example 0 1 1))
     (kAdvanceRank cfg_example) = 37"
  using it_example_thread_offset [of 0]
  by (simp_all only: tile_coord_def example_tile_cursor)
     (simp_all add: cursor_coord_def access_coord_def it_example_cursor0
      tile_origin_def example_traversal(8,9) example_initial_offset iteration_coord_def
      coord_at_def make_Coord_simps cfg_example_consts)

theorem bounds_fidelity_amended_witness:
  "valid_config cfg_example \<and> nonneg_geometry cfg_example 5 (make_Coord 0 0)
   \<and> \<not> valid cfg_example it_example
   \<and> valid cfg_gather it_gather
   \<and> get cfg_example it_example = Some 1020
   \<and> valid cfg_example
        (run_ops cfg_example
           [Op_add_tile_offset (make_Coord 1 0), Op_inc, Op_inc, Op_inc, Op_inc, Op_inc] it_example)
   \<and> get cfg_example
        (run_ops cfg_example
           [Op_add_tile_offset (make_Coord 1 0), Op_inc, Op_inc, Op_inc, Op_inc, Op_inc] it_example)
      = Some 9476
   \<and> \<not> valid cfg_example
        (run_ops cfg_example
           [Op_add_tile_offset (make_Coord 1 0), Op_inc, Op_inc, Op_inc, Op_inc, Op_inc] it_short)"
  using bounds_fidelity_amended [OF cfg_example_valid example_traversal(1) it_example_def refl
      example_traversal(3) refl refl refl refl, of 0]
    bounds_fidelity_amended [OF cfg_example_valid example_traversal(1) it_short_def refl
      example_traversal(3) refl refl refl refl, of 0]
    bounds_fidelity_amended [OF cfg_gather_valid example_traversal(2) it_gather_def refl
      example_traversal(4) refl refl refl refl, of 0]
    cfg_example_valid example_traversal(1,6,7) params_example_ok(1) it_example_eval(1,2)
  by (simp only: funpow_0 example_traversal(5) example_tile_cursor example_tile_coord)
     (simp add: example_traversal(8,9,10,11) it_gather_coord0 it_short_coord0
      it_example_residue(2) example_initial_offset it_example_cursor0 it_gather_cursor0
      it_short_cursor0 iteration_coord_def cfg_example_consts cfg_gather_consts make_Coord_simps
      coord_at_def OffsetBytes_def layout_def)

theorem bounds_fidelity_counterexample:
  "\<not> (valid cfg_example it_example \<longleftrightarrow>
        0 \<le> contiguous (cursor_coord cfg_example it_example)
        \<and> contiguous (cursor_coord cfg_example it_example)
            < contiguous (extent (the_predicates it_example))
        \<and> 0 \<le> strided (cursor_coord cfg_example it_example)
        \<and> strided (cursor_coord cfg_example it_example)
            < strided (extent (the_predicates it_example)))"
  by code_simp

text \<open>
  The tile has to lie inside the extent for the two-axis reading: two tile steps take
  thread 5 of the example to contiguous coordinate 135 of a tensor 130 wide, where
  \<^verbatim>\<open>get()\<close> points and \<^verbatim>\<open>valid()\<close> is still true.
\<close>

lemma tile_beyond_extent_example:
  "valid cfg_example
     (run_ops cfg_example [Op_add_tile_offset (make_Coord 2 0)] it_example)
   \<and> tile_coord cfg_example (make_Coord 130 64) 5 (make_Coord 0 0) 2
        (run_ops cfg_example [Op_add_tile_offset (make_Coord 2 0)] it_example)
      = make_Coord 135 0
   \<and> get cfg_example (run_ops cfg_example [Op_add_tile_offset (make_Coord 2 0)] it_example)
      = Some (1000 + OffsetBytes cfg_example (layout (stride prm_example) (make_Coord 135 0)))
   \<and> \<not> contiguous (make_Coord 135 0) < contiguous (make_Coord 130 64)"
  by code_simp

section \<open>The adapters refine the canonical iterator\<close>

lemma spec_RowMajor_config_eq:
  assumes "AdvanceRank mc = 0 \<or> AdvanceRank mc = 1"
  shows "spec_RowMajor_config mc = RowMajor_Underlying mc"
  using assms
  by (auto simp add: spec_RowMajor_config_def RowMajor_Underlying_def spec_canonical_config_def
      spec_swap_axes_def spec_shape_def make_Coord_def)

lemma spec_RowMajorInterleaved_config_eq:
  assumes "AdvanceRank mc = 0 \<or> AdvanceRank mc = 1"
  shows "spec_RowMajorInterleaved_config mc = RowMajorInterleaved_Underlying mc"
  using assms
  by (auto simp add: spec_RowMajorInterleaved_config_def RowMajorInterleaved_Underlying_def
      spec_canonical_config_def spec_swap_axes_def spec_shape_def make_Coord_def
      spec_scale_contiguous_def)

lemma spec_ColumnMajorInterleaved_config_eq:
  assumes "AdvanceRank mc = 0 \<or> AdvanceRank mc = 1"
  shows "spec_ColumnMajorInterleaved_config mc = ColumnMajorInterleaved_Underlying mc"
  using assms
  by (auto simp add: spec_ColumnMajorInterleaved_config_def ColumnMajorInterleaved_Underlying_def
      spec_canonical_config_def spec_keep_axes_def spec_shape_def make_Coord_def
      spec_scale_contiguous_def)

lemma RowMajor_call_iterator:
  "iterator (RowMajor_call mc x a)
   = spec_canonical_call (RowMajor_Underlying mc) spec_swap_axes x (iterator a)"
  by (cases x) (simp_all add: spec_swap_axes_def)

lemma RowMajorInterleaved_call_iterator:
  "iterator (RowMajorInterleaved_call mc x a)
   = spec_canonical_call (RowMajorInterleaved_Underlying mc) spec_swap_axes x (iterator a)"
  by (cases x) (simp_all add: spec_swap_axes_def)

lemma ColumnMajorInterleaved_call_iterator:
  "iterator (ColumnMajorInterleaved_call mc x a)
   = spec_canonical_call (ColumnMajorInterleaved_Underlying mc) spec_keep_axes x (iterator a)"
  by (cases x) (simp_all add: spec_keep_axes_def)

lemma fold_adapter_calls:
  assumes "\<And>x a. iterator (call x a) = core x (iterator a)"
  shows "iterator (fold call calls a) = fold core calls (iterator a)"
  by (induction calls arbitrary: a) (simp_all add: assms)

text \<open>
  Claim C8 (layout-adapter refinement). For every sequence of calls (\<^verbatim>\<open>operator++\<close>,
  \<^verbatim>\<open>add_tile_offset\<close>, \<^verbatim>\<open>clear_mask\<close>, \<^verbatim>\<open>enable_mask\<close>, \<^verbatim>\<open>set_mask\<close>) issued after
  construction, the underlying state of the row-major adapter is the canonical pitch-linear
  iterator constructed on the axis-swapped shape, extent and threadblock offset and driven
  by the same calls with axis-swapped tile offsets, and \<^verbatim>\<open>get\<close>, \<^verbatim>\<open>valid\<close> and
  \<^verbatim>\<open>get_mask\<close> return what the canonical iterator returns; likewise for the two
  interleaved adapters, whose shape, extent and threadblock offset have one axis multiplied
  by the interleave factor and the other divided by it.
\<close>

theorem layout_adapter_refinement:
  assumes rank: "AdvanceRank mc = 0 \<or> AdvanceRank mc = 1"
    and rm: "rm = fold (RowMajor_call mc) calls
               (RowMajor_PredicatedTileAccessIterator mc prm ptr ext tid tb idxs)"
    and ri: "ri = fold (RowMajorInterleaved_call mc) calls
               (RowMajorInterleaved_PredicatedTileAccessIterator mc prm ptr ext tid tb idxs)"
    and ci: "ci = fold (ColumnMajorInterleaved_call mc) calls
               (ColumnMajorInterleaved_PredicatedTileAccessIterator mc prm ptr ext tid tb idxs)"
    and srm: "srm = spec_RowMajor_run mc prm ptr ext tid tb idxs calls"
    and sri: "sri = spec_RowMajorInterleaved_run mc prm ptr ext tid tb calls"
    and sci: "sci = spec_ColumnMajorInterleaved_run mc prm ptr ext tid tb calls"
  shows "(iterator rm = srm
          \<and> RowMajor_get mc rm = get (spec_RowMajor_config mc) srm
          \<and> RowMajor_valid mc rm = valid (spec_RowMajor_config mc) srm
          \<and> RowMajor_get_mask mc rm m = get_mask (spec_RowMajor_config mc) srm m)
       \<and> (iterator ri = sri
          \<and> RowMajorInterleaved_get mc ri = get (spec_RowMajorInterleaved_config mc) sri
          \<and> RowMajorInterleaved_valid mc ri = valid (spec_RowMajorInterleaved_config mc) sri
          \<and> RowMajorInterleaved_get_mask mc ri m
              = get_mask (spec_RowMajorInterleaved_config mc) sri m)
       \<and> (iterator ci = sci
          \<and> ColumnMajorInterleaved_get mc ci = get (spec_ColumnMajorInterleaved_config mc) sci
          \<and> ColumnMajorInterleaved_valid mc ci = valid (spec_ColumnMajorInterleaved_config mc) sci
          \<and> ColumnMajorInterleaved_get_mask mc ci m
              = get_mask (spec_ColumnMajorInterleaved_config mc) sci m)"
proof -
  have a: "iterator rm = srm"
    unfolding rm srm spec_RowMajor_run_def spec_RowMajor_config_eq [OF rank]
      fold_adapter_calls [of "RowMajor_call mc", OF RowMajor_call_iterator]
    by (simp add: RowMajor_PredicatedTileAccessIterator_def spec_swap_axes_def)
  have b: "iterator ri = sri"
    unfolding ri sri spec_RowMajorInterleaved_run_def spec_RowMajorInterleaved_config_eq [OF rank]
      fold_adapter_calls [of "RowMajorInterleaved_call mc", OF RowMajorInterleaved_call_iterator]
    by (simp add: RowMajorInterleaved_PredicatedTileAccessIterator_def spec_swap_axes_def
        spec_scale_contiguous_def make_Coord_def)
  have c: "iterator ci = sci"
    unfolding ci sci spec_ColumnMajorInterleaved_run_def
      spec_ColumnMajorInterleaved_config_eq [OF rank]
      fold_adapter_calls [of "ColumnMajorInterleaved_call mc",
        OF ColumnMajorInterleaved_call_iterator]
    by (simp add: ColumnMajorInterleaved_PredicatedTileAccessIterator_def spec_keep_axes_def
        spec_scale_contiguous_def make_Coord_def)
  show ?thesis
    unfolding RowMajor_get_def RowMajor_valid_def RowMajor_get_mask_def
      RowMajorInterleaved_get_def RowMajorInterleaved_valid_def RowMajorInterleaved_get_mask_def
      ColumnMajorInterleaved_get_def ColumnMajorInterleaved_valid_def
      ColumnMajorInterleaved_get_mask_def
      spec_RowMajor_config_eq [OF rank] spec_RowMajorInterleaved_config_eq [OF rank]
      spec_ColumnMajorInterleaved_config_eq [OF rank] a b c
    by simp
qed

lemma mc_example_rank: "AdvanceRank mc_example = 0 \<or> AdvanceRank mc_example = 1"
  by (simp add: mc_example_def)

theorem layout_adapter_refinement_witness:
  "(AdvanceRank mc_example = 0 \<or> AdvanceRank mc_example = 1)
   \<and> RowMajor_get mc_example
        (fold (RowMajor_call mc_example)
           [Mat_inc, Mat_add_tile_offset \<lparr>row = 0, column = 1\<rparr>, Mat_inc]
           (RowMajor_PredicatedTileAccessIterator mc_example prm_example 1000
              \<lparr>row = 64, column = 130\<rparr> 5 \<lparr>row = 0, column = 0\<rparr> (\<lambda>i. i)))
       = get (spec_RowMajor_config mc_example)
           (spec_RowMajor_run mc_example prm_example 1000 \<lparr>row = 64, column = 130\<rparr> 5
              \<lparr>row = 0, column = 0\<rparr> (\<lambda>i. i)
              [Mat_inc, Mat_add_tile_offset \<lparr>row = 0, column = 1\<rparr>, Mat_inc])
   \<and> RowMajorInterleaved_valid mc_example
        (fold (RowMajorInterleaved_call mc_example)
           [Mat_inc, Mat_add_tile_offset \<lparr>row = 0, column = 1\<rparr>, Mat_inc]
           (RowMajorInterleaved_PredicatedTileAccessIterator mc_example prm_example 1000
              \<lparr>row = 64, column = 130\<rparr> 5 \<lparr>row = 0, column = 0\<rparr> (\<lambda>i. i)))
       = valid (spec_RowMajorInterleaved_config mc_example)
           (spec_RowMajorInterleaved_run mc_example prm_example 1000 \<lparr>row = 64, column = 130\<rparr> 5
              \<lparr>row = 0, column = 0\<rparr>
              [Mat_inc, Mat_add_tile_offset \<lparr>row = 0, column = 1\<rparr>, Mat_inc])"
  using layout_adapter_refinement [OF mc_example_rank refl refl refl refl refl refl,
      of "[Mat_inc, Mat_add_tile_offset \<lparr>row = 0, column = 1\<rparr>, Mat_inc]" prm_example 1000
         "\<lparr>row = 64, column = 130\<rparr>" 5 "\<lparr>row = 0, column = 0\<rparr>" "\<lambda>i. i"]
    mc_example_rank
  by blast


end
